theory Spec2Isabelle
  imports Complex_Main
begin

section \<open>Conventions of the embedding\<close>

text \<open>
  The repository is a suite of React components, one per calculator. Each component
  keeps its inputs in \<open>useState\<close> slots holding the text of an HTML control, has one
  more slot \<open>result\<close>, and a handler (\<open>calculate...\<close>) that reads the input slots and
  either returns early or calls \<open>setResult\<close> with a fresh record.

  \<^item> JavaScript numbers are modelled as \<^typ>\<open>real\<close>: rounding of IEEE doubles is
    left out and every formula is read over the reals, with one exception. The vent
    areas of the attic calculator are computed with the rounding of each operation
    written out (\<open>toDouble\<close> below), because a claim about them asks for exact
    equality. Where a property of the real-number model would not survive rounding, or
    overflow and underflow of a double, the theorem about it keeps to inputs at a
    distance from these effects and says so.
  \<^item> A text slot is a \<open>field\<close>: \<open>None\<close> is the empty string (the only string for which
    \<open>!s\<close> holds), \<open>Some x\<close> is a string that \<open>parseFloat\<close> reads as \<open>x\<close>. Every text
    slot is bound to an \<open>input type="number"\<close> or to a \<open>select\<close> with fixed options, so
    a slot never holds a non-empty string that does not parse.
  \<^item> A component is its input slots and its \<open>result\<close> slot; a handler is a function
    from the component's state to its next state: \<open>return\<close> before \<open>setResult\<close> leaves
    the state as it is, \<open>setResult r\<close> stores \<open>Some r\<close>.
\<close>

type_synonym field = "real option"

record ('i, 'r) component =
  inputs :: 'i
  result :: "'r option"

text \<open>
  \<open>x.toFixed(f)\<close> prints the decimal with \<open>f\<close> fraction digits nearest to \<open>x\<close>, the
  larger magnitude on a tie. The model returns the number that is printed.
\<close>

definition toFixed :: "nat \<Rightarrow> real \<Rightarrow> real" where
  "toFixed f x = sgn x * of_int \<lfloor>\<bar>x\<bar> * 10 ^ f + 1 / 2\<rfloor> / 10 ^ f"

text \<open>
  Rounding to double precision. \<open>roundTiesToEven q\<close> is the integer nearest to \<open>q\<close>, the
  even one of the two on a tie. \<open>toDouble x\<close> is the number with a significand of 53 bits
  nearest to \<open>x\<close>; it is the result of an IEEE 754 operation whose exact result is \<open>x\<close>,
  as long as \<open>x\<close> is 0 or lies in the range of normal doubles (from 2^-1022 to just
  below 2^1024 in absolute value): the exponent is not bounded here, so overflow to
  infinity and the coarser spacing of subnormal numbers are not modelled.
\<close>

definition roundTiesToEven :: "real \<Rightarrow> int" where
  "roundTiesToEven q =
     (let n = \<lfloor>q\<rfloor>
      in if q - of_int n < 1 / 2 then n
         else if q - of_int n > 1 / 2 then n + 1
         else if even n then n else n + 1)"

definition toDouble :: "real \<Rightarrow> real" where
  "toDouble x =
     (if x = 0 then 0
      else (let e = \<lfloor>log 2 \<bar>x\<bar>\<rfloor> - 52
            in of_int (roundTiesToEven (x / 2 powr of_int e)) * 2 powr of_int e))"

section \<open>Run capacitor calculator (CapacitorCalculator.tsx)\<close>

record RatedComparison =
  rated_value :: real
  withinRange :: bool
  percentDeviation :: real

record CapacitorResult =
  capacitance :: real
  tolerance_min :: real
  tolerance_max :: real
  ratedComparison :: "RatedComparison option"

record CapacitorInputs =
  startWinding :: field
  voltage :: field
  ratedCapacitance :: field

text \<open>
  The comparison with the rated value: the object literal is built only when the rated
  capacitance is given, and is then filled in with the deviation in percent.
\<close>

definition compareRated :: "real \<Rightarrow> real \<Rightarrow> RatedComparison" where
  "compareRated cap rated =
     (let deviation = ((cap - rated) / rated) * 100
      in \<lparr>rated_value = rated, withinRange = (\<bar>deviation\<bar> \<le> 6),
          percentDeviation = deviation\<rparr>)"

definition calculateCapacitance ::
  "(CapacitorInputs, CapacitorResult) component \<Rightarrow> (CapacitorInputs, CapacitorResult) component"
where
  "calculateCapacitance s =
     (case (startWinding (inputs s), voltage (inputs s)) of
        (Some current, Some volts) \<Rightarrow>
          (let cap = (2653 * current) / volts
           in s\<lparr>result := Some
                \<lparr>capacitance = cap,
                 tolerance_min = cap * 0.94,
                 tolerance_max = cap * 1.06,
                 ratedComparison =
                   map_option (compareRated cap) (ratedCapacitance (inputs s))\<rparr>\<rparr>)
      | _ \<Rightarrow> s)"

text \<open>
  What the component prints of a result: capacitance and the two ends of the tolerance
  range, each with \<open>toFixed(1)\<close>.
\<close>

definition shownCapacitor :: "CapacitorResult \<Rightarrow> real \<times> real \<times> real" where
  "shownCapacitor r =
     (toFixed 1 (capacitance r), toFixed 1 (tolerance_min r), toFixed 1 (tolerance_max r))"


section \<open>Messages\<close>

text \<open>
  Warnings and recommendations are strings; some are template literals that embed a
  number. A message is the list of its pieces: \<open>Lit\<close> is literal text, \<open>Val x\<close> is the
  place where the number \<open>x\<close> is printed.
\<close>

datatype piece = Lit string | Val real

type_synonym message = "piece list"

section \<open>Dehumidifier sizing calculator (System Performance Calculator.tsx, second component)\<close>

definition BTU_TO_PINTS :: real where
  "BTU_TO_PINTS = 0.0833"

definition SAFETY_FACTOR :: real where
  "SAFETY_FACTOR = 1.2"

definition STANDARD_SIZES :: "real list" where
  "STANDARD_SIZES = [20, 30, 35, 50, 70, 90, 120, 150, 180, 250]"

record DehumidifierResult =
  requiredCapacity :: real
  pintsPerDay :: real
  recommendedSize :: message
  warnings_dh :: "message list"

record DehumidifierInputs =
  latentLoad :: field
  indoorTemp :: field
  indoorRH :: field

text \<open>
  \<open>capacityFactor\<close> starts at 1.0 and is multiplied in place: by 0.7 below 65 F, by 0.85
  from 65 F to below 70 F, and by 0.8 when the relative humidity is below 60.
\<close>

definition capacityFactor :: "real \<Rightarrow> real \<Rightarrow> real" where
  "capacityFactor temp rh =
     (let cf = (if temp < 65 then 1.0 * 0.7 else if temp < 70 then 1.0 * 0.85 else 1.0)
      in if rh < 60 then cf * 0.8 else cf)"

text \<open>
  \<open>STANDARD_SIZES.find(size => size >= requiredCapacity) || STANDARD_SIZES[STANDARD_SIZES.length - 1]\<close>:
  the first size of the ascending list that reaches the capacity, the last size when
  \<open>find\<close> gives \<open>undefined\<close>.
\<close>

definition standardSize :: "real \<Rightarrow> real" where
  "standardSize required =
     (case find (\<lambda>sz. sz \<ge> required) STANDARD_SIZES of
        Some sz \<Rightarrow> sz
      | None \<Rightarrow> last STANDARD_SIZES)"

definition calculateDehumidifierSize ::
  "(DehumidifierInputs, DehumidifierResult) component \<Rightarrow>
   (DehumidifierInputs, DehumidifierResult) component"
where
  "calculateDehumidifierSize s =
     (case (latentLoad (inputs s), indoorTemp (inputs s), indoorRH (inputs s)) of
        (Some latentBTU, Some temp, Some rh) \<Rightarrow>
          (let ppd = latentBTU * BTU_TO_PINTS * 24;
               w1 = (if temp < 65
                     then [[Lit ''Low temperature will reduce dehumidifier efficiency'']]
                     else []);
               w2 = w1 @ (if rh < 60
                     then [[Lit ''Low relative humidity will reduce moisture removal rate'']]
                     else []);
               required = (ppd / capacityFactor temp rh) * SAFETY_FACTOR;
               sz = standardSize required;
               w3 = w2 @ (if sz < required
                     then [[Lit ''Required capacity exceeds largest standard residential unit - consider multiple units or a commercial system'']]
                     else []);
               w4 = w3 @ (if rh > 65
                     then [[Lit ''High relative humidity may require additional run time or larger unit'']]
                     else [])
           in s\<lparr>result := Some
                \<lparr>requiredCapacity = required, pintsPerDay = ppd,
                 recommendedSize = [Val sz, Lit '' PPD''], warnings_dh = w4\<rparr>\<rparr>)
      | _ \<Rightarrow> s)"

section \<open>Attic ventilation calculator (AtticVentilationCalculator.tsx)\<close>

definition STACK_EFFECT_COEFFICIENT :: real where
  "STACK_EFFECT_COEFFICIENT = 0.0188"

text \<open>The two ratios are quotients computed when the module is loaded, hence doubles.\<close>

definition MIN_VENT_RATIO :: real where
  "MIN_VENT_RATIO = toDouble (1 / 300)"

definition RECOMMENDED_VENT_RATIO :: real where
  "RECOMMENDED_VENT_RATIO = toDouble (1 / 150)"

definition INTAKE_TO_EXHAUST_RATIO :: real where
  "INTAKE_TO_EXHAUST_RATIO = 1.5"

datatype VentilationStatus = Adequate | Inadequate | Critical

record VentilationResult =
  pressureDifferential :: real
  temperatureDifferential :: real
  dewPointDifferential :: real
  stackEffect :: real
  requiredVentArea_intake :: real
  requiredVentArea_exhaust :: real
  recommendations :: "message list"
  warnings_attic :: "message list"
  ventilationStatus :: VentilationStatus

record AtticInputs =
  pressureDifferential_in :: field
  outdoorTemp :: field
  outdoorDewPoint :: field
  atticTemp :: field
  atticDewPoint :: field
  atticArea :: field
  existingIntakeArea :: field
  existingExhaustArea :: field

text \<open>
  The handler fills two arrays and one status variable as it goes. The model threads
  them through the checks in the source's order.
\<close>

record AtticNotes =
  recs :: "message list"
  warns :: "message list"
  status :: VentilationStatus

definition recommend :: "message \<Rightarrow> AtticNotes \<Rightarrow> AtticNotes" where
  "recommend m n = n\<lparr>recs := recs n @ [m]\<rparr>"

definition warn :: "message \<Rightarrow> AtticNotes \<Rightarrow> AtticNotes" where
  "warn m n = n\<lparr>warns := warns n @ [m]\<rparr>"

text \<open>The checks on the measured differentials.\<close>

definition assessConditions :: "real \<Rightarrow> real \<Rightarrow> real \<Rightarrow> AtticNotes \<Rightarrow> AtticNotes" where
  "assessConditions tempDiff pressure dewPointDiff n0 =
     (let n1 = (if tempDiff > 20
                then (warn [Lit ''High temperature differential indicates insufficient ventilation''] n0)
                       \<lparr>status := Inadequate\<rparr>
                else n0);
          n2 = (if tempDiff > 30
                then (warn [Lit ''Critical temperature differential - immediate action recommended''] n1)
                       \<lparr>status := Critical\<rparr>
                else n1);
          n3 = (if \<bar>pressure\<bar> > 2
                then (warn [Lit ''High pressure differential may indicate blocked vents or insufficient ventilation''] n2)
                       \<lparr>status := Inadequate\<rparr>
                else n2)
      in if dewPointDiff > 5
         then (warn [Lit ''High moisture levels in attic - increased ventilation recommended''] n3)
                \<lparr>status := Inadequate\<rparr>
         else n3)"

text \<open>
  The comparison with the existing vents. \<open>existingIntake && existingExhaust\<close> holds when
  both numbers are non-zero.
\<close>

definition compareExisting ::
  "real \<Rightarrow> real \<Rightarrow> real \<Rightarrow> real \<Rightarrow> real \<Rightarrow> real \<Rightarrow> AtticNotes \<Rightarrow> AtticNotes"
where
  "compareExisting existingIntake existingExhaust minVentArea recommendedVentArea
       requiredIntake requiredExhaust n0 =
     (if existingIntake \<noteq> 0 \<and> existingExhaust \<noteq> 0 then
        (let totalExisting = existingIntake + existingExhaust;
             n1 = (if totalExisting < minVentArea
                   then (warn [Lit ''Existing ventilation area below minimum code requirements''] n0)
                          \<lparr>status := Critical\<rparr>
                   else if totalExisting < recommendedVentArea
                   then recommend [Lit ''Consider increasing ventilation area to meet recommended guidelines''] n0
                   else n0);
             n2 = (if existingIntake < requiredIntake
                   then recommend [Lit ''Add '', Val (toFixed 1 (requiredIntake - existingIntake)),
                                   Lit '' sq ft of intake ventilation''] n1
                   else n1)
         in if existingExhaust < requiredExhaust
            then recommend [Lit ''Add '', Val (toFixed 1 (requiredExhaust - existingExhaust)),
                            Lit '' sq ft of exhaust ventilation''] n2
            else n2)
      else
        recommend [Lit ''Install '', Val (toFixed 1 requiredExhaust),
                   Lit '' sq ft of exhaust ventilation'']
          (recommend [Lit ''Install '', Val (toFixed 1 requiredIntake),
                      Lit '' sq ft of intake ventilation''] n0))"

definition balancePressure :: "real \<Rightarrow> AtticNotes \<Rightarrow> AtticNotes" where
  "balancePressure pressure n =
     (if pressure > 0
      then recommend [Lit ''Consider adding more exhaust ventilation to balance pressure''] n
      else if pressure < 0
      then recommend [Lit ''Consider adding more intake ventilation to balance pressure''] n
      else n)"

text \<open>
  The handler. The vent areas are computed in double precision, one rounding for each
  multiplication, division, addition and subtraction of the source; the differentials
  and the stack effect are read over the reals.
\<close>

definition calculateVentilation ::
  "(AtticInputs, VentilationResult) component \<Rightarrow> (AtticInputs, VentilationResult) component"
where
  "calculateVentilation s =
     (case (pressureDifferential_in (inputs s), outdoorTemp (inputs s),
            outdoorDewPoint (inputs s), atticTemp (inputs s), atticDewPoint (inputs s),
            atticArea (inputs s)) of
        (Some pressure, Some outTemp, Some outDP, Some attTemp, Some attDP, Some area) \<Rightarrow>
          (let existingIntake = (case existingIntakeArea (inputs s) of Some x \<Rightarrow> x | None \<Rightarrow> 0);
               existingExhaust = (case existingExhaustArea (inputs s) of Some x \<Rightarrow> x | None \<Rightarrow> 0);
               tempDiff = attTemp - outTemp;
               dewPointDiff = attDP - outDP;
               stack = STACK_EFFECT_COEFFICIENT * area * sqrt \<bar>tempDiff\<bar> * sgn tempDiff;
               minVentArea = toDouble (area * MIN_VENT_RATIO);
               recommendedVentArea = toDouble (area * RECOMMENDED_VENT_RATIO);
               totalRequiredVentArea = recommendedVentArea;
               requiredIntake =
                 toDouble (toDouble (totalRequiredVentArea * INTAKE_TO_EXHAUST_RATIO) /
                           toDouble (1 + INTAKE_TO_EXHAUST_RATIO));
               requiredExhaust = toDouble (totalRequiredVentArea - requiredIntake);
               n = balancePressure pressure
                     (compareExisting existingIntake existingExhaust minVentArea
                        recommendedVentArea requiredIntake requiredExhaust
                        (assessConditions tempDiff pressure dewPointDiff
                           \<lparr>recs = [], warns = [], status = Adequate\<rparr>))
           in s\<lparr>result := Some
                \<lparr>pressureDifferential = pressure,
                 temperatureDifferential = tempDiff,
                 dewPointDifferential = dewPointDiff,
                 stackEffect = stack,
                 requiredVentArea_intake = requiredIntake,
                 requiredVentArea_exhaust = requiredExhaust,
                 recommendations = recs n,
                 warnings_attic = warns n,
                 ventilationStatus = status n\<rparr>\<rparr>)
      | _ \<Rightarrow> s)"


section \<open>Psychrometric calculator, first version (System Performance Calculator.tsx)\<close>

text \<open>
  The repository holds two versions of the psychrometric component. Names of this
  version end in \<open>_sp\<close>, names of the version in the second unnamed source part end in
  \<open>_p1\<close>. Both declare the same constants.
\<close>

definition ATMOSPHERIC_PRESSURE :: real where
  "ATMOSPHERIC_PRESSURE = 14.696"

definition WATER_VAPOR_CONSTANT :: real where
  "WATER_VAPOR_CONSTANT = 17.625"

definition WATER_VAPOR_TEMP_CONSTANT :: real where
  "WATER_VAPOR_TEMP_CONSTANT = 243.04"

definition AIR_DENSITY :: real where
  "AIR_DENSITY = 0.075"

definition SPECIFIC_HEAT :: real where
  "SPECIFIC_HEAT = 0.24"

definition LATENT_HEAT :: real where
  "LATENT_HEAT = 1061"

datatype ClimateZone = HotHumid | Moist | Dry | Marine

fun cfmPerTon :: "ClimateZone \<Rightarrow> real" where
  "cfmPerTon HotHumid = 350"
| "cfmPerTon Moist = 400"
| "cfmPerTon Dry = 450"
| "cfmPerTon Marine = 400"

datatype HumidityType = RH | WB | DP

definition calculateSaturationPressure_sp :: "real \<Rightarrow> real" where
  "calculateSaturationPressure_sp t =
     (let celsius = (t - 32) * 5 / 9
      in 6.11 * exp ((WATER_VAPOR_CONSTANT * celsius) / (WATER_VAPOR_TEMP_CONSTANT + celsius)))"

text \<open>
  The wet-bulb loop of this version has no iteration cap: \<open>while (Math.abs(error) > 0.01)\<close>.
  It may run forever, so the model is a partial function into \<open>option\<close>: \<open>None\<close> is a
  call that never returns. The loop's state is \<open>wb\<close> and \<open>error\<close>; \<open>db\<close> and \<open>pw\<close> are
  fixed before the loop.
\<close>

partial_function (option) wetBulbLoop_sp :: "real \<Rightarrow> real \<Rightarrow> real \<Rightarrow> real \<Rightarrow> real option" where
  "wetBulbLoop_sp db pw wb error =
     (if \<bar>error\<bar> > 0.01 then
        (let pwsWb = calculateSaturationPressure_sp wb;
             w = (0.622 * pw) / (ATMOSPHERIC_PRESSURE - pw);
             wSat = (0.622 * pwsWb) / (ATMOSPHERIC_PRESSURE - pwsWb);
             error' = (db - wb) - ((wSat - w) * 1093)
         in wetBulbLoop_sp db pw (wb + error' / 100) error')
      else Some wb)"

definition calculateWetBulb_sp :: "real \<Rightarrow> real \<Rightarrow> real option" where
  "calculateWetBulb_sp db rh =
     (let pws = calculateSaturationPressure_sp db;
          pw = (rh / 100) * pws
      in wetBulbLoop_sp db pw db 1)"

text \<open>
  \<open>Math.log\<close> is minus infinity at 0 and NaN below 0, and a division by zero gives an
  infinity or NaN, whereas HOL's \<open>ln\<close> and \<open>/\<close> return numbers there. The dew point is
  therefore a \<open>real option\<close>: \<open>None\<close> stands for a result that is not a finite number.
  That is the case when \<open>rh \<le> 0\<close> (the logarithm), when \<open>243.04 + celsius = 0\<close> and when
  \<open>17.625 - alpha = 0\<close> (the two divisions). Rounding is left out: over the reals the dew
  point at \<open>rh = 100\<close> is the dry bulb itself, where the double computed by the source can
  differ from it in the last bits, to either side; and a positive \<open>rh\<close> so small that
  \<open>rh / 100\<close> underflows to 0 gives NaN in the source and a number here.
\<close>

definition calculateDewPoint_sp :: "real \<Rightarrow> real \<Rightarrow> real option" where
  "calculateDewPoint_sp db rh =
     (let celsius = (db - 32) * 5 / 9
      in if rh \<le> 0 \<or> WATER_VAPOR_TEMP_CONSTANT + celsius = 0 then None
         else
           (let alpha = ln (rh / 100) +
                  (WATER_VAPOR_CONSTANT * celsius) / (WATER_VAPOR_TEMP_CONSTANT + celsius)
            in if WATER_VAPOR_CONSTANT - alpha = 0 then None
               else
                 (let dewPointC = (WATER_VAPOR_TEMP_CONSTANT * alpha) /
                                  (WATER_VAPOR_CONSTANT - alpha)
                  in Some ((dewPointC * 9 / 5) + 32))))"

definition calculateHumidityRatio_sp :: "real \<Rightarrow> real \<Rightarrow> real" where
  "calculateHumidityRatio_sp db rh =
     (let pws = calculateSaturationPressure_sp db;
          pw = (rh / 100) * pws
      in (0.622 * pw) / (ATMOSPHERIC_PRESSURE - pw))"

definition calculateEnthalpy_sp :: "real \<Rightarrow> real \<Rightarrow> real" where
  "calculateEnthalpy_sp db w = SPECIFIC_HEAT * db + w * (LATENT_HEAT + 0.444 * db)"

definition calculateRHFromWetBulb_sp :: "real \<Rightarrow> real \<Rightarrow> real" where
  "calculateRHFromWetBulb_sp db wb =
     (let pwsDb = calculateSaturationPressure_sp db;
          pwsWb = calculateSaturationPressure_sp wb;
          w = ((1093 - 0.556 * wb) * pwsWb - 0.24 * (db - wb) * ATMOSPHERIC_PRESSURE) /
              ((1093 + 0.444 * db - wb) * ATMOSPHERIC_PRESSURE);
          pw = (w * ATMOSPHERIC_PRESSURE) / (0.622 + w)
      in (pw / pwsDb) * 100)"

record PsychrometricResult_sp =
  enteringWetBulb_sp :: real
  enteringDewPoint_sp :: "real option"
  enteringRH_sp :: real
  enteringEnthalpy_sp :: real
  leavingWetBulb_sp :: real
  leavingDewPoint_sp :: "real option"
  leavingRH_sp :: real
  leavingEnthalpy_sp :: real
  sensibleBtuh_sp :: real
  latentBtuh_sp :: real
  totalBtuh_sp :: real
  shr_sp :: real
  targetTemp_sp :: real
  nominalCapacity_sp :: real

record PsychrometricInputs_sp =
  systemSize_sp :: field
  climateZone_sp :: "ClimateZone option"
  airflow_sp :: field
  enteringDryBulb_sp :: field
  enteringHumidity_sp :: field
  enteringHumidityType_sp :: HumidityType
  leavingDryBulb_sp :: field
  leavingHumidity_sp :: field
  leavingHumidityType_sp :: HumidityType

text \<open>
  \<open>calculateTargetTemperature\<close> of this version is a closure of the component: it reads
  the slot \<open>enteringDryBulb\<close> itself and answers 75 when the slot is empty.
\<close>

definition calculateTargetTemperature_sp :: "field \<Rightarrow> real \<Rightarrow> real \<Rightarrow> real" where
  "calculateTargetTemperature_sp enteringDryBulb tons cfm =
     (let nominalCapacity = tons * 12000;
          shr = 0.8;
          sensibleCapacity = nominalCapacity * shr
      in case enteringDryBulb of
           Some edb \<Rightarrow> edb - (sensibleCapacity / (1.08 * cfm))
         | None \<Rightarrow> 75)"

text \<open>
  The relative humidity of an air state, from the humidity entered and its kind. This
  version takes the entered relative humidity as it is.
\<close>

definition resolveRH_sp :: "HumidityType \<Rightarrow> real \<Rightarrow> real \<Rightarrow> real" where
  "resolveRH_sp kind db humidity =
     (case kind of
        RH \<Rightarrow> humidity
      | WB \<Rightarrow> calculateRHFromWetBulb_sp db humidity
      | DP \<Rightarrow>
          (let pwsDp = calculateSaturationPressure_sp humidity;
               pwsDb = calculateSaturationPressure_sp db
           in (pwsDp / pwsDb) * 100))"

text \<open>
  The handler. It calls \<open>calculateWetBulb\<close> for the entering air and then for the leaving
  air; when one of the two loops does not return, neither does the handler (\<open>None\<close>).
\<close>

definition calculateProperties_sp ::
  "(PsychrometricInputs_sp, PsychrometricResult_sp) component \<Rightarrow>
   (PsychrometricInputs_sp, PsychrometricResult_sp) component option"
where
  "calculateProperties_sp s =
     (case (enteringDryBulb_sp (inputs s), enteringHumidity_sp (inputs s),
            leavingDryBulb_sp (inputs s), leavingHumidity_sp (inputs s),
            airflow_sp (inputs s), systemSize_sp (inputs s)) of
        (Some enteringDB, Some enteringHum, Some leavingDB, Some leavingHum, Some cfm, Some tons) \<Rightarrow>
          (let nominalBtuh = tons * 12000;
               targetTemp = calculateTargetTemperature_sp (enteringDryBulb_sp (inputs s)) tons cfm;
               enteringRH = resolveRH_sp (enteringHumidityType_sp (inputs s)) enteringDB enteringHum
           in case calculateWetBulb_sp enteringDB enteringRH of
                None \<Rightarrow> None
              | Some enteringWB \<Rightarrow>
                  (let enteringW = calculateHumidityRatio_sp enteringDB enteringRH;
                       enteringH = calculateEnthalpy_sp enteringDB enteringW;
                       enteringDP = calculateDewPoint_sp enteringDB enteringRH;
                       leavingRH = resolveRH_sp (leavingHumidityType_sp (inputs s)) leavingDB leavingHum
                   in case calculateWetBulb_sp leavingDB leavingRH of
                        None \<Rightarrow> None
                      | Some leavingWB \<Rightarrow>
                          (let leavingW = calculateHumidityRatio_sp leavingDB leavingRH;
                               leavingH = calculateEnthalpy_sp leavingDB leavingW;
                               leavingDP = calculateDewPoint_sp leavingDB leavingRH;
                               airMassFlow = cfm * 60 * AIR_DENSITY;
                               sensibleBtuh = airMassFlow * SPECIFIC_HEAT * (enteringDB - leavingDB);
                               totalBtuh = airMassFlow * (enteringH - leavingH);
                               latentBtuh = totalBtuh - sensibleBtuh;
                               shr = sensibleBtuh / totalBtuh
                           in Some (s\<lparr>result := Some
                                \<lparr>enteringWetBulb_sp = enteringWB,
                                 enteringDewPoint_sp = enteringDP,
                                 enteringRH_sp = enteringRH,
                                 enteringEnthalpy_sp = enteringH,
                                 leavingWetBulb_sp = leavingWB,
                                 leavingDewPoint_sp = leavingDP,
                                 leavingRH_sp = leavingRH,
                                 leavingEnthalpy_sp = leavingH,
                                 sensibleBtuh_sp = sensibleBtuh,
                                 latentBtuh_sp = latentBtuh,
                                 totalBtuh_sp = totalBtuh,
                                 shr_sp = shr,
                                 targetTemp_sp = targetTemp,
                                 nominalCapacity_sp = nominalBtuh\<rparr>\<rparr>))))
      | _ \<Rightarrow> Some s)"

section \<open>Psychrometric calculator, second version (second unnamed source part)\<close>

definition calculateSaturationPressure_p1 :: "real \<Rightarrow> real" where
  "calculateSaturationPressure_p1 t =
     (let celsius = (t - 32) * 5 / 9
      in 0.6108 * exp ((17.27 * celsius) / (celsius + 237.3)))"

definition calculateHumidityRatio_p1 :: "real \<Rightarrow> real \<Rightarrow> real" where
  "calculateHumidityRatio_p1 db rh =
     (let pws = calculateSaturationPressure_p1 db;
          pw = (rh / 100) * pws
      in 0.622 * pw / (101.325 - pw))"

definition calculateEnthalpy_p1 :: "real \<Rightarrow> real \<Rightarrow> real" where
  "calculateEnthalpy_p1 db w = 0.24 * db + w * (1061 + 0.444 * db)"

text \<open>
  The wet-bulb loop of this version is capped: \<open>while (Math.abs(error) > 0.01 && iteration < 100)\<close>.
  The loop's state is \<open>wb\<close>, \<open>error\<close> and \<open>iteration\<close>; the model returns the final \<open>wb\<close>
  together with the final \<open>iteration\<close>, the number of passes made.
\<close>

function wetBulbLoop_p1 :: "real \<Rightarrow> real \<Rightarrow> real \<Rightarrow> real \<Rightarrow> nat \<Rightarrow> real \<times> nat" where
  "wetBulbLoop_p1 db w wb error iteration =
     (if \<bar>error\<bar> > 0.01 \<and> iteration < 100 then
        (let wsSat = calculateHumidityRatio_p1 wb 100;
             error' = (db - wb) - ((wsSat - w) * 1093)
         in wetBulbLoop_p1 db w (wb + error' / 100) error' (iteration + 1))
      else (wb, iteration))"
  by pat_completeness auto
termination
  by (relation "measure (\<lambda>(db, w, wb, error, iteration). 100 - iteration)") auto

definition calculateWetBulb_p1 :: "real \<Rightarrow> real \<Rightarrow> real" where
  "calculateWetBulb_p1 db rh =
     (let w = calculateHumidityRatio_p1 db rh
      in fst (wetBulbLoop_p1 db w db 1 0))"

definition calculateDewPoint_p1 :: "real \<Rightarrow> real \<Rightarrow> real option" where
  "calculateDewPoint_p1 db rh =
     (let celsius = (db - 32) * 5 / 9
      in if rh \<le> 0 \<or> WATER_VAPOR_TEMP_CONSTANT + celsius = 0 then None
         else
           (let alpha = ln (rh / 100) +
                  (WATER_VAPOR_CONSTANT * celsius) / (WATER_VAPOR_TEMP_CONSTANT + celsius)
            in if WATER_VAPOR_CONSTANT - alpha = 0 then None
               else
                 (let dewPointC = (WATER_VAPOR_TEMP_CONSTANT * alpha) /
                                  (WATER_VAPOR_CONSTANT - alpha)
                  in Some ((dewPointC * 9 / 5) + 32))))"

definition calculateRHFromWetBulb_p1 :: "real \<Rightarrow> real \<Rightarrow> real" where
  "calculateRHFromWetBulb_p1 db wb =
     (let pwsDb = calculateSaturationPressure_p1 db;
          pwsWb = calculateSaturationPressure_p1 wb;
          w = ((1093 - 0.556 * wb) * pwsWb - 0.24 * (db - wb) * ATMOSPHERIC_PRESSURE) /
              ((1093 + 0.444 * db - wb) * ATMOSPHERIC_PRESSURE);
          pw = (w * ATMOSPHERIC_PRESSURE) / (0.622 + w)
      in (pw / pwsDb) * 100)"

text \<open>
  \<open>CLIMATE_ZONES[climateZone]?.cfmPerTon || 400\<close>: the table's value (never zero), 400
  for a key that is not in the table.
\<close>

definition calculateTargetTemperature_p1 :: "real \<Rightarrow> real \<Rightarrow> ClimateZone option \<Rightarrow> real" where
  "calculateTargetTemperature_p1 tons enteringTemp climateZone =
     (let nominalCapacity = tons * 12000;
          targetSHR = 0.75;
          perTon = (case climateZone of Some z \<Rightarrow> cfmPerTon z | None \<Rightarrow> 400);
          totalCFM = tons * perTon;
          nominalSensibleCapacity = nominalCapacity * targetSHR;
          targetDeltaT = nominalSensibleCapacity / (1.08 * totalCFM)
      in enteringTemp - targetDeltaT)"

record PsychrometricResult_p1 =
  enteringWetBulb_p1 :: real
  enteringDewPoint_p1 :: "real option"
  enteringRH_p1 :: real
  enteringEnthalpy_p1 :: real
  enteringHumidityRatio_p1 :: real
  leavingWetBulb_p1 :: real
  leavingDewPoint_p1 :: "real option"
  leavingRH_p1 :: real
  leavingEnthalpy_p1 :: real
  leavingHumidityRatio_p1 :: real
  sensibleBtuh_p1 :: real
  latentBtuh_p1 :: real
  totalBtuh_p1 :: real
  sensibleHeatRatio_p1 :: real
  standardCfmPerTon_p1 :: real
  massAirflow_p1 :: real
  condensationRate_p1 :: real
  targetTemp_p1 :: real
  measuredDeltaT_p1 :: real

record PsychrometricInputs_p1 =
  systemSize_p1 :: field
  climateZone_p1 :: "ClimateZone option"
  airflow_p1 :: field
  enteringDryBulb_p1 :: field
  enteringHumidity_p1 :: field
  enteringHumidityType_p1 :: HumidityType
  leavingDryBulb_p1 :: field
  leavingHumidity_p1 :: field
  leavingHumidityType_p1 :: HumidityType

text \<open>
  The relative humidity of an air state in this version: \<open>Math.min(..., 100)\<close> for an
  entered relative humidity and for an entered dew point, none for an entered wet bulb.
  Over the reals a saturation pressure is never 0 and never infinite. In double precision
  \<open>Math.exp\<close> underflows to 0 just above the pole of the formula (about -395 F) and
  overflows just below it, the quotient of two such pressures is NaN, and
  \<open>Math.min(NaN, 100)\<close> is NaN. The model does not show this; what is proved of the
  dew-point branch keeps to temperatures from -380 F to 1000000 F, where both pressures
  are positive finite doubles.
\<close>

definition resolveRH_p1 :: "HumidityType \<Rightarrow> real \<Rightarrow> real \<Rightarrow> real" where
  "resolveRH_p1 kind db humidity =
     (case kind of
        RH \<Rightarrow> min humidity 100
      | WB \<Rightarrow> calculateRHFromWetBulb_p1 db humidity
      | DP \<Rightarrow>
          (let pwsDp = calculateSaturationPressure_p1 humidity;
               pwsDb = calculateSaturationPressure_p1 db
           in min ((pwsDp / pwsDb) * 100) 100))"

definition calculateProperties_p1 ::
  "(PsychrometricInputs_p1, PsychrometricResult_p1) component \<Rightarrow>
   (PsychrometricInputs_p1, PsychrometricResult_p1) component"
where
  "calculateProperties_p1 s =
     (case (enteringDryBulb_p1 (inputs s), enteringHumidity_p1 (inputs s),
            leavingDryBulb_p1 (inputs s), leavingHumidity_p1 (inputs s),
            airflow_p1 (inputs s), systemSize_p1 (inputs s), climateZone_p1 (inputs s)) of
        (Some enteringDB, Some enteringHum, Some leavingDB, Some leavingHum, Some cfm, Some tons,
         Some zone) \<Rightarrow>
          (let measuredDeltaT = enteringDB - leavingDB;
               targetTemp = calculateTargetTemperature_p1 tons enteringDB (Some zone);
               enteringRH = resolveRH_p1 (enteringHumidityType_p1 (inputs s)) enteringDB enteringHum;
               enteringWB = calculateWetBulb_p1 enteringDB enteringRH;
               enteringW = calculateHumidityRatio_p1 enteringDB enteringRH;
               enteringH = calculateEnthalpy_p1 enteringDB enteringW;
               enteringDP = calculateDewPoint_p1 enteringDB enteringRH;
               leavingRH = resolveRH_p1 (leavingHumidityType_p1 (inputs s)) leavingDB leavingHum;
               leavingWB = calculateWetBulb_p1 leavingDB leavingRH;
               leavingW = calculateHumidityRatio_p1 leavingDB leavingRH;
               leavingH = calculateEnthalpy_p1 leavingDB leavingW;
               leavingDP = calculateDewPoint_p1 leavingDB leavingRH;
               massAirflow = cfm * 60 * AIR_DENSITY;
               sensibleBtuh = massAirflow * SPECIFIC_HEAT * (enteringDB - leavingDB);
               totalBtuh = massAirflow * (enteringH - leavingH);
               latentBtuh = totalBtuh - sensibleBtuh;
               sensibleHeatRatio = sensibleBtuh / totalBtuh;
               standardCfmPerTon = cfm / tons;
               condensationRate = massAirflow * (enteringW - leavingW)
           in s\<lparr>result := Some
                \<lparr>enteringWetBulb_p1 = enteringWB,
                 enteringDewPoint_p1 = enteringDP,
                 enteringRH_p1 = enteringRH,
                 enteringEnthalpy_p1 = enteringH,
                 enteringHumidityRatio_p1 = enteringW,
                 leavingWetBulb_p1 = leavingWB,
                 leavingDewPoint_p1 = leavingDP,
                 leavingRH_p1 = leavingRH,
                 leavingEnthalpy_p1 = leavingH,
                 leavingHumidityRatio_p1 = leavingW,
                 sensibleBtuh_p1 = sensibleBtuh,
                 latentBtuh_p1 = latentBtuh,
                 totalBtuh_p1 = totalBtuh,
                 sensibleHeatRatio_p1 = sensibleHeatRatio,
                 standardCfmPerTon_p1 = standardCfmPerTon,
                 massAirflow_p1 = massAirflow,
                 condensationRate_p1 = condensationRate,
                 targetTemp_p1 = targetTemp,
                 measuredDeltaT_p1 = measuredDeltaT\<rparr>\<rparr>)
      | _ \<Rightarrow> s)"


section \<open>Mold risk calculator (MoldRiskCalculator.tsx)\<close>

text \<open>
  The dew point of this calculator applies the Magnus formula to the entered temperature
  as it is. As above, \<open>None\<close> stands for a result that is not a finite number.
\<close>

definition calculateDewPoint_mold :: "real \<Rightarrow> real \<Rightarrow> real option" where
  "calculateDewPoint_mold t rh =
     (if rh \<le> 0 \<or> WATER_VAPOR_TEMP_CONSTANT + t = 0 then None
      else
        (let alpha = ln (rh / 100) + (WATER_VAPOR_CONSTANT * t) / (WATER_VAPOR_TEMP_CONSTANT + t)
         in if WATER_VAPOR_CONSTANT - alpha = 0 then None
            else Some ((WATER_VAPOR_TEMP_CONSTANT * alpha) / (WATER_VAPOR_CONSTANT - alpha))))"

definition calculateVaporPressure :: "real \<Rightarrow> real" where
  "calculateVaporPressure t =
     6.11 * exp ((WATER_VAPOR_CONSTANT * t) / (WATER_VAPOR_TEMP_CONSTANT + t))"

definition calculateAbsoluteHumidity :: "real \<Rightarrow> real \<Rightarrow> real" where
  "calculateAbsoluteHumidity t rh =
     (let vp = calculateVaporPressure t
      in (2.16679 * rh * vp) / (273.15 + t))"

datatype RiskLevel = Low | Moderate | High | Severe

definition calculateRiskLevel :: "real \<Rightarrow> real \<Rightarrow> RiskLevel \<times> real option" where
  "calculateRiskLevel t rh =
     (if rh < 60 then (Low, None)
      else if rh < 70 then (Moderate, Some 30)
      else if rh < 80 then (High, Some 14)
      else (Severe, Some 7))"

text \<open>A comparison with NaN is false: no dew point, no condensation advice.\<close>

definition getRecommendations :: "real \<Rightarrow> real \<Rightarrow> real option \<Rightarrow> RiskLevel \<Rightarrow> message list" where
  "getRecommendations t rh dp level =
     (if rh > 60
      then [[Lit ''Reduce indoor relative humidity below 60% using dehumidification'']]
      else []) @
     (if (case dp of Some d \<Rightarrow> t - d < 4 | None \<Rightarrow> False)
      then [[Lit ''Increase air temperature or improve insulation to prevent condensation'']]
      else []) @
     (if level \<noteq> Low
      then [[Lit ''Improve ventilation to reduce moisture accumulation''],
            [Lit ''Inspect for and repair any water leaks or intrusion'']]
      else []) @
     (if rh > 70
      then [[Lit ''Consider using continuous dehumidification'']]
      else [])"

record MoldRiskResult =
  dewPoint :: "real option"
  vaporPressure :: real
  absoluteHumidity :: real
  riskLevel :: RiskLevel
  daysToMold :: "real option"
  recommendations_mold :: "message list"

record MoldRiskInputs =
  dryBulb :: field
  relativeHumidity :: field

definition calculateMoldRisk ::
  "(MoldRiskInputs, MoldRiskResult) component \<Rightarrow> (MoldRiskInputs, MoldRiskResult) component"
where
  "calculateMoldRisk s =
     (case (dryBulb (inputs s), relativeHumidity (inputs s)) of
        (Some temp, Some rh) \<Rightarrow>
          (let dp = calculateDewPoint_mold temp rh;
               vp = calculateVaporPressure temp;
               ah = calculateAbsoluteHumidity temp rh;
               risk = calculateRiskLevel temp rh;
               advice = getRecommendations temp rh dp (fst risk)
           in s\<lparr>result := Some
                \<lparr>dewPoint = dp, vaporPressure = vp, absoluteHumidity = ah,
                 riskLevel = fst risk, daysToMold = snd risk,
                 recommendations_mold = advice\<rparr>\<rparr>)
      | _ \<Rightarrow> s)"

section \<open>Filter pressure drop calculator (FilterCalculator.tsx)\<close>

datatype FilterType = Fiberglass | PleatedBasic | PleatedBetter | PleatedBest

text \<open>The table \<open>initialPressureDrops\<close> of a filter type: its entries for 300, 350 and 400 FPM.\<close>

fun initialPressureDrops :: "FilterType \<Rightarrow> real \<times> real \<times> real" where
  "initialPressureDrops Fiberglass = (0.05, 0.08, 0.12)"
| "initialPressureDrops PleatedBasic = (0.08, 0.12, 0.15)"
| "initialPressureDrops PleatedBetter = (0.15, 0.18, 0.22)"
| "initialPressureDrops PleatedBest = (0.20, 0.25, 0.30)"

record FilterResult =
  cfm :: real
  filterArea :: real
  fpm :: real
  initialPressureDrop :: real
  maxPressureDrop :: real

record FilterInputs =
  systemSize :: field
  climateZone :: "ClimateZone option"
  filterWidth :: field
  filterHeight :: field
  filterType :: "FilterType option"

definition calculateFilterParameters ::
  "(FilterInputs, FilterResult) component \<Rightarrow> (FilterInputs, FilterResult) component"
where
  "calculateFilterParameters s =
     (case (systemSize (inputs s), climateZone (inputs s), filterWidth (inputs s),
            filterHeight (inputs s), filterType (inputs s)) of
        (Some tons, Some zone, Some w, Some h, Some selectedFilter) \<Rightarrow>
          (let totalCFM = tons * cfmPerTon zone;
               area = (w * h) / 144;
               faceVelocity = totalCFM / area;
               drop = (case initialPressureDrops selectedFilter of
                         (d300, d350, d400) \<Rightarrow>
                           if faceVelocity \<le> 300 then d300
                           else if faceVelocity \<le> 350 then d350
                           else d400)
           in s\<lparr>result := Some
                \<lparr>cfm = totalCFM, filterArea = area, fpm = faceVelocity,
                 initialPressureDrop = drop, maxPressureDrop = 0.15\<rparr>\<rparr>)
      | _ \<Rightarrow> s)"

section \<open>Duct sizing calculator (DuctCalculator.tsx)\<close>

datatype DuctType = RoundMetal | RectMetal | RectBoard | RoundFlex

text \<open>\<open>ductType.includes('rect')\<close> on the keys \<open>round-metal\<close>, \<open>rect-metal\<close>, \<open>rect-board\<close>, \<open>round-flex\<close>.\<close>

fun includesRect :: "DuctType \<Rightarrow> bool" where
  "includesRect RectMetal = True"
| "includesRect RectBoard = True"
| "includesRect RoundMetal = False"
| "includesRect RoundFlex = False"

record FittingLoss =
  fittingType :: string
  quantity :: real
  coefficient :: real

record SystemComponent =
  componentName :: string
  pressureLoss :: real

definition DEFAULT_COMPONENTS :: "SystemComponent list" where
  "DEFAULT_COMPONENTS =
     [\<lparr>componentName = ''Return Air Grille'', pressureLoss = 0.03\<rparr>,
      \<lparr>componentName = ''Filter'', pressureLoss = 0.10\<rparr>,
      \<lparr>componentName = ''Supply Air Grilles'', pressureLoss = 0.30\<rparr>,
      \<lparr>componentName = ''Dampers'', pressureLoss = 0.30\<rparr>]"

datatype VelocityRange = SupplyMain | SupplyBranch | ReturnMain | ReturnBranch

text \<open>\<open>VELOCITY_LIMITS\<close>: minimum and maximum of a range, and the range's key as it is printed.\<close>

fun VELOCITY_LIMITS :: "VelocityRange \<Rightarrow> real \<times> real" where
  "VELOCITY_LIMITS SupplyMain = (700, 900)"
| "VELOCITY_LIMITS SupplyBranch = (600, 800)"
| "VELOCITY_LIMITS ReturnMain = (600, 700)"
| "VELOCITY_LIMITS ReturnBranch = (400, 600)"

fun rangeKey :: "VelocityRange \<Rightarrow> string" where
  "rangeKey SupplyMain = ''supply-main''"
| "rangeKey SupplyBranch = ''supply-branch''"
| "rangeKey ReturnMain = ''return-main''"
| "rangeKey ReturnBranch = ''return-branch''"

record DuctSizingResult =
  velocity :: real
  equivalentLength :: real
  staticPressure :: real
  availableStaticPressure :: real
  recommendedSize_duct :: message
  warnings_duct :: "message list"
  frictionRate :: real

record DuctInputs =
  ductType :: "DuctType option"
  airflow_duct :: field
  designStaticPressure :: field
  straightLength :: field
  fittings :: "FittingLoss list"
  velocityAdjustment :: VelocityRange
  components :: "SystemComponent list"
  width_duct :: field

definition calculateTotalComponentLosses :: "SystemComponent list \<Rightarrow> real" where
  "calculateTotalComponentLosses cs = foldl (\<lambda>total c. total + pressureLoss c) 0 cs"

text \<open>\<open>parseFloat(straightLength) || 0\<close>: the empty slot parses to NaN and counts as 0.\<close>

definition calculateEquivalentLength :: "field \<Rightarrow> FittingLoss list \<Rightarrow> real" where
  "calculateEquivalentLength len fs =
     (let straight = (case len of Some x \<Rightarrow> x | None \<Rightarrow> 0);
          fittingLengths = foldl (\<lambda>total f. total + (coefficient f * quantity f)) 0 fs
      in straight + fittingLengths)"

definition roundToStandard :: "real \<Rightarrow> bool \<Rightarrow> real" where
  "roundToStandard sz isRound =
     (if isRound then of_int \<lceil>sz\<rceil> else of_int \<lceil>sz * 2\<rceil> / 2)"

definition calculateRectangularHeight :: "real \<Rightarrow> real \<Rightarrow> real" where
  "calculateRectangularHeight w area = roundToStandard (area / w) False"

text \<open>
  The inch mark and the multiplication sign of the size labels, as the bytes of their
  UTF-8 encoding.
\<close>

definition inchMark :: string where
  "inchMark = [CHR 0x22]"

definition timesSign :: string where
  "timesSign = [CHR 0xC3, CHR 0x97]"

text \<open>
  The handler computes velocity and size label in one of two branches; the rectangular
  branch returns early, without a result, when the width slot is empty. \<open>None\<close> below is
  that early return.
\<close>

definition sizeDuct ::
  "DuctType \<Rightarrow> real \<Rightarrow> VelocityRange \<Rightarrow> field \<Rightarrow> (real \<times> message \<times> message list) option"
where
  "sizeDuct dt flow vr wd =
     (let velocityLimit = VELOCITY_LIMITS vr in
      if includesRect dt then
        (case wd of
           None \<Rightarrow> None
         | Some w \<Rightarrow>
             (let targetVelocity = (fst velocityLimit + snd velocityLimit) / 2;
                  requiredArea = (flow / targetVelocity) * 144;
                  h = calculateRectangularHeight w requiredArea;
                  actualArea = (w * h) / 144;
                  v = flow / actualArea
              in Some (v, [Val w, Lit (inchMark @ '' '' @ timesSign @ '' ''), Val h, Lit inchMark],
                       if v > snd velocityLimit
                       then [[Lit ''Velocity exceeds maximum limit of '', Val (snd velocityLimit),
                              Lit '' FPM for '', Lit (rangeKey vr)]]
                       else [])))
      else
        (let targetVelocity = (fst velocityLimit + snd velocityLimit) / 2;
             area = flow / targetVelocity;
             diameter = sqrt ((4 * area * 144) / pi);
             roundedDiameter = roundToStandard diameter True;
             actualArea = pi * (roundedDiameter / 24) ^ 2;
             v = flow / actualArea
         in Some (v, [Val roundedDiameter, Lit (inchMark @ '' diameter'')],
                  if dt = RoundFlex \<and> v > 900
                  then [[Lit ''Velocity exceeds recommended limit for flex duct (900 FPM)'']]
                  else [])))"

definition calculateDuctSize ::
  "(DuctInputs, DuctSizingResult) component \<Rightarrow> (DuctInputs, DuctSizingResult) component"
where
  "calculateDuctSize s =
     (case (ductType (inputs s), airflow_duct (inputs s), designStaticPressure (inputs s)) of
        (Some dt, Some flow, Some design) \<Rightarrow>
          (let totalPressureLosses = calculateTotalComponentLosses (components (inputs s));
               available = design - totalPressureLosses;
               eqLength = calculateEquivalentLength (straightLength (inputs s)) (fittings (inputs s));
               rate = (available * 100) / eqLength
           in case sizeDuct dt flow (velocityAdjustment (inputs s)) (width_duct (inputs s)) of
                None \<Rightarrow> s
              | Some (v, label, w1) \<Rightarrow>
                  (let velocityPressure = (v / 4005) ^ 2;
                       frictionLoss = (rate * eqLength) / 100;
                       dynamicLosses = foldl (\<lambda>total f. total +
                           (coefficient f * quantity f * velocityPressure)) 0 (fittings (inputs s));
                       sp0 = frictionLoss + dynamicLosses;
                       sp = (if dt = RoundFlex then sp0 * 1.5 else sp0);
                       w2 = w1 @ (if dt = RoundFlex
                            then [[Lit ''Flex duct pressure loss includes 50% safety factor'']]
                            else []);
                       w3 = w2 @ (if available < 0
                            then [[Lit ''System component losses exceed design static pressure!'']]
                            else []);
                       w4 = w3 @ (if sp > available
                            then [[Lit ''Calculated duct losses exceed available static pressure!'']]
                            else [])
                   in s\<lparr>result := Some
                        \<lparr>velocity = v, equivalentLength = eqLength, staticPressure = sp,
                         availableStaticPressure = available, recommendedSize_duct = label,
                         warnings_duct = w4, frictionRate = rate\<rparr>\<rparr>))
      | _ \<Rightarrow> s)"

section \<open>Room pressure calculator (first unnamed source part)\<close>

definition PASCAL_TO_IWC :: real where
  "PASCAL_TO_IWC = 0.004014"

definition TARGET_VELOCITY :: real where
  "TARGET_VELOCITY = 400"

definition MAX_VELOCITY :: real where
  "MAX_VELOCITY = 600"

definition MIN_GRILLE_FREE_AREA :: real where
  "MIN_GRILLE_FREE_AREA = 0.7"

definition STANDARD_DUCT_SIZES :: "real list" where
  "STANDARD_DUCT_SIZES = [4, 5, 6, 7, 8, 9, 10, 12, 14, 16, 18, 20]"

text \<open>\<open>STANDARD_GRILLE_SIZES\<close>: width and height of each grille.\<close>

definition STANDARD_GRILLE_SIZES :: "(real \<times> real) list" where
  "STANDARD_GRILLE_SIZES =
     [(8, 4), (10, 4), (12, 4), (14, 4), (8, 6), (10, 6), (12, 6), (14, 6),
      (10, 8), (12, 8), (14, 8), (10, 10), (12, 12), (14, 14)]"

definition getStandardDuctSize :: "real \<Rightarrow> real" where
  "getStandardDuctSize calculatedSize =
     (case find (\<lambda>sz. sz \<ge> calculatedSize) STANDARD_DUCT_SIZES of
        Some sz \<Rightarrow> sz
      | None \<Rightarrow> last STANDARD_DUCT_SIZES)"

text \<open>
  When no grille of the selected height is large enough the largest of that height is
  taken, and \<open>{width: 14, height: selectedHeight}\<close> when the list has no grille of that
  height (\<open>availableSizes[-1]\<close> is \<open>undefined\<close>).
\<close>

definition getStandardGrilleSize :: "real \<Rightarrow> real \<Rightarrow> real \<times> real" where
  "getStandardGrilleSize requiredArea selectedHeight =
     (let availableSizes = filter (\<lambda>sz. snd sz = selectedHeight) STANDARD_GRILLE_SIZES
      in case find (\<lambda>sz. (fst sz * snd sz * MIN_GRILLE_FREE_AREA) \<ge>
                          (requiredArea / MIN_GRILLE_FREE_AREA)) availableSizes of
           Some selectedSize \<Rightarrow> selectedSize
         | None \<Rightarrow> (if availableSizes = [] then (14, selectedHeight) else last availableSizes))"

datatype CalculationMode = KnownAirflow | MeasuredPressure

record PressureResult =
  grilleSize_width :: real
  grilleSize_height :: real
  grilleSize_area :: real
  ductSize_diameter :: real
  ductSize_velocity :: real
  calculatedAirflow :: "real option"
  warnings_pr :: "message list"

record PressureInputs =
  calculationMode :: CalculationMode
  targetPressure :: field
  measuredPressure :: field
  doorWidth :: field
  doorHeight :: field
  doorUndercut :: field
  airflow_pr :: field
  selectedGrilleHeight :: real

definition calculateFromPressure ::
  "(PressureInputs, PressureResult) component \<Rightarrow> (PressureInputs, PressureResult) component"
where
  "calculateFromPressure s =
     (case (measuredPressure (inputs s), doorWidth (inputs s), doorHeight (inputs s),
            doorUndercut (inputs s)) of
        (Some pressure, Some w, Some h, Some undercut) \<Rightarrow>
          (let doorLeakageArea = (w * undercut) / 144;
               doorPerimeterLeakage = ((2 * h + w) * 0.125) / 144;
               totalLeakageArea = doorLeakageArea + doorPerimeterLeakage;
               pressureIWC = pressure * PASCAL_TO_IWC;
               flow = totalLeakageArea * 4005 * sqrt pressureIWC;
               requiredNFA = (flow / TARGET_VELOCITY) * 144;
               grilleDimensions = getStandardGrilleSize requiredNFA (selectedGrilleHeight (inputs s));
               ductArea = flow / TARGET_VELOCITY;
               ductDiameter = sqrt ((4 * ductArea) / pi) * 12;
               standardDuctSize = getStandardDuctSize ductDiameter;
               actualVelocity = flow / (pi * (standardDuctSize / 24) ^ 2);
               w1 = (if pressure > 3
                     then [[Lit ''Measured pressure exceeds 3 Pascals - consider reducing pressure differential'']]
                     else []);
               w2 = w1 @ (if actualVelocity > MAX_VELOCITY
                     then [[Lit ''Return air velocity exceeds maximum recommended - consider next size up duct'']]
                     else [])
           in s\<lparr>result := Some
                \<lparr>grilleSize_width = fst grilleDimensions,
                 grilleSize_height = snd grilleDimensions,
                 grilleSize_area = requiredNFA / 144,
                 ductSize_diameter = standardDuctSize,
                 ductSize_velocity = actualVelocity,
                 calculatedAirflow = Some flow,
                 warnings_pr = w2\<rparr>\<rparr>)
      | _ \<Rightarrow> s)"

definition calculateFromAirflow ::
  "(PressureInputs, PressureResult) component \<Rightarrow> (PressureInputs, PressureResult) component"
where
  "calculateFromAirflow s =
     (case (targetPressure (inputs s), doorWidth (inputs s), doorHeight (inputs s),
            doorUndercut (inputs s), airflow_pr (inputs s)) of
        (Some pressure, Some w, Some h, Some undercut, Some flow) \<Rightarrow>
          (let doorLeakageArea = (w * undercut) / 144;
               doorPerimeterLeakage = ((2 * h + w) * 0.125) / 144;
               totalLeakageArea = doorLeakageArea + doorPerimeterLeakage;
               requiredNFA = (flow / TARGET_VELOCITY) * 144;
               grilleDimensions = getStandardGrilleSize requiredNFA (selectedGrilleHeight (inputs s));
               ductArea = flow / TARGET_VELOCITY;
               ductDiameter = sqrt ((4 * ductArea) / pi) * 12;
               standardDuctSize = getStandardDuctSize ductDiameter;
               actualVelocity = flow / (pi * (standardDuctSize / 24) ^ 2);
               w1 = (if pressure > 3
                     then [[Lit ''Target pressure exceeds 3 Pascals - consider reducing pressure differential'']]
                     else []);
               w2 = w1 @ (if totalLeakageArea > requiredNFA / 144 * 0.5
                     then [[Lit ''Door leakage area is significant - consider reducing gaps or increasing grille size'']]
                     else []);
               w3 = w2 @ (if actualVelocity > MAX_VELOCITY
                     then [[Lit ''Return air velocity exceeds maximum recommended - consider next size up duct'']]
                     else [])
           in s\<lparr>result := Some
                \<lparr>grilleSize_width = fst grilleDimensions,
                 grilleSize_height = snd grilleDimensions,
                 grilleSize_area = requiredNFA / 144,
                 ductSize_diameter = standardDuctSize,
                 ductSize_velocity = actualVelocity,
                 calculatedAirflow = None,
                 warnings_pr = w3\<rparr>\<rparr>)
      | _ \<Rightarrow> s)"

text \<open>The button runs one of the two handlers, by the calculation mode.\<close>

definition calculatePressure ::
  "(PressureInputs, PressureResult) component \<Rightarrow> (PressureInputs, PressureResult) component"
where
  "calculatePressure s =
     (case calculationMode (inputs s) of
        KnownAirflow \<Rightarrow> calculateFromAirflow s
      | MeasuredPressure \<Rightarrow> calculateFromPressure s)"

section \<open>Notions used in the numeric proofs\<close>

text \<open>
  Bounds for the exponential function from its Taylor polynomial of degree 7, written in
  Horner form so that they evaluate at a decimal with little work: \<open>expLower x\<close> is the
  polynomial, \<open>expUpper x\<close> adds the bound \<open>x^8 / 13440\<close> of the remainder on [0, 1].
\<close>

definition expLower :: "real \<Rightarrow> real" where
  "expLower x =
     1 + x * (1 + x / 2 * (1 + x / 3 * (1 + x / 4 * (1 + x / 5 * (1 + x / 6 * (1 + x / 7))))))"

definition expUpper :: "real \<Rightarrow> real" where
  "expUpper x =
     1 + x * (1 + x / 2 * (1 + x / 3 * (1 + x / 4 * (1 + x / 5 * (1 + x / 6 *
       (1 + x / 7 * (1 + 3 * x / 8)))))))"

text \<open>
  The numbers that a double can hold, exponent range aside: an integer below 2^53 in
  absolute value times a power of two.
\<close>

definition representable :: "real \<Rightarrow> bool" where
  "representable x \<longleftrightarrow> (\<exists>m j. x = of_int m * 2 powr of_int j \<and> \<bar>m\<bar> < 2 ^ 53)"

text \<open>
  The residual that one pass of the wet-bulb loop of the first version computes from the
  current estimate \<open>wb\<close>; the pass then moves the estimate by a hundredth of it.
\<close>

definition wetBulbError_sp :: "real \<Rightarrow> real \<Rightarrow> real \<Rightarrow> real" where
  "wetBulbError_sp db pw wb =
     (db - wb) -
     (((0.622 * calculateSaturationPressure_sp wb) /
         (ATMOSPHERIC_PRESSURE - calculateSaturationPressure_sp wb) -
       (0.622 * pw) / (ATMOSPHERIC_PRESSURE - pw)) * 1093)"

text \<open>
  Two intervals of wet-bulb estimates, in degrees Fahrenheit. At a dry bulb of 67 F and a
  relative humidity of 90 % each pass of the loop of the first version takes an estimate
  of one interval into the other.
\<close>

definition trapped_67_90 :: "real \<Rightarrow> bool" where
  "trapped_67_90 wb \<longleftrightarrow> (66.2 \<le> wb \<and> wb \<le> 71.3) \<or> (61.1 \<le> wb \<and> wb \<le> 62.5)"


section \<open>Properties\<close>

subsection \<open>Run capacitor\<close>

lemma toFixed_1_numeral:
  "0 \<le> x \<Longrightarrow> toFixed (Suc 0) x = of_int \<lfloor>x * 10 + 1 / 2\<rfloor> / 10"
  by (cases "x = 0") (simp_all add: toFixed_def)

lemma capacitor_5_230:
  "result (calculateCapacitance \<lparr>inputs = \<lparr>startWinding = Some 5, voltage = Some 230,
       ratedCapacitance = rc\<rparr>, result = prev\<rparr>)
   = Some \<lparr>capacitance = 13265 / 230, tolerance_min = 13265 / 230 * 0.94,
       tolerance_max = 13265 / 230 * 1.06,
       ratedComparison = map_option (compareRated (13265 / 230)) rc\<rparr>"
  by (simp add: calculateCapacitance_def Let_def)

text \<open>
  C8 (as amended). With 5 A and 230 V the capacitance is 13265/230, printed 57.7, and the
  tolerance range is printed 54.2 - 61.1: the upper end is 61.1389..., not 61.2.
\<close>

theorem capacitor_example_shown:
  "map_option shownCapacitor
     (result (calculateCapacitance \<lparr>inputs = \<lparr>startWinding = Some 5, voltage = Some 230,
        ratedCapacitance = rc\<rparr>, result = prev\<rparr>))
   = Some (57.7, 54.2, 61.1)"
  by (simp add: capacitor_5_230 shownCapacitor_def toFixed_1_numeral)

theorem capacitor_example_not_61_2:
  "map_option shownCapacitor
     (result (calculateCapacitance \<lparr>inputs = \<lparr>startWinding = Some 5, voltage = Some 230,
        ratedCapacitance = None\<rparr>, result = None\<rparr>))
   \<noteq> Some (57.7, 54.2, 61.2)"
  by (simp add: capacitor_5_230 shownCapacitor_def toFixed_1_numeral)

subsection \<open>Dehumidifier sizing\<close>

lemma standardSize_cases:
  "standardSize r =
     (if r \<le> 20 then 20 else if r \<le> 30 then 30 else if r \<le> 35 then 35
      else if r \<le> 50 then 50 else if r \<le> 70 then 70 else if r \<le> 90 then 90
      else if r \<le> 120 then 120 else if r \<le> 150 then 150 else if r \<le> 180 then 180
      else 250)"
  by (simp add: standardSize_def STANDARD_SIZES_def)

lemma dehumidifier_result:
  "result (calculateDehumidifierSize
      \<lparr>inputs = \<lparr>latentLoad = Some latentBTU, indoorTemp = Some temp, indoorRH = Some rh\<rparr>,
       result = prev\<rparr>) = Some r \<Longrightarrow>
   pintsPerDay r = latentBTU * 0.0833 * 24 \<and>
   requiredCapacity r = (latentBTU * 0.0833 * 24) / capacityFactor temp rh * 1.2 \<and>
   recommendedSize r = [Val (standardSize (requiredCapacity r)), Lit '' PPD'']"
  by (auto simp add: calculateDehumidifierSize_def Let_def BTU_TO_PINTS_def SAFETY_FACTOR_def)

lemma standardSize_less_iff: "standardSize r < r \<longleftrightarrow> 250 < r"
  by (simp add: standardSize_cases)

lemma dehumidifier_warning:
  "result (calculateDehumidifierSize
      \<lparr>inputs = \<lparr>latentLoad = Some latentBTU, indoorTemp = Some temp, indoorRH = Some rh\<rparr>,
       result = prev\<rparr>) = Some r \<Longrightarrow>
   ([Lit ''Required capacity exceeds largest standard residential unit - consider multiple units or a commercial system'']
      \<in> set (warnings_dh r)) = (250 < requiredCapacity r)"
  by (auto simp add: calculateDehumidifierSize_def Let_def standardSize_less_iff)

text \<open>
  C7 (as amended). With all three fields present the handler stores a result whose
  required capacity is the base pints per day (latent load times 0.0833 times 24) divided
  by the derating factor and multiplied by 1.2, and whose recommended size is the
  smallest standard size that reaches the required capacity when there is one (required
  capacity at most 250), and the largest size, 250, otherwise. The warning that the
  required capacity exceeds the largest standard unit is among the warnings of the result
  exactly when the required capacity is above 250. The factor is 1 from 70 F and from
  60 percent relative humidity on.
\<close>

theorem dehumidifier_recommended_size:
  "\<exists>r sz.
      result (calculateDehumidifierSize
        \<lparr>inputs = \<lparr>latentLoad = Some latentBTU, indoorTemp = Some temp, indoorRH = Some rh\<rparr>,
         result = prev\<rparr>) = Some r \<and>
      requiredCapacity r = (latentBTU * 0.0833 * 24) / capacityFactor temp rh * 1.2 \<and>
      recommendedSize r = [Val sz, Lit '' PPD''] \<and>
      sz \<in> set STANDARD_SIZES \<and>
      (if requiredCapacity r \<le> 250
       then requiredCapacity r \<le> sz \<and>
            (\<forall>x \<in> set STANDARD_SIZES. requiredCapacity r \<le> x \<longrightarrow> sz \<le> x)
       else sz = 250) \<and>
      (([Lit ''Required capacity exceeds largest standard residential unit - consider multiple units or a commercial system'']
          \<in> set (warnings_dh r)) = (250 < requiredCapacity r)) \<and>
      (70 \<le> temp \<and> 60 \<le> rh \<longrightarrow> capacityFactor temp rh = 1)"
proof -
  let ?s = "\<lparr>inputs = \<lparr>latentLoad = Some latentBTU, indoorTemp = Some temp, indoorRH = Some rh\<rparr>,
            result = prev\<rparr>"
  obtain r where r: "result (calculateDehumidifierSize ?s) = Some r"
    by (simp add: calculateDehumidifierSize_def Let_def)
  note facts = dehumidifier_result [OF r]
  note warning = dehumidifier_warning [OF r]
  let ?sz = "standardSize (requiredCapacity r)"
  have mem: "?sz \<in> set STANDARD_SIZES"
    by (simp add: standardSize_cases STANDARD_SIZES_def)
  have least: "if requiredCapacity r \<le> 250
       then requiredCapacity r \<le> ?sz \<and>
            (\<forall>x \<in> set STANDARD_SIZES. requiredCapacity r \<le> x \<longrightarrow> ?sz \<le> x)
       else ?sz = 250"
    by (simp add: standardSize_cases STANDARD_SIZES_def)
  have factor: "70 \<le> temp \<and> 60 \<le> rh \<longrightarrow> capacityFactor temp rh = 1"
    by (simp add: capacityFactor_def)
  from r facts mem least warning factor show ?thesis by blast
qed

theorem dehumidifier_recommended_size_witness:
  "(\<exists>r. result (calculateDehumidifierSize
        \<lparr>inputs = \<lparr>latentLoad = Some 50, indoorTemp = Some 75, indoorRH = Some 65\<rparr>,
         result = None\<rparr>) = Some r \<and>
      requiredCapacity r = 119.952 \<and> recommendedSize r = [Val 120, Lit '' PPD''] \<and>
      [Lit ''Required capacity exceeds largest standard residential unit - consider multiple units or a commercial system'']
        \<notin> set (warnings_dh r)) \<and>
   (\<exists>r. result (calculateDehumidifierSize
        \<lparr>inputs = \<lparr>latentLoad = Some 10000, indoorTemp = Some 75, indoorRH = Some 65\<rparr>,
         result = None\<rparr>) = Some r \<and>
      requiredCapacity r = 23990.4 \<and> recommendedSize r = [Val 250, Lit '' PPD''] \<and>
      [Lit ''Required capacity exceeds largest standard residential unit - consider multiple units or a commercial system'']
        \<in> set (warnings_dh r))"
proof -
  have f: "capacityFactor 75 65 = 1"
    by (simp add: capacityFactor_def)
  obtain r sz where a:
      "result (calculateDehumidifierSize
        \<lparr>inputs = \<lparr>latentLoad = Some 50, indoorTemp = Some 75, indoorRH = Some 65\<rparr>,
         result = None\<rparr>) = Some r"
      "requiredCapacity r = (50 * 0.0833 * 24) / capacityFactor 75 65 * 1.2"
      "recommendedSize r = [Val sz, Lit '' PPD'']"
      "sz \<in> set STANDARD_SIZES"
      "if requiredCapacity r \<le> 250
       then requiredCapacity r \<le> sz \<and>
            (\<forall>x \<in> set STANDARD_SIZES. requiredCapacity r \<le> x \<longrightarrow> sz \<le> x)
       else sz = 250"
      "([Lit ''Required capacity exceeds largest standard residential unit - consider multiple units or a commercial system'']
          \<in> set (warnings_dh r)) = (250 < requiredCapacity r)"
    using dehumidifier_recommended_size [of 50 75 65 None] by blast
  have ra: "requiredCapacity r = 119.952" using a(2) f by simp
  have "sz = 120" using a(4,5) ra by (auto simp add: STANDARD_SIZES_def)
  moreover have "[Lit ''Required capacity exceeds largest standard residential unit - consider multiple units or a commercial system'']
      \<notin> set (warnings_dh r)"
    using a(6) ra by simp
  ultimately have first: "\<exists>r. result (calculateDehumidifierSize
        \<lparr>inputs = \<lparr>latentLoad = Some 50, indoorTemp = Some 75, indoorRH = Some 65\<rparr>,
         result = None\<rparr>) = Some r \<and>
      requiredCapacity r = 119.952 \<and> recommendedSize r = [Val 120, Lit '' PPD''] \<and>
      [Lit ''Required capacity exceeds largest standard residential unit - consider multiple units or a commercial system'']
        \<notin> set (warnings_dh r)"
    using a(1,3) ra by blast
  obtain r' sz' where b:
      "result (calculateDehumidifierSize
        \<lparr>inputs = \<lparr>latentLoad = Some 10000, indoorTemp = Some 75, indoorRH = Some 65\<rparr>,
         result = None\<rparr>) = Some r'"
      "requiredCapacity r' = (10000 * 0.0833 * 24) / capacityFactor 75 65 * 1.2"
      "recommendedSize r' = [Val sz', Lit '' PPD'']"
      "if requiredCapacity r' \<le> 250
       then requiredCapacity r' \<le> sz' \<and>
            (\<forall>x \<in> set STANDARD_SIZES. requiredCapacity r' \<le> x \<longrightarrow> sz' \<le> x)
       else sz' = 250"
      "([Lit ''Required capacity exceeds largest standard residential unit - consider multiple units or a commercial system'']
          \<in> set (warnings_dh r')) = (250 < requiredCapacity r')"
    using dehumidifier_recommended_size [of 10000 75 65 None] by blast
  have rb: "requiredCapacity r' = 23990.4" using b(2) f by simp
  have "sz' = 250" using b(4) rb by simp
  moreover have "[Lit ''Required capacity exceeds largest standard residential unit - consider multiple units or a commercial system'']
      \<in> set (warnings_dh r')"
    using b(5) rb by simp
  ultimately have second: "\<exists>r. result (calculateDehumidifierSize
        \<lparr>inputs = \<lparr>latentLoad = Some 10000, indoorTemp = Some 75, indoorRH = Some 65\<rparr>,
         result = None\<rparr>) = Some r \<and>
      requiredCapacity r = 23990.4 \<and> recommendedSize r = [Val 250, Lit '' PPD''] \<and>
      [Lit ''Required capacity exceeds largest standard residential unit - consider multiple units or a commercial system'']
        \<in> set (warnings_dh r)"
    using b(1,3) rb by blast
  from first second show ?thesis by blast
qed

text \<open>
  The claim as stated fails at its own example: for 10000 BTU/hr, 75 F and 65 percent the
  required capacity is 23990.4 pints per day, no standard size reaches it, and the
  handler recommends 250 with the warning that the capacity exceeds the largest unit.
\<close>

theorem dehumidifier_example_exceeds_sizes:
  "result (calculateDehumidifierSize
      \<lparr>inputs = \<lparr>latentLoad = Some 10000, indoorTemp = Some 75, indoorRH = Some 65\<rparr>,
       result = None\<rparr>)
   = Some \<lparr>requiredCapacity = 23990.4, pintsPerDay = 19992,
       recommendedSize = [Val 250, Lit '' PPD''],
       warnings_dh = [[Lit ''Required capacity exceeds largest standard residential unit - consider multiple units or a commercial system'']]\<rparr>
   \<and> list_all (\<lambda>sz. sz < 23990.4) STANDARD_SIZES"
  by (simp add: calculateDehumidifierSize_def Let_def BTU_TO_PINTS_def SAFETY_FACTOR_def
      capacityFactor_def standardSize_cases STANDARD_SIZES_def)

subsection \<open>Rounding to double precision\<close>

text \<open>
  Rounding moves a number by at most 2^-53 of its size, leaves a representable number
  as it is, and yields a representable number. The difference of two representable
  numbers that is no larger than either of them is representable (Sterbenz), so its
  subtraction is exact.
\<close>

lemma roundTiesToEven_error: "\<bar>of_int (roundTiesToEven q) - q\<bar> \<le> 1 / 2"
proof -
  define n where "n = \<lfloor>q\<rfloor>"
  have b: "of_int n \<le> q" "q < of_int n + 1" unfolding n_def by linarith+
  have "\<bar>of_int (if q - of_int n < 1 / 2 then n
         else if q - of_int n > 1 / 2 then n + 1
         else if even n then n else n + 1) - q\<bar> \<le> 1 / 2"
    using b by (auto simp add: abs_if)
  then show ?thesis by (simp add: roundTiesToEven_def Let_def n_def)
qed

lemma roundTiesToEven_of_int: "roundTiesToEven (of_int n) = n"
  by (simp add: roundTiesToEven_def)

lemma two_powr_floor_log_le:
  assumes "x \<noteq> 0"
  shows "2 powr of_int \<lfloor>log 2 \<bar>x\<bar>\<rfloor> \<le> \<bar>x\<bar>"
proof -
  have "2 powr of_int \<lfloor>log 2 \<bar>x\<bar>\<rfloor> \<le> 2 powr (log 2 \<bar>x\<bar>)"
    by (intro powr_mono) simp_all
  also have "\<dots> = \<bar>x\<bar>" using assms by simp
  finally show ?thesis .
qed

lemma toDouble_error: "\<bar>toDouble x - x\<bar> \<le> \<bar>x\<bar> / 2 ^ 53"
proof (cases "x = 0")
  case True
  then show ?thesis by (simp add: toDouble_def)
next
  case False
  define L where "L = \<lfloor>log 2 \<bar>x\<bar>\<rfloor>"
  define p :: real where "p = 2 powr of_int (L - 52)"
  define q where "q = x / p"
  have p0: "0 < p" by (simp add: p_def)
  have d: "toDouble x = of_int (roundTiesToEven q) * p"
    using False by (simp add: toDouble_def Let_def L_def p_def q_def)
  have x: "x = q * p" using p0 by (simp add: q_def)
  have "toDouble x - x = of_int (roundTiesToEven q) * p - q * p"
    using d x by simp
  then have "toDouble x - x = (of_int (roundTiesToEven q) - q) * p"
    by (simp add: left_diff_distrib)
  then have "\<bar>toDouble x - x\<bar> = \<bar>of_int (roundTiesToEven q) - q\<bar> * p"
    using p0 by (simp add: abs_mult)
  also have "\<dots> \<le> 1 / 2 * p"
    using roundTiesToEven_error [of q] p0 by (intro mult_right_mono) simp_all
  also have "\<dots> = 2 powr of_int L / 2 ^ 53"
  proof -
    have "p = 2 powr (of_int L - 52)" by (simp add: p_def)
    also have "\<dots> = 2 powr of_int L / 2 powr 52" by (simp add: powr_diff)
    also have "2 powr (52::real) = 2 ^ 52"
      using powr_realpow [of 2 52] by simp
    finally show ?thesis by simp
  qed
  also have "\<dots> \<le> \<bar>x\<bar> / 2 ^ 53"
    using two_powr_floor_log_le [OF False] by (simp add: L_def divide_right_mono)
  finally show ?thesis .
qed

lemma floor_log2_eq:
  assumes "2 powr of_int n \<le> \<bar>x\<bar>" "\<bar>x\<bar> < 2 powr (of_int n + 1)"
  shows "\<lfloor>log 2 \<bar>x\<bar>\<rfloor> = n"
proof -
  have x0: "0 < \<bar>x\<bar>" using assms(1) by (rule less_le_trans [rotated]) simp
  have "of_int n \<le> log 2 \<bar>x\<bar>" using assms(1) x0 by (simp add: le_log_iff)
  moreover have "log 2 \<bar>x\<bar> < of_int n + 1" using assms(2) x0 by (simp add: log_less_iff)
  ultimately show ?thesis by linarith
qed

lemma two_powr_int_add: "(2::real) powr of_int (a + b) = 2 powr of_int a * 2 powr of_int b"
  by (simp add: powr_add)

lemma two_powr_nat: "(2::real) powr of_int (int k) = 2 ^ k"
  using powr_realpow [of "2::real" k] by simp

lemma toDouble_representable_eq:
  assumes "representable x"
  shows "toDouble x = x"
proof (cases "x = 0")
  case True
  then show ?thesis by (simp add: toDouble_def)
next
  case False
  from assms obtain m j where x: "x = of_int m * 2 powr of_int j" and m: "\<bar>m\<bar> < 2 ^ 53"
    unfolding representable_def by blast
  define L where "L = \<lfloor>log 2 \<bar>x\<bar>\<rfloor>"
  have ax: "\<bar>x\<bar> = of_int \<bar>m\<bar> * 2 powr of_int j"
    by (simp add: x abs_mult)
  have "of_int \<bar>m\<bar> < (2::real) ^ 53" using m by simp
  then have "\<bar>x\<bar> < 2 ^ 53 * 2 powr of_int j"
    unfolding ax by (intro mult_strict_right_mono) simp_all
  also have "\<dots> = 2 powr of_int (53 + j)"
    using two_powr_int_add [of 53 j] two_powr_nat [of 53] by simp
  finally have "log 2 \<bar>x\<bar> < of_int (53 + j)"
    using False by (simp add: log_less_iff)
  then have "L < 53 + j" unfolding L_def by linarith
  define d where "d = nat (j - (L - 52))"
  with \<open>L < 53 + j\<close> have d: "j = (L - 52) + int d" by simp
  have "x / 2 powr of_int (L - 52) = of_int m * 2 powr of_int (int d)"
    unfolding x by (subst d) (simp add: two_powr_int_add del: of_int_add of_int_diff)
  also have "\<dots> = of_int (m * 2 ^ d)" by (simp add: powr_realpow)
  finally have q: "x / 2 powr of_int (L - 52) = of_int (m * 2 ^ d)" .
  have "toDouble x = of_int (m * 2 ^ d) * 2 powr of_int (L - 52)"
    using False by (simp add: toDouble_def Let_def L_def [symmetric] q roundTiesToEven_of_int
        del: of_int_mult of_int_diff)
  also have "\<dots> = x / 2 powr of_int (L - 52) * 2 powr of_int (L - 52)"
    by (simp only: q)
  also have "\<dots> = x" by simp
  finally show ?thesis .
qed

lemma roundTiesToEven_le:
  assumes "q \<le> of_int N"
  shows "roundTiesToEven q \<le> N"
proof -
  define n where "n = \<lfloor>q\<rfloor>"
  have b: "of_int n \<le> q" "q < of_int n + 1" unfolding n_def by linarith+
  have nN: "n \<le> N" using assms unfolding n_def by (simp add: floor_le_iff)
  show ?thesis
  proof (cases "n = N")
    case True
    with assms b have "q - of_int n = 0" by simp
    then show ?thesis
      using True by (simp add: roundTiesToEven_def Let_def n_def [symmetric])
  next
    case False
    with nN have "n + 1 \<le> N" by simp
    then show ?thesis
      using nN by (simp add: roundTiesToEven_def Let_def n_def [symmetric])
  qed
qed

lemma roundTiesToEven_ge:
  assumes "of_int N \<le> q"
  shows "N \<le> roundTiesToEven q"
proof -
  have "N \<le> \<lfloor>q\<rfloor>" using assms by (simp add: le_floor_iff)
  then show ?thesis by (simp add: roundTiesToEven_def Let_def)
qed

lemma representable_intro:
  assumes "\<bar>m\<bar> \<le> 2 ^ 53"
  shows "representable (of_int m * 2 powr of_int j)"
proof (cases "\<bar>m\<bar> < 2 ^ 53")
  case True
  then show ?thesis unfolding representable_def by blast
next
  case False
  with assms have "m = 2 ^ 53 \<or> m = - (2 ^ 53)" by linarith
  then obtain h where mh: "m = 2 * h" and h: "\<bar>h\<bar> < 2 ^ 53"
  proof
    assume "m = 2 ^ 53"
    then have "m = 2 * 2 ^ 52" "\<bar>2 ^ 52 :: int\<bar> < 2 ^ 53" by simp_all
    then show ?thesis by (rule that)
  next
    assume "m = - (2 ^ 53)"
    then have "m = 2 * (- (2 ^ 52))" "\<bar>- (2 ^ 52) :: int\<bar> < 2 ^ 53" by simp_all
    then show ?thesis by (rule that)
  qed
  have "(of_int m * 2 powr of_int j :: real) = of_int h * (2 * 2 powr of_int j)"
    by (simp add: mh)
  also have "2 * 2 powr of_int j = (2::real) powr of_int (j + 1)"
    by (simp add: powr_add)
  finally show ?thesis using h unfolding representable_def by blast
qed

lemma representable_toDouble: "representable (toDouble x)"
proof (cases "x = 0")
  case True
  have "(0::real) = of_int 0 * 2 powr of_int 0" by simp
  then have "representable 0" unfolding representable_def
    by (intro exI [where x = 0]) simp
  with True show ?thesis by (simp add: toDouble_def)
next
  case False
  define L where "L = \<lfloor>log 2 \<bar>x\<bar>\<rfloor>"
  define p :: real where "p = 2 powr of_int (L - 52)"
  define q where "q = x / p"
  have p0: "0 < p" by (simp add: p_def)
  have d: "toDouble x = of_int (roundTiesToEven q) * p"
    using False by (simp add: toDouble_def Let_def L_def p_def q_def)
  have "log 2 \<bar>x\<bar> < of_int L + 1" unfolding L_def by linarith
  then have "\<bar>x\<bar> < 2 powr (of_int L + 1)"
    using False by (simp add: log_less_iff)
  also have "\<dots> = 2 ^ 53 * p"
  proof -
    have "(of_int L + 1 :: real) = 53 + of_int (L - 52)" by simp
    then have "(2::real) powr (of_int L + 1) = 2 powr (53 + of_int (L - 52))"
      by (simp only:)
    also have "\<dots> = 2 powr 53 * 2 powr of_int (L - 52)"
      by (rule powr_add)
    also have "(2::real) powr 53 = 2 ^ 53"
      using powr_realpow [of "2::real" 53] by simp
    finally show ?thesis by (simp add: p_def)
  qed
  finally have "\<bar>x\<bar> / p < 2 ^ 53" using p0 by (simp add: pos_divide_less_eq)
  then have aq: "\<bar>q\<bar> < 2 ^ 53" using p0 by (simp add: q_def abs_divide)
  then have b: "q \<le> of_int (2 ^ 53)" "of_int (- (2 ^ 53)) \<le> q" by simp_all
  have "roundTiesToEven q \<le> 2 ^ 53" using b(1) by (rule roundTiesToEven_le)
  moreover have "- (2 ^ 53) \<le> roundTiesToEven q" using b(2) by (rule roundTiesToEven_ge)
  ultimately have "\<bar>roundTiesToEven q\<bar> \<le> 2 ^ 53" by simp
  then show ?thesis unfolding d p_def by (rule representable_intro)
qed

lemma representable_diff:
  assumes x: "representable x" and y: "representable y"
    and ax: "\<bar>x - y\<bar> \<le> \<bar>x\<bar>" and ay: "\<bar>x - y\<bar> \<le> \<bar>y\<bar>"
  shows "representable (x - y)"
proof -
  from x obtain m i where xm: "x = of_int m * 2 powr of_int i" and m: "\<bar>m\<bar> < 2 ^ 53"
    unfolding representable_def by blast
  from y obtain n j where yn: "y = of_int n * 2 powr of_int j" and n: "\<bar>n\<bar> < 2 ^ 53"
    unfolding representable_def by blast
  show ?thesis
  proof (cases "i \<le> j")
    case True
    define d where "d = nat (j - i)"
    have j: "j = i + int d" using True by (simp add: d_def)
    have y': "y = of_int (n * 2 ^ d) * 2 powr of_int i"
      unfolding yn by (subst j) (simp add: two_powr_int_add powr_realpow del: of_int_add)
    have diff: "x - y = of_int (m - n * 2 ^ d) * 2 powr of_int i"
      unfolding xm y' by (simp add: left_diff_distrib del: of_int_mult)
    have "\<bar>of_int (m - n * 2 ^ d) * 2 powr of_int i :: real\<bar> \<le> \<bar>of_int m * 2 powr of_int i\<bar>"
      using ax by (simp only: diff [symmetric] xm [symmetric])
    then have "\<bar>of_int (m - n * 2 ^ d) :: real\<bar> * 2 powr of_int i \<le> \<bar>of_int m\<bar> * 2 powr of_int i"
      by (simp only: abs_mult) simp
    then have "\<bar>of_int (m - n * 2 ^ d) :: real\<bar> \<le> \<bar>of_int m\<bar>"
      by (simp del: of_int_diff of_int_mult)
    then have "\<bar>m - n * 2 ^ d\<bar> \<le> \<bar>m\<bar>"
      by (metis of_int_abs of_int_le_iff)
    with m have "\<bar>m - n * 2 ^ d\<bar> < 2 ^ 53" by linarith
    then show ?thesis unfolding diff representable_def by blast
  next
    case False
    define d where "d = nat (i - j)"
    have i: "i = j + int d" using False by (simp add: d_def)
    have x': "x = of_int (m * 2 ^ d) * 2 powr of_int j"
      unfolding xm by (subst i) (simp add: two_powr_int_add powr_realpow del: of_int_add)
    have diff: "x - y = of_int (m * 2 ^ d - n) * 2 powr of_int j"
      unfolding x' yn by (simp add: left_diff_distrib del: of_int_mult)
    have "\<bar>of_int (m * 2 ^ d - n) * 2 powr of_int j :: real\<bar> \<le> \<bar>of_int n * 2 powr of_int j\<bar>"
      using ay by (simp only: diff [symmetric] yn [symmetric])
    then have "\<bar>of_int (m * 2 ^ d - n) :: real\<bar> * 2 powr of_int j \<le> \<bar>of_int n\<bar> * 2 powr of_int j"
      by (simp only: abs_mult) simp
    then have "\<bar>of_int (m * 2 ^ d - n) :: real\<bar> \<le> \<bar>of_int n\<bar>"
      by (simp del: of_int_diff of_int_mult)
    then have "\<bar>m * 2 ^ d - n\<bar> \<le> \<bar>n\<bar>"
      by (metis of_int_abs of_int_le_iff)
    with n have "\<bar>m * 2 ^ d - n\<bar> < 2 ^ 53" by linarith
    then show ?thesis unfolding diff representable_def by blast
  qed
qed

lemma toDouble_eval:
  assumes "2 ^ 52 \<le> \<bar>x\<bar> * 2 ^ k" "\<bar>x\<bar> * 2 ^ k < 2 ^ 53"
  shows "toDouble x = of_int (roundTiesToEven (x * 2 ^ k)) / 2 ^ k"
proof -
  have x0: "x \<noteq> 0" using assms(1) by auto
  have p: "(2::real) powr of_int (52 - int k) = 2 ^ 52 / 2 ^ k"
  proof -
    have "(2::real) powr of_int (52 - int k) = 2 powr (52 - real k)" by simp
    also have "\<dots> = 2 powr 52 / 2 powr real k" by (rule powr_diff)
    also have "\<dots> = 2 ^ 52 / 2 ^ k"
      using powr_realpow [of "2::real" 52] powr_realpow [of "2::real" k] by simp
    finally show ?thesis .
  qed
  have lo: "2 powr of_int (52 - int k) \<le> \<bar>x\<bar>"
    unfolding p using assms(1) by (simp add: pos_divide_le_eq)
  have "(2::real) powr (of_int (52 - int k) + 1) = 2 * 2 powr of_int (52 - int k)"
    by (simp only: powr_add) simp
  also have "\<dots> = 2 ^ 53 / 2 ^ k" unfolding p by simp
  finally have hi: "\<bar>x\<bar> < 2 powr (of_int (52 - int k) + 1)"
    using assms(2) by (simp add: pos_less_divide_eq)
  have L: "\<lfloor>log 2 \<bar>x\<bar>\<rfloor> = 52 - int k" using lo hi by (rule floor_log2_eq)
  have e: "(2::real) powr (- real k) = 1 / 2 ^ k"
  proof -
    have "(2::real) powr (- real k) = 1 / 2 powr real k" by (simp add: powr_minus divide_inverse)
    also have "\<dots> = 1 / 2 ^ k" using powr_realpow [of "2::real" k] by simp
    finally show ?thesis .
  qed
  show ?thesis
    using x0 by (simp add: toDouble_def Let_def L e)
qed

text \<open>
  The value of \<open>toDouble\<close> at a number whose binary exponent is known.
\<close>

lemma toDouble_value:
  assumes "2 ^ 52 \<le> \<bar>x\<bar> * 2 ^ k" "\<bar>x\<bar> * 2 ^ k < 2 ^ 53"
    and "roundTiesToEven (x * 2 ^ k) = m"
  shows "toDouble x = of_int m / 2 ^ k"
  using toDouble_eval [OF assms(1,2)] assms(3) by simp

subsection \<open>Attic ventilation\<close>

text \<open>
  A representable total \<open>t\<close> is split as the handler does it: \<open>i\<close> is the rounded quotient
  of the rounded product \<open>t * 1.5\<close> by 2.5, and the rest is \<open>t - i\<close>. The subtraction is
  exact, and \<open>i\<close> is 1.5 times the rest up to 2^-51 of \<open>t\<close>.
\<close>

lemma toDouble_5_2: "toDouble (1 + 1.5) = 2.5"
proof -
  have "(2.5::real) = of_int 5 * 2 powr of_int (- 1)" by (simp add: powr_minus)
  then have "representable 2.5" unfolding representable_def
    by (intro exI [where x = 5] exI [where x = "- 1"]) simp
  then have "toDouble 2.5 = 2.5" by (rule toDouble_representable_eq)
  moreover have "(1 + 1.5 :: real) = 2.5" by simp
  ultimately show ?thesis by simp
qed

lemma double_split_3_2:
  fixes t :: real
  assumes t: "representable t"
  defines "a \<equiv> toDouble (t * 1.5)"
  defines "i \<equiv> toDouble (a / 2.5)"
  shows "toDouble (t - i) = t - i" and "\<bar>i - 1.5 * (t - i)\<bar> \<le> \<bar>t\<bar> / 2 ^ 51"
proof -
  have ea: "\<bar>a - t * 1.5\<bar> \<le> \<bar>t * 1.5\<bar> / 2 ^ 53"
    unfolding a_def by (rule toDouble_error)
  have ei: "\<bar>i - a / 2.5\<bar> \<le> \<bar>a / 2.5\<bar> / 2 ^ 53"
    unfolding i_def by (rule toDouble_error)
  define T where "T = \<bar>t\<bar>"
  define A where "A = \<bar>a\<bar>"
  have T0: "0 \<le> T" by (simp add: T_def)
  have ea': "\<bar>a - 1.5 * t\<bar> \<le> 1.5 * T / 9007199254740992"
    using ea by (simp add: T_def abs_mult mult.commute)
  have ei': "\<bar>i - a / 2.5\<bar> \<le> A / 2.5 / 9007199254740992"
    using ei by (simp add: A_def)
  have A: "A \<le> 1.5 * T + 1.5 * T / 9007199254740992"
    using ea' unfolding A_def T_def by linarith
  have d: "\<bar>i - 0.6 * t\<bar> \<le> 1.3 * T / 9007199254740992"
  proof -
    have "\<bar>a / 2.5 - 0.6 * t\<bar> = \<bar>a - 1.5 * t\<bar> / 2.5"
      by (simp add: abs_if field_simps)
    then have "\<bar>a / 2.5 - 0.6 * t\<bar> \<le> 0.6 * T / 9007199254740992"
      using ea' by simp
    moreover have "A / 2.5 / 9007199254740992 \<le> 0.7 * T / 9007199254740992"
      using A T0 by simp
    ultimately show ?thesis using ei' by linarith
  qed
  have "\<bar>t - i\<bar> \<le> \<bar>t\<bar>" "\<bar>t - i\<bar> \<le> \<bar>i\<bar>"
    using d T0 unfolding T_def by linarith+
  with t representable_toDouble [of "a / 2.5"] have "representable (t - i)"
    unfolding i_def [symmetric] by (intro representable_diff)
  then show "toDouble (t - i) = t - i" by (rule toDouble_representable_eq)
  define z where "z = i - 0.6 * t"
  have dz: "\<bar>z\<bar> \<le> 1.3 * T / 9007199254740992" using d by (simp add: z_def)
  have "i - 1.5 * (t - i) = 2.5 * z" by (simp add: z_def field_simps)
  then have "\<bar>i - 1.5 * (t - i)\<bar> = \<bar>2.5 * z\<bar>"
    by (simp only:)
  also have "\<dots> = 2.5 * \<bar>z\<bar>"
    by (simp add: abs_mult)
  also have "\<dots> \<le> 2.5 * (1.3 * T / 9007199254740992)"
    using dz by (intro mult_left_mono) simp_all
  also have "\<dots> \<le> T / 2 ^ 51" using T0 by simp
  finally show "\<bar>i - 1.5 * (t - i)\<bar> \<le> \<bar>t\<bar> / 2 ^ 51" by (simp add: T_def)
qed

lemma calculateVentilation_vent_areas:
  assumes "pressureDifferential_in (inputs s) = Some pressure"
    "outdoorTemp (inputs s) = Some outTemp"
    "outdoorDewPoint (inputs s) = Some outDP"
    "atticTemp (inputs s) = Some attTemp"
    "atticDewPoint (inputs s) = Some attDP"
    "atticArea (inputs s) = Some area"
  shows "map_option requiredVentArea_intake (result (calculateVentilation s)) =
           Some (toDouble (toDouble (toDouble (area * RECOMMENDED_VENT_RATIO) * 1.5) / 2.5))"
    and "map_option requiredVentArea_exhaust (result (calculateVentilation s)) =
           Some (toDouble (toDouble (area * RECOMMENDED_VENT_RATIO) -
             toDouble (toDouble (toDouble (area * RECOMMENDED_VENT_RATIO) * 1.5) / 2.5)))"
  using assms unfolding toDouble_5_2 [symmetric]
  by (cases s; simp only: calculateVentilation_def Let_def option.simps prod.simps
      component.simps VentilationResult.simps INTAKE_TO_EXHAUST_RATIO_def)+


text \<open>
  C10 (as amended). With the six required fields present and an attic area that is 0 or
  lies between 10^-300 and 10^300 in absolute value (so that every intermediate result
  is a normal double), the handler stores a result whose two required areas add up to
  the attic area times the ratio 1/150 as the code computes that product, exactly: the
  sum is exact before rounding, hence also after. The required intake area is 1.5 times
  the required exhaust area up to rounding, within 2^-51 of the total. Both areas are
  functions of the attic area alone: temperatures, dew points and pressure do not enter.
\<close>

theorem attic_required_vent_areas:
  "pressureDifferential_in (inputs s) = Some pressure \<Longrightarrow>
   outdoorTemp (inputs s) = Some outTemp \<Longrightarrow>
   outdoorDewPoint (inputs s) = Some outDP \<Longrightarrow>
   atticTemp (inputs s) = Some attTemp \<Longrightarrow>
   atticDewPoint (inputs s) = Some attDP \<Longrightarrow>
   atticArea (inputs s) = Some area \<Longrightarrow>
   area = 0 \<or> (1 / 10 ^ 300 \<le> \<bar>area\<bar> \<and> \<bar>area\<bar> \<le> 10 ^ 300) \<Longrightarrow>
   \<exists>r. result (calculateVentilation s) = Some r \<and>
       requiredVentArea_intake r + requiredVentArea_exhaust r =
         toDouble (area * RECOMMENDED_VENT_RATIO) \<and>
       toDouble (requiredVentArea_intake r + requiredVentArea_exhaust r) =
         toDouble (area * RECOMMENDED_VENT_RATIO) \<and>
       \<bar>requiredVentArea_intake r - 1.5 * requiredVentArea_exhaust r\<bar>
         \<le> \<bar>toDouble (area * RECOMMENDED_VENT_RATIO)\<bar> / 2 ^ 51 \<and>
       requiredVentArea_intake r =
         toDouble (toDouble (toDouble (area * RECOMMENDED_VENT_RATIO) * 1.5) / 2.5) \<and>
       requiredVentArea_exhaust r =
         toDouble (area * RECOMMENDED_VENT_RATIO) - requiredVentArea_intake r"
proof -
  assume a: "pressureDifferential_in (inputs s) = Some pressure"
    "outdoorTemp (inputs s) = Some outTemp"
    "outdoorDewPoint (inputs s) = Some outDP"
    "atticTemp (inputs s) = Some attTemp"
    "atticDewPoint (inputs s) = Some attDP"
    "atticArea (inputs s) = Some area"
  define t where "t = toDouble (area * RECOMMENDED_VENT_RATIO)"
  define i where "i = toDouble (toDouble (t * 1.5) / 2.5)"
  have t: "representable t" unfolding t_def by (rule representable_toDouble)
  note split = double_split_3_2 [OF t, folded i_def]
  from calculateVentilation_vent_areas [OF a, folded t_def, folded i_def]
  obtain r where r: "result (calculateVentilation s) = Some r"
    and ri: "requiredVentArea_intake r = i"
    and re: "requiredVentArea_exhaust r = toDouble (t - i)"
    by (cases "result (calculateVentilation s)") auto
  have e: "requiredVentArea_exhaust r = t - i" using re split(1) by simp
  have "toDouble t = t" using t by (rule toDouble_representable_eq)
  then have "toDouble (requiredVentArea_intake r + requiredVentArea_exhaust r) = t"
    by (simp add: ri e)
  moreover have "requiredVentArea_intake r + requiredVentArea_exhaust r = t"
    by (simp add: ri e)
  moreover have "\<bar>requiredVentArea_intake r - 1.5 * requiredVentArea_exhaust r\<bar> \<le> \<bar>t\<bar> / 2 ^ 51"
    using split(2) by (simp only: ri e)
  moreover have "requiredVentArea_exhaust r = t - requiredVentArea_intake r"
    by (simp add: ri e)
  ultimately show ?thesis
    using r ri unfolding i_def t_def by blast
qed


theorem attic_required_vent_areas_witness:
  "\<exists>r. result (calculateVentilation
        \<lparr>inputs = \<lparr>pressureDifferential_in = Some 1, outdoorTemp = Some 90,
           outdoorDewPoint = Some 60, atticTemp = Some 120, atticDewPoint = Some 62,
           atticArea = Some 1500, existingIntakeArea = None, existingExhaustArea = None\<rparr>,
         result = None\<rparr>) = Some r \<and>
       requiredVentArea_intake r + requiredVentArea_exhaust r =
         toDouble (1500 * RECOMMENDED_VENT_RATIO) \<and>
       \<bar>requiredVentArea_intake r - 1.5 * requiredVentArea_exhaust r\<bar>
         \<le> \<bar>toDouble (1500 * RECOMMENDED_VENT_RATIO)\<bar> / 2 ^ 51"
proof -
  define s0 :: "(AtticInputs, VentilationResult) component" where "s0 =
        \<lparr>inputs = \<lparr>pressureDifferential_in = Some 1, outdoorTemp = Some 90,
           outdoorDewPoint = Some 60, atticTemp = Some 120, atticDewPoint = Some 62,
           atticArea = Some 1500, existingIntakeArea = None, existingExhaustArea = None\<rparr>,
         result = None\<rparr>"
  have p: "pressureDifferential_in (inputs s0) = Some 1"
    "outdoorTemp (inputs s0) = Some 90"
    "outdoorDewPoint (inputs s0) = Some 60"
    "atticTemp (inputs s0) = Some 120"
    "atticDewPoint (inputs s0) = Some 62"
    "atticArea (inputs s0) = Some 1500"
    by (simp_all add: s0_def)
  have range: "(1500::real) = 0 \<or> (1 / 10 ^ 300 \<le> \<bar>1500::real\<bar> \<and> \<bar>1500::real\<bar> \<le> 10 ^ 300)"
    by simp
  from attic_required_vent_areas [OF p range] obtain r where
      "result (calculateVentilation s0) = Some r"
      "requiredVentArea_intake r + requiredVentArea_exhaust r =
         toDouble (1500 * RECOMMENDED_VENT_RATIO)"
      "\<bar>requiredVentArea_intake r - 1.5 * requiredVentArea_exhaust r\<bar>
         \<le> \<bar>toDouble (1500 * RECOMMENDED_VENT_RATIO)\<bar> / 2 ^ 51"
    by blast
  then show ?thesis unfolding s0_def by blast
qed


text \<open>
  The claim as stated asks for the intake area to be exactly 1.5 times the exhaust area.
  At an attic area of 1200 the handler computes the doubles nearest to 4.8 and to 3.2;
  1.5 times the second is not the first, neither exactly nor after rounding the product
  (4.800000000000001).
\<close>

lemma RECOMMENDED_VENT_RATIO_value: "RECOMMENDED_VENT_RATIO = 7686143364045647 / 2 ^ 60"
  unfolding RECOMMENDED_VENT_RATIO_def
  using toDouble_value [of "1 / 150" 60 7686143364045647]
  by (simp add: roundTiesToEven_def Let_def)

lemma attic_1200_total: "toDouble (1200 * (7686143364045647 / 2 ^ 60)) = 8"
  using toDouble_value [of "1200 * (7686143364045647 / 2 ^ 60)" 49 4503599627370496]
  by (simp add: roundTiesToEven_def Let_def)

lemma attic_1200_scaled: "toDouble (8 * 1.5) = 12"
  using toDouble_value [of "8 * 1.5" 49 6755399441055744]
  by (simp add: roundTiesToEven_def Let_def)

lemma attic_1200_intake: "toDouble (12 / 2.5) = 5404319552844595 / 2 ^ 50"
  using toDouble_value [of "12 / 2.5" 50 5404319552844595]
  by (simp add: roundTiesToEven_def Let_def)

lemma attic_1200_exhaust:
  "toDouble (8 - 5404319552844595 / 2 ^ 50) = 3602879701896397 / 2 ^ 50"
  using toDouble_value [of "8 - 5404319552844595 / 2 ^ 50" 51 7205759403792794]
  by (simp add: roundTiesToEven_def Let_def)

lemma attic_1200_product:
  "toDouble (1.5 * (3602879701896397 / 2 ^ 50)) = 5404319552844596 / 2 ^ 50"
  using toDouble_value [of "1.5 * (3602879701896397 / 2 ^ 50)" 50 5404319552844596]
  by (simp add: roundTiesToEven_def Let_def)

theorem attic_intake_not_1_5_exhaust:
  "map_option requiredVentArea_intake (result (calculateVentilation
        \<lparr>inputs = \<lparr>pressureDifferential_in = Some 1, outdoorTemp = Some 90,
           outdoorDewPoint = Some 60, atticTemp = Some 120, atticDewPoint = Some 62,
           atticArea = Some 1200, existingIntakeArea = None, existingExhaustArea = None\<rparr>,
         result = None\<rparr>)) = Some (5404319552844595 / 2 ^ 50) \<and>
   map_option requiredVentArea_exhaust (result (calculateVentilation
        \<lparr>inputs = \<lparr>pressureDifferential_in = Some 1, outdoorTemp = Some 90,
           outdoorDewPoint = Some 60, atticTemp = Some 120, atticDewPoint = Some 62,
           atticArea = Some 1200, existingIntakeArea = None, existingExhaustArea = None\<rparr>,
         result = None\<rparr>)) = Some (3602879701896397 / 2 ^ 50) \<and>
   (5404319552844595 / 2 ^ 50 :: real) \<noteq> 1.5 * (3602879701896397 / 2 ^ 50) \<and>
   toDouble (1.5 * (3602879701896397 / 2 ^ 50)) = 5404319552844596 / 2 ^ 50"
proof -
  define s0 :: "(AtticInputs, VentilationResult) component" where "s0 =
        \<lparr>inputs = \<lparr>pressureDifferential_in = Some 1, outdoorTemp = Some 90,
           outdoorDewPoint = Some 60, atticTemp = Some 120, atticDewPoint = Some 62,
           atticArea = Some 1200, existingIntakeArea = None, existingExhaustArea = None\<rparr>,
         result = None\<rparr>"
  have p: "pressureDifferential_in (inputs s0) = Some 1"
    "outdoorTemp (inputs s0) = Some 90"
    "outdoorDewPoint (inputs s0) = Some 60"
    "atticTemp (inputs s0) = Some 120"
    "atticDewPoint (inputs s0) = Some 62"
    "atticArea (inputs s0) = Some 1200"
    by (simp_all add: s0_def)
  note v = calculateVentilation_vent_areas [OF p, unfolded RECOMMENDED_VENT_RATIO_value
      attic_1200_total attic_1200_scaled attic_1200_intake attic_1200_exhaust]
  have "(5404319552844595 / 2 ^ 50 :: real) \<noteq> 1.5 * (3602879701896397 / 2 ^ 50)"
    by simp
  with v attic_1200_product show ?thesis unfolding s0_def by (intro conjI)
qed


subsection \<open>Relative humidity used by the psychrometric calculators\<close>

lemma resolveRH_p1_le_100: "kind \<noteq> WB \<Longrightarrow> resolveRH_p1 kind db humidity \<le> 100"
  by (cases kind) (simp_all add: resolveRH_p1_def Let_def)

lemma calculateProperties_p1_RH:
  "enteringDryBulb_p1 (inputs s) = Some enteringDB \<Longrightarrow>
   enteringHumidity_p1 (inputs s) = Some enteringHum \<Longrightarrow>
   leavingDryBulb_p1 (inputs s) = Some leavingDB \<Longrightarrow>
   leavingHumidity_p1 (inputs s) = Some leavingHum \<Longrightarrow>
   airflow_p1 (inputs s) = Some flow \<Longrightarrow>
   systemSize_p1 (inputs s) = Some tons \<Longrightarrow>
   climateZone_p1 (inputs s) = Some zone \<Longrightarrow>
   \<exists>r. result (calculateProperties_p1 s) = Some r \<and>
       enteringRH_p1 r = resolveRH_p1 (enteringHumidityType_p1 (inputs s)) enteringDB enteringHum \<and>
       leavingRH_p1 r = resolveRH_p1 (leavingHumidityType_p1 (inputs s)) leavingDB leavingHum"
  by (simp add: calculateProperties_p1_def Let_def)

lemma calculateProperties_p1_air_states:
  "enteringDryBulb_p1 (inputs s) = Some enteringDB \<Longrightarrow>
   enteringHumidity_p1 (inputs s) = Some enteringHum \<Longrightarrow>
   leavingDryBulb_p1 (inputs s) = Some leavingDB \<Longrightarrow>
   leavingHumidity_p1 (inputs s) = Some leavingHum \<Longrightarrow>
   airflow_p1 (inputs s) = Some flow \<Longrightarrow>
   systemSize_p1 (inputs s) = Some tons \<Longrightarrow>
   climateZone_p1 (inputs s) = Some zone \<Longrightarrow>
   \<exists>r. result (calculateProperties_p1 s) = Some r \<and>
       enteringRH_p1 r = resolveRH_p1 (enteringHumidityType_p1 (inputs s)) enteringDB enteringHum \<and>
       enteringWetBulb_p1 r = calculateWetBulb_p1 enteringDB (enteringRH_p1 r) \<and>
       enteringHumidityRatio_p1 r = calculateHumidityRatio_p1 enteringDB (enteringRH_p1 r) \<and>
       enteringEnthalpy_p1 r = calculateEnthalpy_p1 enteringDB (enteringHumidityRatio_p1 r) \<and>
       enteringDewPoint_p1 r = calculateDewPoint_p1 enteringDB (enteringRH_p1 r) \<and>
       leavingRH_p1 r = resolveRH_p1 (leavingHumidityType_p1 (inputs s)) leavingDB leavingHum \<and>
       leavingWetBulb_p1 r = calculateWetBulb_p1 leavingDB (leavingRH_p1 r) \<and>
       leavingHumidityRatio_p1 r = calculateHumidityRatio_p1 leavingDB (leavingRH_p1 r) \<and>
       leavingEnthalpy_p1 r = calculateEnthalpy_p1 leavingDB (leavingHumidityRatio_p1 r) \<and>
       leavingDewPoint_p1 r = calculateDewPoint_p1 leavingDB (leavingRH_p1 r) \<and>
       totalBtuh_p1 r = massAirflow_p1 r * (enteringEnthalpy_p1 r - leavingEnthalpy_p1 r) \<and>
       latentBtuh_p1 r = totalBtuh_p1 r - sensibleBtuh_p1 r \<and>
       sensibleHeatRatio_p1 r = sensibleBtuh_p1 r / totalBtuh_p1 r \<and>
       condensationRate_p1 r =
         massAirflow_p1 r * (enteringHumidityRatio_p1 r - leavingHumidityRatio_p1 r)"
  by (simp add: calculateProperties_p1_def Let_def)


text \<open>
  C3 (as amended). In the second version of the psychrometric calculator the wet bulb,
  humidity ratio, enthalpy and dew point of an air state, and through them the total and
  latent capacity, the sensible heat ratio and the condensation rate, are computed from
  the relative humidity that the result stores for that air state. That relative
  humidity is the smaller of the entered value and 100 when the humidity is entered as
  relative humidity. When it is entered as dew point, and dew point and dry bulb lie
  between -380 F and 1000000 F, it is the smaller of 100 and the ratio of the two
  saturation pressures in percent, hence at most 100. There is no lower bound. Nothing is
  said of the value for a humidity entered as wet bulb, nor for a dew-point entry outside
  that range: close to the pole of the saturation-pressure formula (about -395 F) the
  exponential underflows or overflows in double precision and the quotient of the two
  pressures is NaN, which the real numbers of this model do not show.
\<close>

theorem relative_humidity_capped_at_100_p1:
  "enteringDryBulb_p1 (inputs s) = Some enteringDB \<Longrightarrow>
   enteringHumidity_p1 (inputs s) = Some enteringHum \<Longrightarrow>
   leavingDryBulb_p1 (inputs s) = Some leavingDB \<Longrightarrow>
   leavingHumidity_p1 (inputs s) = Some leavingHum \<Longrightarrow>
   airflow_p1 (inputs s) = Some flow \<Longrightarrow>
   systemSize_p1 (inputs s) = Some tons \<Longrightarrow>
   climateZone_p1 (inputs s) = Some zone \<Longrightarrow>
   \<exists>r. result (calculateProperties_p1 s) = Some r \<and>
       (enteringHumidityType_p1 (inputs s) = RH \<longrightarrow> enteringRH_p1 r = min enteringHum 100) \<and>
       (enteringHumidityType_p1 (inputs s) = DP \<and>
        - 380 \<le> enteringHum \<and> enteringHum \<le> 1000000 \<and>
        - 380 \<le> enteringDB \<and> enteringDB \<le> 1000000 \<longrightarrow>
          enteringRH_p1 r =
            min (calculateSaturationPressure_p1 enteringHum /
                 calculateSaturationPressure_p1 enteringDB * 100) 100 \<and>
          enteringRH_p1 r \<le> 100) \<and>
       enteringWetBulb_p1 r = calculateWetBulb_p1 enteringDB (enteringRH_p1 r) \<and>
       enteringHumidityRatio_p1 r = calculateHumidityRatio_p1 enteringDB (enteringRH_p1 r) \<and>
       enteringEnthalpy_p1 r = calculateEnthalpy_p1 enteringDB (enteringHumidityRatio_p1 r) \<and>
       enteringDewPoint_p1 r = calculateDewPoint_p1 enteringDB (enteringRH_p1 r) \<and>
       (leavingHumidityType_p1 (inputs s) = RH \<longrightarrow> leavingRH_p1 r = min leavingHum 100) \<and>
       (leavingHumidityType_p1 (inputs s) = DP \<and>
        - 380 \<le> leavingHum \<and> leavingHum \<le> 1000000 \<and>
        - 380 \<le> leavingDB \<and> leavingDB \<le> 1000000 \<longrightarrow>
          leavingRH_p1 r =
            min (calculateSaturationPressure_p1 leavingHum /
                 calculateSaturationPressure_p1 leavingDB * 100) 100 \<and>
          leavingRH_p1 r \<le> 100) \<and>
       leavingWetBulb_p1 r = calculateWetBulb_p1 leavingDB (leavingRH_p1 r) \<and>
       leavingHumidityRatio_p1 r = calculateHumidityRatio_p1 leavingDB (leavingRH_p1 r) \<and>
       leavingEnthalpy_p1 r = calculateEnthalpy_p1 leavingDB (leavingHumidityRatio_p1 r) \<and>
       leavingDewPoint_p1 r = calculateDewPoint_p1 leavingDB (leavingRH_p1 r) \<and>
       totalBtuh_p1 r = massAirflow_p1 r * (enteringEnthalpy_p1 r - leavingEnthalpy_p1 r) \<and>
       latentBtuh_p1 r = totalBtuh_p1 r - sensibleBtuh_p1 r \<and>
       sensibleHeatRatio_p1 r = sensibleBtuh_p1 r / totalBtuh_p1 r \<and>
       condensationRate_p1 r =
         massAirflow_p1 r * (enteringHumidityRatio_p1 r - leavingHumidityRatio_p1 r)"
proof -
  assume a: "enteringDryBulb_p1 (inputs s) = Some enteringDB"
    "enteringHumidity_p1 (inputs s) = Some enteringHum"
    "leavingDryBulb_p1 (inputs s) = Some leavingDB"
    "leavingHumidity_p1 (inputs s) = Some leavingHum"
    "airflow_p1 (inputs s) = Some flow"
    "systemSize_p1 (inputs s) = Some tons"
    "climateZone_p1 (inputs s) = Some zone"
  from calculateProperties_p1_air_states [OF a] obtain r where r:
    "result (calculateProperties_p1 s) = Some r"
    "enteringRH_p1 r = resolveRH_p1 (enteringHumidityType_p1 (inputs s)) enteringDB enteringHum"
    "enteringWetBulb_p1 r = calculateWetBulb_p1 enteringDB (enteringRH_p1 r)"
    "enteringHumidityRatio_p1 r = calculateHumidityRatio_p1 enteringDB (enteringRH_p1 r)"
    "enteringEnthalpy_p1 r = calculateEnthalpy_p1 enteringDB (enteringHumidityRatio_p1 r)"
    "enteringDewPoint_p1 r = calculateDewPoint_p1 enteringDB (enteringRH_p1 r)"
    "leavingRH_p1 r = resolveRH_p1 (leavingHumidityType_p1 (inputs s)) leavingDB leavingHum"
    "leavingWetBulb_p1 r = calculateWetBulb_p1 leavingDB (leavingRH_p1 r)"
    "leavingHumidityRatio_p1 r = calculateHumidityRatio_p1 leavingDB (leavingRH_p1 r)"
    "leavingEnthalpy_p1 r = calculateEnthalpy_p1 leavingDB (leavingHumidityRatio_p1 r)"
    "leavingDewPoint_p1 r = calculateDewPoint_p1 leavingDB (leavingRH_p1 r)"
    "totalBtuh_p1 r = massAirflow_p1 r * (enteringEnthalpy_p1 r - leavingEnthalpy_p1 r)"
    "latentBtuh_p1 r = totalBtuh_p1 r - sensibleBtuh_p1 r"
    "sensibleHeatRatio_p1 r = sensibleBtuh_p1 r / totalBtuh_p1 r"
    "condensationRate_p1 r =
       massAirflow_p1 r * (enteringHumidityRatio_p1 r - leavingHumidityRatio_p1 r)"
    by blast
  have e1: "enteringHumidityType_p1 (inputs s) = RH \<longrightarrow> enteringRH_p1 r = min enteringHum 100"
    using r(2) by (simp add: resolveRH_p1_def)
  have e2: "enteringHumidityType_p1 (inputs s) = DP \<and>
        - 380 \<le> enteringHum \<and> enteringHum \<le> 1000000 \<and>
        - 380 \<le> enteringDB \<and> enteringDB \<le> 1000000 \<longrightarrow>
          enteringRH_p1 r =
            min (calculateSaturationPressure_p1 enteringHum /
                 calculateSaturationPressure_p1 enteringDB * 100) 100 \<and>
          enteringRH_p1 r \<le> 100"
    using r(2) by (simp add: resolveRH_p1_def Let_def)
  have l1: "leavingHumidityType_p1 (inputs s) = RH \<longrightarrow> leavingRH_p1 r = min leavingHum 100"
    using r(7) by (simp add: resolveRH_p1_def)
  have l2: "leavingHumidityType_p1 (inputs s) = DP \<and>
        - 380 \<le> leavingHum \<and> leavingHum \<le> 1000000 \<and>
        - 380 \<le> leavingDB \<and> leavingDB \<le> 1000000 \<longrightarrow>
          leavingRH_p1 r =
            min (calculateSaturationPressure_p1 leavingHum /
                 calculateSaturationPressure_p1 leavingDB * 100) 100 \<and>
          leavingRH_p1 r \<le> 100"
    using r(7) by (simp add: resolveRH_p1_def Let_def)
  show ?thesis
    using r(1) e1 e2 r(3-6) l1 l2 r(8-15) by (intro exI [where x = r] conjI) assumption+
qed





theorem relative_humidity_capped_at_100_p1_witness:
  "\<exists>r. result (calculateProperties_p1
        \<lparr>inputs = \<lparr>systemSize_p1 = Some 3, climateZone_p1 = Some Moist, airflow_p1 = Some 1200,
           enteringDryBulb_p1 = Some 75, enteringHumidity_p1 = Some 150,
           enteringHumidityType_p1 = RH, leavingDryBulb_p1 = Some 55,
           leavingHumidity_p1 = Some 50, leavingHumidityType_p1 = DP\<rparr>,
         result = None\<rparr>) = Some r \<and>
       enteringRH_p1 r = 100 \<and>
       enteringWetBulb_p1 r = calculateWetBulb_p1 75 100 \<and>
       enteringHumidityRatio_p1 r = calculateHumidityRatio_p1 75 100 \<and>
       enteringDewPoint_p1 r = calculateDewPoint_p1 75 100 \<and>
       leavingRH_p1 r =
         min (calculateSaturationPressure_p1 50 / calculateSaturationPressure_p1 55 * 100) 100 \<and>
       leavingRH_p1 r \<le> 100"
proof -
  define s0 :: "(PsychrometricInputs_p1, PsychrometricResult_p1) component" where "s0 =
        \<lparr>inputs = \<lparr>systemSize_p1 = Some 3, climateZone_p1 = Some Moist, airflow_p1 = Some 1200,
           enteringDryBulb_p1 = Some 75, enteringHumidity_p1 = Some 150,
           enteringHumidityType_p1 = RH, leavingDryBulb_p1 = Some 55,
           leavingHumidity_p1 = Some 50, leavingHumidityType_p1 = DP\<rparr>,
         result = None\<rparr>"
  have p: "enteringDryBulb_p1 (inputs s0) = Some 75"
    "enteringHumidity_p1 (inputs s0) = Some 150"
    "leavingDryBulb_p1 (inputs s0) = Some 55"
    "leavingHumidity_p1 (inputs s0) = Some 50"
    "airflow_p1 (inputs s0) = Some 1200"
    "systemSize_p1 (inputs s0) = Some 3"
    "climateZone_p1 (inputs s0) = Some Moist"
    by (simp_all add: s0_def)
  have k: "enteringHumidityType_p1 (inputs s0) = RH" "leavingHumidityType_p1 (inputs s0) = DP"
    by (simp_all add: s0_def)
  from relative_humidity_capped_at_100_p1 [OF p] obtain r where r:
      "result (calculateProperties_p1 s0) = Some r"
      "enteringHumidityType_p1 (inputs s0) = RH \<longrightarrow> enteringRH_p1 r = min 150 100"
      "enteringWetBulb_p1 r = calculateWetBulb_p1 75 (enteringRH_p1 r)"
      "enteringHumidityRatio_p1 r = calculateHumidityRatio_p1 75 (enteringRH_p1 r)"
      "enteringDewPoint_p1 r = calculateDewPoint_p1 75 (enteringRH_p1 r)"
      "leavingHumidityType_p1 (inputs s0) = DP \<and>
        - 380 \<le> (50::real) \<and> (50::real) \<le> 1000000 \<and>
        - 380 \<le> (55::real) \<and> (55::real) \<le> 1000000 \<longrightarrow>
          leavingRH_p1 r =
            min (calculateSaturationPressure_p1 50 /
                 calculateSaturationPressure_p1 55 * 100) 100 \<and>
          leavingRH_p1 r \<le> 100"
    by blast
  from r(2) k(1) have e: "enteringRH_p1 r = 100" by simp
  from r(6) k(2) have l: "leavingRH_p1 r =
         min (calculateSaturationPressure_p1 50 / calculateSaturationPressure_p1 55 * 100) 100"
      "leavingRH_p1 r \<le> 100"
    by simp_all
  note d = r(3-5) [unfolded e]
  from r(1) e d l show ?thesis
    unfolding s0_def by (intro exI [where x = r] conjI)
qed

text \<open>
  The claim as stated fails in the same calculator: an entered relative humidity of -5
  is used as -5.
\<close>

theorem relative_humidity_negative_p1:
  "map_option enteringRH_p1 (result (calculateProperties_p1
        \<lparr>inputs = \<lparr>systemSize_p1 = Some 3, climateZone_p1 = Some Moist, airflow_p1 = Some 1200,
           enteringDryBulb_p1 = Some 75, enteringHumidity_p1 = Some (- 5),
           enteringHumidityType_p1 = RH, leavingDryBulb_p1 = Some 55,
           leavingHumidity_p1 = Some 90, leavingHumidityType_p1 = RH\<rparr>,
         result = None\<rparr>)) = Some (- 5)"
  using calculateProperties_p1_RH [of
        "\<lparr>inputs = \<lparr>systemSize_p1 = Some 3, climateZone_p1 = Some Moist, airflow_p1 = Some 1200,
           enteringDryBulb_p1 = Some 75, enteringHumidity_p1 = Some (- 5),
           enteringHumidityType_p1 = RH, leavingDryBulb_p1 = Some 55,
           leavingHumidity_p1 = Some 90, leavingHumidityType_p1 = RH\<rparr>,
         result = None\<rparr>" 75 "- 5" 55 90 1200 3 Moist]
  by (auto simp add: resolveRH_p1_def)

subsection \<open>Saturated humidity ratio of the first version\<close>

lemma calculateSaturationPressure_sp_32: "calculateSaturationPressure_sp 32 = 6.11"
  by (simp add: calculateSaturationPressure_sp_def)

lemma calculateSaturationPressure_sp_75_gt: "14.696 < calculateSaturationPressure_sp 75"
proof -
  have e: "(17.625 * ((75 - 32) * 5 / 9)) / (243.04 + (75 - 32) * 5 / 9) \<ge> (3 / 2 :: real)"
    by simp
  have "1 + (3 / 2 :: real) \<le> exp (3 / 2)"
    by (rule exp_ge_add_one_self)
  also have "\<dots> \<le> exp ((17.625 * ((75 - 32) * 5 / 9)) / (243.04 + (75 - 32) * 5 / 9))"
    using e by simp
  finally have "6.11 * (5 / 2 :: real)
      \<le> 6.11 * exp ((17.625 * ((75 - 32) * 5 / 9)) / (243.04 + (75 - 32) * 5 / 9))"
    by simp
  then show ?thesis
    by (simp add: calculateSaturationPressure_sp_def WATER_VAPOR_CONSTANT_def
        WATER_VAPOR_TEMP_CONSTANT_def)
qed

text \<open>
  C5 fails on the first version: its saturation pressure is in hPa (6.11 at 32 F) while the
  atmospheric pressure it is compared with is in psia (14.696). The saturation pressure
  passes 14.696 near 54 F, where the humidity ratio jumps from large positive to large
  negative values: at 75 F it is negative, at 32 F positive.
\<close>

theorem humidity_ratio_not_monotone_sp:
  "calculateHumidityRatio_sp 75 100 < calculateHumidityRatio_sp 32 100"
proof -
  have lo: "0 < calculateHumidityRatio_sp 32 100"
    by (simp add: calculateHumidityRatio_sp_def calculateSaturationPressure_sp_32
        ATMOSPHERIC_PRESSURE_def)
  have p: "14.696 < calculateSaturationPressure_sp 75"
    by (rule calculateSaturationPressure_sp_75_gt)
  then have "0.622 * calculateSaturationPressure_sp 75 / (14.696 - calculateSaturationPressure_sp 75) < 0"
    by (simp add: divide_neg_pos divide_pos_neg field_simps)
  then have hi: "calculateHumidityRatio_sp 75 100 < 0"
    by (simp add: calculateHumidityRatio_sp_def ATMOSPHERIC_PRESSURE_def Let_def)
  from lo hi show ?thesis by linarith
qed

subsection \<open>Dew point of the first version\<close>

text \<open>
  The inverse Magnus formula, with its constants left open: with \<open>l \<le> 0\<close> the logarithm
  of a relative humidity up to 100 percent, the Celsius dew point is at most the Celsius
  dry bulb \<open>c\<close>, provided \<open>c\<close> is above the pole \<open>- b\<close>.
\<close>

lemma magnus_inverse_le:
  fixes a b c l :: real
  assumes a: "0 < a" and b: "0 < b" and bc: "0 < b + c" and l: "l \<le> 0"
  shows "0 < a - (l + a * c / (b + c)) \<and>
         (b * (l + a * c / (b + c))) / (a - (l + a * c / (b + c))) \<le> c"
proof -
  define g where "g = a * c / (b + c)"
  define al where "al = l + g"
  have al_le: "al \<le> g" using l by (simp add: al_def)
  have "a - g = (a * b) / (b + c)"
    using bc by (simp add: g_def field_simps)
  also have "\<dots> > 0" using a b bc by simp
  finally have g_lt: "g < a" by simp
  with al_le have pos: "0 < a - al" by simp
  have "al * (b + c) \<le> g * (b + c)"
    using al_le bc by (simp add: mult_right_mono)
  also have "\<dots> = a * c" using bc by (simp add: g_def)
  finally have "b * al \<le> c * (a - al)" by (simp add: algebra_simps)
  then have "(b * al) / (a - al) \<le> c"
    using pos by (simp add: pos_divide_le_eq)
  with pos show ?thesis by (simp add: al_def g_def)
qed

text \<open>
  The same with a margin \<open>m\<close>: the Celsius dew point is at most \<open>c - m\<close> when the
  logarithm is far enough below 0 for the inequality \<open>key\<close>.
\<close>

lemma magnus_inverse_margin:
  fixes a b c l m :: real
  assumes a: "0 < a" and b: "0 < b" and bc: "0 < b + c" and l: "l \<le> 0"
    and key: "m * (a * b - l * (b + c)) \<le> - l * (b + c) * (b + c)"
  shows "(b * (l + a * c / (b + c))) / (a - (l + a * c / (b + c))) \<le> c - m"
proof -
  define s where "s = b + c"
  define al where "al = l + a * c / s"
  have s0: "0 < s" using bc by (simp add: s_def)
  have pos: "0 < a - al"
    using magnus_inverse_le [OF a b bc l] by (simp add: al_def s_def)
  have als: "al * s = l * s + a * c"
    using s0 by (simp add: al_def distrib_right)
  have den: "(a - al) * s = a * b - l * s"
  proof -
    have "(a - al) * s = a * s - al * s" by (simp add: left_diff_distrib)
    also have "\<dots> = a * s - (l * s + a * c)" by (simp only: als)
    also have "\<dots> = a * b - l * s" by (simp add: s_def algebra_simps)
    finally show ?thesis .
  qed
  have num: "b * al = c * (a - al) + l * s"
  proof -
    have "b * al = al * s - al * c" by (simp add: s_def algebra_simps)
    also have "\<dots> = l * s + a * c - al * c" by (simp add: als)
    also have "\<dots> = c * (a - al) + l * s" by (simp add: algebra_simps)
    finally show ?thesis .
  qed
  from key have "(m * (a - al)) * s \<le> (- l * s) * s"
    by (simp add: den s_def [symmetric] mult.assoc)
  then have "m * (a - al) \<le> - l * s"
    using s0 by (simp only: mult_le_cancel_right_pos)
  then have "b * al \<le> (c - m) * (a - al)"
    unfolding num by (simp add: algebra_simps)
  then have "(b * al) / (a - al) \<le> c - m"
    using pos by (simp add: pos_divide_le_eq)
  then show ?thesis by (simp add: al_def s_def)
qed

text \<open>
  C4 (as amended). For every dry-bulb temperature from -40 F to 1000000 F and every
  relative humidity from 10^-300 to 99.9 percent, the dew point is a number and lies at
  least 0.01 F below the dry-bulb temperature. The bounds keep the statement clear of
  rounding: over the reals the dew point at RH = 100 equals the dry bulb, so that in
  double precision it can come out above it; a relative humidity so small that RH / 100
  underflows to 0 gives the logarithm of 0; and close to the pole of the formula
  (-405.472 F) the margin vanishes. Nothing is promised about the wet bulb.
\<close>

theorem dew_point_below_dry_bulb_sp:
  "- 40 \<le> T \<Longrightarrow> T \<le> 1000000 \<Longrightarrow> 1 / 10 ^ 300 \<le> rh \<Longrightarrow> rh \<le> 99.9 \<Longrightarrow>
   \<exists>d. calculateDewPoint_sp T rh = Some d \<and> d \<le> T - 1 / 100"
proof -
  assume T: "- 40 \<le> T" "T \<le> 1000000" and rh: "1 / 10 ^ 300 \<le> rh" "rh \<le> 99.9"
  have rh0: "0 < rh" using rh(1) by (rule less_le_trans [rotated]) simp
  define c where "c = (T - 32) * 5 / 9"
  define al where "al = ln (rh / 100) + 17.625 * c / (243.04 + c)"
  define dC where "dC = (243.04 * al) / (17.625 - al)"
  have c: "- 40 \<le> c" using T(1) by (simp add: c_def)
  have "ln (rh / 100) \<le> rh / 100 - 1"
    using rh0 by (intro ln_le_minus_one) simp
  also have "\<dots> \<le> - 1 / 1000" using rh(2) by simp
  finally have l: "ln (rh / 100) \<le> - 1 / 1000" .
  define s where "s = 243.04 + c"
  define k where "k = - ln (rh / 100)"
  have s: "203.04 \<le> s" using c by (simp add: s_def)
  have k: "1 / 1000 \<le> k" using l by (simp add: k_def)
  have "36546 * 203 \<le> (180 * s - 1) * s"
    using s by (intro mult_mono) simp_all
  then have big: "7418838 \<le> (180 * s - 1) * s" by simp
  have "1 / 1000 * 7418838 \<le> k * ((180 * s - 1) * s)"
    using k big by (intro mult_mono) simp_all
  then have "4283.58 + k * s \<le> 180 * (k * s * s)"
    by (simp add: algebra_simps)
  then have "1 / 180 * (4283.58 + k * s) \<le> k * s * s" by simp
  then have key: "1 / 180 * (17.625 * 243.04 - ln (rh / 100) * (243.04 + c))
      \<le> - ln (rh / 100) * (243.04 + c) * (243.04 + c)"
    by (simp add: k_def s_def)
  have bc: "0 < 243.04 + c" using c by simp
  have l0: "ln (rh / 100) \<le> 0" using l by simp
  have pos: "0 < 17.625 - al"
    using magnus_inverse_le [of "17.625" "243.04" c "ln (rh / 100)"] bc l0
    by (simp add: al_def)
  have le: "dC \<le> c - 1 / 180"
    using magnus_inverse_margin [of "17.625" "243.04" c "ln (rh / 100)" "1 / 180", OF _ _ bc l0 key]
    by (simp add: al_def dC_def)
  from le have "dC * 9 / 5 + 32 \<le> T - 1 / 100"
    unfolding c_def by argo
  moreover have "243.04 + c \<noteq> 0" using c by simp
  then have "calculateDewPoint_sp T rh = Some (dC * 9 / 5 + 32)"
    using rh0 pos
    by (simp add: calculateDewPoint_sp_def Let_def al_def c_def dC_def
        WATER_VAPOR_CONSTANT_def WATER_VAPOR_TEMP_CONSTANT_def)
  ultimately show ?thesis by blast
qed

theorem dew_point_below_dry_bulb_sp_witness:
  "- 40 \<le> (75::real) \<and> (75::real) \<le> 1000000 \<and> 1 / 10 ^ 300 \<le> (50::real) \<and> (50::real) \<le> 99.9 \<and>
   (\<exists>d. calculateDewPoint_sp 75 50 = Some d \<and> d \<le> 75 - 1 / 100)"
  using dew_point_below_dry_bulb_sp [of 75 50] by simp

text \<open>
  The claim as stated includes RH = 0, where the logarithm is minus infinity and the dew
  point is NaN; and for a dry bulb below the pole the dew point can exceed the dry bulb.
\<close>

lemma ln_10_bounds: "2 < ln (10::real) \<and> ln (10::real) < 4"
proof -
  have e1: "exp (1::real) \<le> 3" by (rule exp_le)
  have "exp (2::real) = exp 1 * exp 1" by (simp flip: exp_add)
  also have "\<dots> \<le> 3 * 3" using e1 by (intro mult_mono) simp_all
  finally have "exp (2::real) < 10" by simp
  then have "exp (2::real) < exp (ln 10)" by simp
  then have lo: "2 < ln (10::real)" by (simp only: exp_less_cancel_iff)
  have "(2::real) \<le> exp 1" using exp_ge_add_one_self [of "1::real"] by simp
  then have "(2::real) ^ 4 \<le> exp 1 ^ 4" by (intro power_mono) simp_all
  also have "\<dots> = exp (4::real)" by (simp flip: exp_of_nat_mult)
  finally have "(10::real) < exp 4" by simp
  then have "exp (ln (10::real)) < exp 4" by simp
  then have hi: "ln (10::real) < 4" by (simp only: exp_less_cancel_iff)
  from lo hi show ?thesis ..
qed

lemma ln_thousandth: "ln (1 / 1000 :: real) = - 3 * ln 10"
proof -
  have "ln (1000 :: real) = ln (10 ^ 3)" by simp
  also have "\<dots> = 3 * ln 10" by (subst ln_realpow) simp
  finally have "ln (1000 :: real) = 3 * ln 10" .
  then show ?thesis by (simp add: ln_div)
qed

lemma dew_point_below_pole:
  "case calculateDewPoint_sp (- 1768) (1 / 10) of None \<Rightarrow> False | Some d \<Rightarrow> - 1768 < d"
proof -
  define al :: real where "al = - 3 * ln 10 + 17625 / 756.96"
  define dC :: real where "dC = (243.04 * al) / (17.625 - al)"
  have al: "0 < al" "al < 17.625"
    using ln_10_bounds by (simp_all add: al_def)
  then have "0 < dC" by (simp add: dC_def)
  then have gt: "- 1768 < dC * 9 / 5 + 32" by argo
  have "calculateDewPoint_sp (- 1768) (1 / 10) = Some (dC * 9 / 5 + 32)"
    using al
    by (simp add: calculateDewPoint_sp_def Let_def WATER_VAPOR_CONSTANT_def
        WATER_VAPOR_TEMP_CONSTANT_def ln_thousandth al_def dC_def)
  with gt show ?thesis by simp
qed

theorem dew_point_claim_fails:
  "calculateDewPoint_sp 75 0 = None \<and>
   (case calculateDewPoint_sp (- 1768) (1 / 10) of None \<Rightarrow> False | Some d \<Rightarrow> - 1768 < d)"
  using dew_point_below_pole by (simp add: calculateDewPoint_sp_def)

subsection \<open>The capped wet-bulb loop of the second version\<close>

lemma wetBulbLoop_p1_iterations:
  "iteration \<le> 100 \<Longrightarrow>
   iteration \<le> snd (wetBulbLoop_p1 db w wb error iteration) \<and>
   snd (wetBulbLoop_p1 db w wb error iteration) \<le> 100"
proof (induction db w wb error iteration rule: wetBulbLoop_p1.induct)
  case (1 db w wb error iteration)
  show ?case
  proof (cases "\<bar>error\<bar> > 0.01 \<and> iteration < 100")
    case True
    then have "iteration + 1 \<le> 100" by simp
    from "1.IH" [OF True refl refl this] True show ?thesis
      by (simp add: Let_def)
  next
    case False
    with "1.prems" show ?thesis by simp
  qed
qed

subsection \<open>Bounds of the exponential function and of the saturation pressure\<close>

lemma exp_taylor7_lower:
  fixes x :: real
  assumes "0 \<le> x"
  shows "1 + x + x^2 / 2 + x^3 / 6 + x^4 / 24 + x^5 / 120 + x^6 / 720 + x^7 / 5040 \<le> exp x"
proof -
  obtain t where t: "\<bar>t\<bar> \<le> \<bar>x\<bar>"
      "exp x = (\<Sum>m<8. x ^ m / fact m) + exp t / fact 8 * x ^ 8"
    using Maclaurin_exp_le [of x 8] by blast
  have "0 \<le> exp t / fact 8 * x ^ 8" using assms by simp
  moreover have "(\<Sum>m<8. x ^ m / fact m)
      = 1 + x + x^2 / 2 + x^3 / 6 + x^4 / 24 + x^5 / 120 + x^6 / 720 + x^7 / 5040"
    by (simp add: lessThan_nat_numeral lessThan_Suc fact_numeral)
  ultimately show ?thesis using t(2) by linarith
qed

lemma exp_taylor7_upper:
  fixes x :: real
  assumes "0 \<le> x" "x \<le> 1"
  shows "exp x \<le> 1 + x + x^2 / 2 + x^3 / 6 + x^4 / 24 + x^5 / 120 + x^6 / 720 + x^7 / 5040
                 + x^8 / 13440"
proof -
  obtain t where t: "\<bar>t\<bar> \<le> \<bar>x\<bar>"
      "exp x = (\<Sum>m<8. x ^ m / fact m) + exp t / fact 8 * x ^ 8"
    using Maclaurin_exp_le [of x 8] by blast
  have "t \<le> 1" using t(1) assms by linarith
  then have "exp t \<le> exp 1" by simp
  also have "\<dots> \<le> 3" by (rule exp_le)
  finally have "exp t \<le> 3" .
  then have "exp t / fact 8 * x ^ 8 \<le> 3 / fact 8 * x ^ 8"
    using assms by (intro mult_right_mono divide_right_mono) simp_all
  also have "\<dots> = x ^ 8 / 13440" by (simp add: fact_numeral)
  finally have r: "exp t / fact 8 * x ^ 8 \<le> x ^ 8 / 13440" .
  have "(\<Sum>m<8. x ^ m / fact m)
      = 1 + x + x^2 / 2 + x^3 / 6 + x^4 / 24 + x^5 / 120 + x^6 / 720 + x^7 / 5040"
    by (simp add: lessThan_nat_numeral lessThan_Suc fact_numeral)
  with r t(2) show ?thesis by linarith
qed

lemma expLower_le_exp:
  fixes x :: real
  assumes "0 \<le> x"
  shows "expLower x \<le> exp x"
proof -
  have "expLower x = 1 + x + x^2 / 2 + x^3 / 6 + x^4 / 24 + x^5 / 120 + x^6 / 720 + x^7 / 5040"
    by (simp add: expLower_def field_simps eval_nat_numeral)
  with exp_taylor7_lower [OF assms] show ?thesis by simp
qed

lemma exp_le_expUpper:
  fixes x :: real
  assumes "0 \<le> x" "x \<le> 1"
  shows "exp x \<le> expUpper x"
proof -
  have "expUpper x = 1 + x + x^2 / 2 + x^3 / 6 + x^4 / 24 + x^5 / 120 + x^6 / 720 + x^7 / 5040
                 + x^8 / 13440"
    by (simp add: expUpper_def field_simps eval_nat_numeral)
  with exp_taylor7_upper [OF assms] show ?thesis by simp
qed

lemma exp_quarter: "exp q = exp (q / 4) ^ 4" for q :: real
  using exp_of_nat_mult [of 4 "q / 4"] by simp

lemma pws_exponent:
  "calculateSaturationPressure_sp t = 6.11 * exp (88.125 * (t - 32) / (5 * t + 2027.36))"
proof -
  have "(17.625 * ((t - 32) * 5 / 9)) / (243.04 + (t - 32) * 5 / 9)
        = 88.125 * (t - 32) / (5 * t + 2027.36)"
  proof (cases "5 * t + 2027.36 = 0")
    case True
    then have "243.04 + (t - 32) * 5 / 9 = 0" by (simp add: field_simps)
    with True show ?thesis by simp
  next
    case False
    then have "243.04 + (t - 32) * 5 / 9 \<noteq> 0" by (simp add: field_simps)
    with False show ?thesis by (simp add: field_simps)
  qed
  then show ?thesis
    by (simp add: calculateSaturationPressure_sp_def Let_def WATER_VAPOR_CONSTANT_def
        WATER_VAPOR_TEMP_CONSTANT_def)
qed

text \<open>
  A lower and an upper bound of the saturation pressure at \<open>t\<close> from a decimal \<open>q\<close> below
  (above) the exponent and a decimal \<open>y\<close> below (above) the Taylor bound at \<open>q / 4\<close>.
\<close>

lemma pws_lower:
  assumes "0 \<le> q" "q \<le> 88.125 * (t - 32) / (5 * t + 2027.36)"
    and "0 \<le> y" "y \<le> expLower (q / 4)" "l \<le> 6.11 * y ^ 4"
  shows "l \<le> calculateSaturationPressure_sp t"
proof -
  have "y \<le> exp (q / 4)"
    using assms(4) expLower_le_exp [of "q / 4"] assms(1) by simp
  then have "y ^ 4 \<le> exp (q / 4) ^ 4" using assms(3) by (rule power_mono)
  also have "\<dots> = exp q" by (rule exp_quarter [symmetric])
  also have "\<dots> \<le> exp (88.125 * (t - 32) / (5 * t + 2027.36))" using assms(2) by simp
  finally have "6.11 * y ^ 4 \<le> calculateSaturationPressure_sp t"
    by (simp add: pws_exponent)
  with assms(5) show ?thesis by linarith
qed

lemma pws_upper:
  assumes "0 \<le> q" "q \<le> 4" "88.125 * (t - 32) / (5 * t + 2027.36) \<le> q"
    and "expUpper (q / 4) \<le> y" "6.11 * y ^ 4 \<le> u"
  shows "calculateSaturationPressure_sp t \<le> u"
proof -
  have "exp (88.125 * (t - 32) / (5 * t + 2027.36)) \<le> exp q" using assms(3) by simp
  also have "\<dots> = exp (q / 4) ^ 4" by (rule exp_quarter)
  also have "\<dots> \<le> y ^ 4"
  proof (rule power_mono)
    show "exp (q / 4) \<le> y"
      using assms(4) exp_le_expUpper [of "q / 4"] assms(1,2) by simp
  qed simp
  finally have "calculateSaturationPressure_sp t \<le> 6.11 * y ^ 4"
    by (simp add: pws_exponent)
  with assms(5) show ?thesis by linarith
qed

lemma mobius_mono:
  fixes s t a k :: real
  assumes "0 < 5 * s + k" "s \<le> t" "0 \<le> k + 5 * a"
  shows "(s - a) / (5 * s + k) \<le> (t - a) / (5 * t + k)"
proof -
  have pt: "0 < 5 * t + k" using assms by linarith
  have "(t - a) / (5 * t + k) - (s - a) / (5 * s + k)
        = (k + 5 * a) * (t - s) / ((5 * t + k) * (5 * s + k))"
    using assms(1) pt by (simp add: field_simps)
  also have "\<dots> \<ge> 0" using assms pt by simp
  finally show ?thesis by simp
qed

lemma pws_mono:
  assumes "- 405.472 < s" "s \<le> t"
  shows "calculateSaturationPressure_sp s \<le> calculateSaturationPressure_sp t"
proof -
  have ps: "0 < 5 * s + 2027.36"
    using assms by (simp add: field_simps)
  have "(s - 32) / (5 * s + 2027.36) \<le> (t - 32) / (5 * t + 2027.36)"
    using ps assms(2) by (rule mobius_mono) simp
  then have "88.125 * ((s - 32) / (5 * s + 2027.36)) \<le> 88.125 * ((t - 32) / (5 * t + 2027.36))"
    by (intro mult_left_mono) simp_all
  then show ?thesis by (simp add: pws_exponent)
qed

text \<open>The saturated humidity ratio above the pole, negated: decreasing in the pressure.\<close>

lemma ratio_antimono_gen:
  fixes a b c :: real
  assumes "c < a" "a \<le> b" "0 \<le> c"
  shows "b / (b - c) \<le> a / (a - c)"
proof -
  have pa: "0 < a - c" and pb: "0 < b - c" using assms by simp_all
  have "a / (a - c) - b / (b - c) = c * (b - a) / ((a - c) * (b - c))"
    using pa pb by (simp add: field_simps)
  also have "\<dots> \<ge> 0" using assms pa pb by simp
  finally show ?thesis by simp
qed

lemma ratio_antimono:
  fixes a b :: real
  assumes "14.696 < a" "a \<le> b"
  shows "0.622 * b / (b - 14.696) \<le> 0.622 * a / (a - 14.696)"
proof -
  have "b / (b - 14.696) \<le> a / (a - 14.696)"
    using assms by (rule ratio_antimono_gen) simp
  then have "0.622 * (b / (b - 14.696)) \<le> 0.622 * (a / (a - 14.696))"
    by (intro mult_left_mono) simp_all
  then show ?thesis by simp
qed

subsection \<open>One pass of the uncapped wet-bulb loop\<close>

lemma wetBulbLoop_sp_step:
  "wetBulbLoop_sp db pw wb error =
     (if \<bar>error\<bar> > 0.01
      then wetBulbLoop_sp db pw (wb + wetBulbError_sp db pw wb / 100) (wetBulbError_sp db pw wb)
      else Some wb)"
  by (subst wetBulbLoop_sp.simps) (simp add: Let_def wetBulbError_sp_def)

lemma wetBulbStep_sp_bounds:
  assumes "- 405.472 < u" "u \<le> wb" "wb \<le> v" "14.696 < pl"
    and "pl \<le> calculateSaturationPressure_sp u"
    and "calculateSaturationPressure_sp v \<le> pu"
    and "wl \<le> 0.622 * pw / (14.696 - pw) \<and> 0.622 * pw / (14.696 - pw) \<le> wh"
  shows "0.99 * u + db / 100 + 10.93 * (0.622 * pu / (pu - 14.696) + wl)
           \<le> wb + wetBulbError_sp db pw wb / 100 \<and>
         wb + wetBulbError_sp db pw wb / 100
           \<le> 0.99 * v + db / 100 + 10.93 * (0.622 * pl / (pl - 14.696) + wh)"
proof -
  define p where "p = calculateSaturationPressure_sp wb"
  define h where "h = 0.622 * p / (p - 14.696)"
  define w where "w = 0.622 * pw / (14.696 - pw)"
  have "calculateSaturationPressure_sp u \<le> p"
    unfolding p_def using assms(1,2) by (rule pws_mono)
  with assms(5) have lo: "pl \<le> p" by linarith
  have "p \<le> calculateSaturationPressure_sp v"
    unfolding p_def using assms(1,2,3) by (intro pws_mono) linarith+
  with assms(6) have hi: "p \<le> pu" by linarith
  have h_hi: "h \<le> 0.622 * pl / (pl - 14.696)"
    unfolding h_def using assms(4) lo by (rule ratio_antimono)
  have "14.696 < p" using assms(4) lo by linarith
  then have h_lo: "0.622 * pu / (pu - 14.696) \<le> h"
    unfolding h_def using hi by (rule ratio_antimono)
  have "0.622 * p / (14.696 - p) = - h"
    by (simp add: h_def minus_divide_right)
  then have "wetBulbError_sp db pw wb = (db - wb) - ((- h - w) * 1093)"
    by (simp add: wetBulbError_sp_def ATMOSPHERIC_PRESSURE_def p_def w_def)
  then have eq: "wb + wetBulbError_sp db pw wb / 100
      = 0.99 * wb + db / 100 + 10.93 * (h + w)"
    by (simp add: field_simps)
  have w: "wl \<le> w" "w \<le> wh" using assms(7) by (simp_all add: w_def)
  define hl where "hl = 0.622 * pu / (pu - 14.696)"
  define hh where "hh = 0.622 * pl / (pl - 14.696)"
  have "0.99 * u + db / 100 + 10.93 * (hl + wl) \<le> 0.99 * wb + db / 100 + 10.93 * (h + w)"
    using assms(2) h_lo w(1) unfolding hl_def [symmetric] by (simp add: field_simps)
  moreover have "0.99 * wb + db / 100 + 10.93 * (h + w) \<le> 0.99 * v + db / 100 + 10.93 * (hh + wh)"
    using assms(3) h_hi w(2) unfolding hh_def [symmetric] by (simp add: field_simps)
  ultimately show ?thesis unfolding eq hl_def hh_def by simp
qed

lemma wetBulbError_sp_bounds:
  assumes "- 405.472 < u" "u \<le> wb" "wb \<le> v" "14.696 < pl"
    and "pl \<le> calculateSaturationPressure_sp u"
    and "calculateSaturationPressure_sp v \<le> pu"
    and "wl \<le> 0.622 * pw / (14.696 - pw) \<and> 0.622 * pw / (14.696 - pw) \<le> wh"
  shows "(db - v) + (0.622 * pu / (pu - 14.696) + wl) * 1093 \<le> wetBulbError_sp db pw wb \<and>
         wetBulbError_sp db pw wb \<le> (db - u) + (0.622 * pl / (pl - 14.696) + wh) * 1093"
proof -
  define p where "p = calculateSaturationPressure_sp wb"
  define h where "h = 0.622 * p / (p - 14.696)"
  define w where "w = 0.622 * pw / (14.696 - pw)"
  have "calculateSaturationPressure_sp u \<le> p"
    unfolding p_def using assms(1,2) by (rule pws_mono)
  with assms(5) have lo: "pl \<le> p" by linarith
  have "p \<le> calculateSaturationPressure_sp v"
    unfolding p_def using assms(1,2,3) by (intro pws_mono) linarith+
  with assms(6) have hi: "p \<le> pu" by linarith
  have h_hi: "h \<le> 0.622 * pl / (pl - 14.696)"
    unfolding h_def using assms(4) lo by (rule ratio_antimono)
  have "14.696 < p" using assms(4) lo by linarith
  then have h_lo: "0.622 * pu / (pu - 14.696) \<le> h"
    unfolding h_def using hi by (rule ratio_antimono)
  have "0.622 * p / (14.696 - p) = - h"
    by (simp add: h_def minus_divide_right)
  then have eq: "wetBulbError_sp db pw wb = (db - wb) + (h + w) * 1093"
    by (simp add: wetBulbError_sp_def ATMOSPHERIC_PRESSURE_def p_def w_def algebra_simps)
  have w: "wl \<le> w" "w \<le> wh" using assms(7) by (simp_all add: w_def)
  define hl where "hl = 0.622 * pu / (pu - 14.696)"
  define hh where "hh = 0.622 * pl / (pl - 14.696)"
  have "(db - v) + (hl + wl) * 1093 \<le> (db - wb) + (h + w) * 1093"
    using assms(3) h_lo w(1) unfolding hl_def [symmetric] by (simp add: field_simps)
  moreover have "(db - wb) + (h + w) * 1093 \<le> (db - u) + (hh + wh) * 1093"
    using assms(2) h_hi w(2) unfolding hh_def [symmetric] by (simp add: field_simps)
  ultimately show ?thesis unfolding eq hl_def hh_def by simp
qed

subsection \<open>The uncapped wet-bulb loop at 67 F and 90 %\<close>

text \<open>
  Bounds of the saturation pressure at the points of a grid on the two intervals, then
  the image of each cell of the grid under one pass of the loop.
\<close>

lemma pws_sp_at_61_1:
  "18.342 \<le> calculateSaturationPressure_sp 61.1 \<and>
   calculateSaturationPressure_sp 61.1 \<le> 18.34203"
proof
  show "18.342 \<le> calculateSaturationPressure_sp 61.1"
    by (rule pws_lower [where q = "1.099267" and y = "1.31628944"])
      (simp_all add: expLower_def power_divide)
  show "calculateSaturationPressure_sp 61.1 \<le> 18.34203"
    by (rule pws_upper [where q = "1.099268" and y = "1.31628978"])
      (simp_all add: expUpper_def power_divide)
qed

lemma pws_sp_at_61_5:
  "18.6035 \<le> calculateSaturationPressure_sp 61.5 \<and>
   calculateSaturationPressure_sp 61.5 \<le> 18.60352"
proof
  show "18.6035 \<le> calculateSaturationPressure_sp 61.5"
    by (rule pws_lower [where q = "1.113423" and y = "1.32095604"])
      (simp_all add: expLower_def power_divide)
  show "calculateSaturationPressure_sp 61.5 \<le> 18.60352"
    by (rule pws_upper [where q = "1.113424" and y = "1.32095638"])
      (simp_all add: expUpper_def power_divide)
qed

lemma pws_sp_at_61_9:
  "18.86825 \<le> calculateSaturationPressure_sp 61.9 \<and>
   calculateSaturationPressure_sp 61.9 \<le> 18.86828"
proof
  show "18.86825 \<le> calculateSaturationPressure_sp 61.9"
    by (rule pws_lower [where q = "1.127554" and y = "1.3256309"])
      (simp_all add: expLower_def power_divide)
  show "calculateSaturationPressure_sp 61.9 \<le> 18.86828"
    by (rule pws_upper [where q = "1.127555" and y = "1.32563124"])
      (simp_all add: expUpper_def power_divide)
qed

lemma pws_sp_at_62_3:
  "19.13631 \<le> calculateSaturationPressure_sp 62.3 \<and>
   calculateSaturationPressure_sp 62.3 \<le> 19.13634"
proof
  show "19.13631 \<le> calculateSaturationPressure_sp 62.3"
    by (rule pws_lower [where q = "1.141661" and y = "1.33031432"])
      (simp_all add: expLower_def power_divide)
  show "calculateSaturationPressure_sp 62.3 \<le> 19.13634"
    by (rule pws_upper [where q = "1.141662" and y = "1.33031467"])
      (simp_all add: expUpper_def power_divide)
qed

lemma pws_sp_at_62_5:
  "19.2716 \<le> calculateSaturationPressure_sp 62.5 \<and>
   calculateSaturationPressure_sp 62.5 \<le> 19.27163"
proof
  show "19.2716 \<le> calculateSaturationPressure_sp 62.5"
    by (rule pws_lower [where q = "1.148706" and y = "1.3326594"])
      (simp_all add: expLower_def power_divide)
  show "calculateSaturationPressure_sp 62.5 \<le> 19.27163"
    by (rule pws_upper [where q = "1.148707" and y = "1.33265975"])
      (simp_all add: expUpper_def power_divide)
qed

lemma pws_sp_at_66_2:
  "21.93053 \<le> calculateSaturationPressure_sp 66.2 \<and>
   calculateSaturationPressure_sp 66.2 \<le> 21.93056"
proof
  show "21.93053 \<le> calculateSaturationPressure_sp 66.2"
    by (rule pws_lower [where q = "1.277953" and y = "1.37642319"])
      (simp_all add: expLower_def power_divide)
  show "calculateSaturationPressure_sp 66.2 \<le> 21.93056"
    by (rule pws_upper [where q = "1.277954" and y = "1.37642355"])
      (simp_all add: expUpper_def power_divide)
qed

lemma pws_sp_at_66_4:
  "22.08301 \<le> calculateSaturationPressure_sp 66.4 \<and>
   calculateSaturationPressure_sp 66.4 \<le> 22.08304"
proof
  show "22.08301 \<le> calculateSaturationPressure_sp 66.4"
    by (rule pws_lower [where q = "1.284882" and y = "1.37880957"])
      (simp_all add: expLower_def power_divide)
  show "calculateSaturationPressure_sp 66.4 \<le> 22.08304"
    by (rule pws_upper [where q = "1.284883" and y = "1.37880993"])
      (simp_all add: expUpper_def power_divide)
qed

lemma pws_sp_at_66_7:
  "22.31347 \<le> calculateSaturationPressure_sp 66.7 \<and>
   calculateSaturationPressure_sp 66.7 \<le> 22.3135"
proof
  show "22.31347 \<le> calculateSaturationPressure_sp 66.7"
    by (rule pws_lower [where q = "1.295264" and y = "1.38239292"])
      (simp_all add: expLower_def power_divide)
  show "calculateSaturationPressure_sp 66.7 \<le> 22.3135"
    by (rule pws_upper [where q = "1.295265" and y = "1.38239328"])
      (simp_all add: expUpper_def power_divide)
qed

lemma pws_sp_at_67:
  "22.54602 \<le> calculateSaturationPressure_sp 67 \<and>
   calculateSaturationPressure_sp 67 \<le> 22.54605"
proof
  show "22.54602 \<le> calculateSaturationPressure_sp 67"
    by (rule pws_lower [where q = "1.305632" and y = "1.38598073"])
      (simp_all add: expLower_def power_divide)
  show "calculateSaturationPressure_sp 67 \<le> 22.54605"
    by (rule pws_upper [where q = "1.305633" and y = "1.38598109"])
      (simp_all add: expUpper_def power_divide)
qed

lemma pws_sp_at_67_4:
  "22.85943 \<le> calculateSaturationPressure_sp 67.4 \<and>
   calculateSaturationPressure_sp 67.4 \<le> 22.85946"
proof
  show "22.85943 \<le> calculateSaturationPressure_sp 67.4"
    by (rule pws_lower [where q = "1.319437" and y = "1.39077235"])
      (simp_all add: expLower_def power_divide)
  show "calculateSaturationPressure_sp 67.4 \<le> 22.85946"
    by (rule pws_upper [where q = "1.319438" and y = "1.39077272"])
      (simp_all add: expUpper_def power_divide)
qed

lemma pws_sp_at_67_8:
  "23.17663 \<le> calculateSaturationPressure_sp 67.8 \<and>
   calculateSaturationPressure_sp 67.8 \<le> 23.17667"
proof
  show "23.17663 \<le> calculateSaturationPressure_sp 67.8"
    by (rule pws_lower [where q = "1.333218" and y = "1.39557218"])
      (simp_all add: expLower_def power_divide)
  show "calculateSaturationPressure_sp 67.8 \<le> 23.17667"
    by (rule pws_upper [where q = "1.333219" and y = "1.39557255"])
      (simp_all add: expUpper_def power_divide)
qed

lemma pws_sp_at_68_2:
  "23.4977 \<le> calculateSaturationPressure_sp 68.2 \<and>
   calculateSaturationPressure_sp 68.2 \<le> 23.49773"
proof
  show "23.4977 \<le> calculateSaturationPressure_sp 68.2"
    by (rule pws_lower [where q = "1.346976" and y = "1.40038051"])
      (simp_all add: expLower_def power_divide)
  show "calculateSaturationPressure_sp 68.2 \<le> 23.49773"
    by (rule pws_upper [where q = "1.346977" and y = "1.40038088"])
      (simp_all add: expUpper_def power_divide)
qed

lemma pws_sp_at_68_6:
  "23.82267 \<le> calculateSaturationPressure_sp 68.6 \<and>
   calculateSaturationPressure_sp 68.6 \<le> 23.8227"
proof
  show "23.82267 \<le> calculateSaturationPressure_sp 68.6"
    by (rule pws_lower [where q = "1.360711" and y = "1.40519733"])
      (simp_all add: expLower_def power_divide)
  show "calculateSaturationPressure_sp 68.6 \<le> 23.8227"
    by (rule pws_upper [where q = "1.360712" and y = "1.40519771"])
      (simp_all add: expUpper_def power_divide)
qed

lemma pws_sp_at_69:
  "24.15155 \<le> calculateSaturationPressure_sp 69 \<and>
   calculateSaturationPressure_sp 69 \<le> 24.15159"
proof
  show "24.15155 \<le> calculateSaturationPressure_sp 69"
    by (rule pws_lower [where q = "1.374422" and y = "1.41002226"])
      (simp_all add: expLower_def power_divide)
  show "calculateSaturationPressure_sp 69 \<le> 24.15159"
    by (rule pws_upper [where q = "1.374423" and y = "1.41002264"])
      (simp_all add: expUpper_def power_divide)
qed

lemma pws_sp_at_69_4:
  "24.48441 \<le> calculateSaturationPressure_sp 69.4 \<and>
   calculateSaturationPressure_sp 69.4 \<le> 24.48444"
proof
  show "24.48441 \<le> calculateSaturationPressure_sp 69.4"
    by (rule pws_lower [where q = "1.38811" and y = "1.41485562"])
      (simp_all add: expLower_def power_divide)
  show "calculateSaturationPressure_sp 69.4 \<le> 24.48444"
    by (rule pws_upper [where q = "1.388111" and y = "1.414856"])
      (simp_all add: expUpper_def power_divide)
qed

lemma pws_sp_at_69_8:
  "24.82131 \<le> calculateSaturationPressure_sp 69.8 \<and>
   calculateSaturationPressure_sp 69.8 \<le> 24.82135"
proof
  show "24.82131 \<le> calculateSaturationPressure_sp 69.8"
    by (rule pws_lower [where q = "1.401776" and y = "1.41969774"])
      (simp_all add: expLower_def power_divide)
  show "calculateSaturationPressure_sp 69.8 \<le> 24.82135"
    by (rule pws_upper [where q = "1.401777" and y = "1.41969813"])
      (simp_all add: expUpper_def power_divide)
qed

lemma pws_sp_at_70_2:
  "25.16224 \<le> calculateSaturationPressure_sp 70.2 \<and>
   calculateSaturationPressure_sp 70.2 \<le> 25.16228"
proof
  show "25.16224 \<le> calculateSaturationPressure_sp 70.2"
    by (rule pws_lower [where q = "1.415418" and y = "1.42454789"])
      (simp_all add: expLower_def power_divide)
  show "calculateSaturationPressure_sp 70.2 \<le> 25.16228"
    by (rule pws_upper [where q = "1.415419" and y = "1.42454827"])
      (simp_all add: expUpper_def power_divide)
qed

lemma pws_sp_at_70_6:
  "25.5073 \<le> calculateSaturationPressure_sp 70.6 \<and>
   calculateSaturationPressure_sp 70.6 \<le> 25.50733"
proof
  show "25.5073 \<le> calculateSaturationPressure_sp 70.6"
    by (rule pws_lower [where q = "1.429038" and y = "1.42940674"])
      (simp_all add: expLower_def power_divide)
  show "calculateSaturationPressure_sp 70.6 \<le> 25.50733"
    by (rule pws_upper [where q = "1.429039" and y = "1.42940713"])
      (simp_all add: expUpper_def power_divide)
qed

lemma pws_sp_at_71:
  "25.85646 \<le> calculateSaturationPressure_sp 71 \<and>
   calculateSaturationPressure_sp 71 \<le> 25.8565"
proof
  show "25.85646 \<le> calculateSaturationPressure_sp 71"
    by (rule pws_lower [where q = "1.442634" and y = "1.43427356"])
      (simp_all add: expLower_def power_divide)
  show "calculateSaturationPressure_sp 71 \<le> 25.8565"
    by (rule pws_upper [where q = "1.442635" and y = "1.43427395"])
      (simp_all add: expUpper_def power_divide)
qed

lemma pws_sp_at_71_3:
  "26.1211 \<le> calculateSaturationPressure_sp 71.3 \<and>
   calculateSaturationPressure_sp 71.3 \<le> 26.12114"
proof
  show "26.1211 \<le> calculateSaturationPressure_sp 71.3"
    by (rule pws_lower [where q = "1.452817" and y = "1.43792951"])
      (simp_all add: expLower_def power_divide)
  show "calculateSaturationPressure_sp 71.3 \<le> 26.12114"
    by (rule pws_upper [where q = "1.452818" and y = "1.43792991"])
      (simp_all add: expUpper_def power_divide)
qed

lemma humidity_ratio_67_90:
  "- 2.25565 \<le> 0.622 * (90 / 100 * calculateSaturationPressure_sp 67) / (14.696 - (90 / 100 * calculateSaturationPressure_sp 67)) \<and>
   0.622 * (90 / 100 * calculateSaturationPressure_sp 67) / (14.696 - (90 / 100 * calculateSaturationPressure_sp 67)) \<le> - 2.25563"
proof -
  define pw where "pw = 90 / 100 * calculateSaturationPressure_sp 67"
  have lo: "20.291418 \<le> pw" and hi: "pw \<le> 20.291445"
    using pws_sp_at_67 by (simp_all add: pw_def)
  have eq: "0.622 * pw / (14.696 - pw) = - (0.622 * pw / (pw - 14.696))"
    by (simp add: minus_divide_right)
  have "0.622 * pw / (pw - 14.696) \<le> 0.622 * 20.291418 / (20.291418 - 14.696)"
    by (rule ratio_antimono [OF _ lo]) simp
  also have "\<dots> \<le> 2.25565" by simp
  finally have a: "0.622 * pw / (pw - 14.696) \<le> 2.25565" .
  have "(2.25563 :: real) \<le> 0.622 * 20.291445 / (20.291445 - 14.696)" by simp
  also have "\<dots> \<le> 0.622 * pw / (pw - 14.696)"
    by (rule ratio_antimono [OF _ hi]) (use lo in simp)
  finally have b: "2.25563 \<le> 0.622 * pw / (pw - 14.696)" .
  from a b show ?thesis unfolding eq pw_def [symmetric] by simp
qed

lemma wet_bulb_67_90_upper1:
  assumes "66.2 \<le> wb" "wb \<le> 66.4"
  shows "61.1 \<le> wb + wetBulbError_sp 67 (90 / 100 * calculateSaturationPressure_sp 67) wb / 100 \<and>
         wb + wetBulbError_sp 67 (90 / 100 * calculateSaturationPressure_sp 67) wb / 100 \<le> 62.5"
proof -
  have pl: "21.93053 \<le> calculateSaturationPressure_sp 66.2"
    using pws_sp_at_66_2 by simp
  have pu: "calculateSaturationPressure_sp 66.4 \<le> 22.08304"
    using pws_sp_at_66_4 by simp
  note b = wetBulbStep_sp_bounds [OF _ assms _ pl pu, where db = 67
      and pw = "90 / 100 * calculateSaturationPressure_sp 67"
      and wl = "- 2.25565" and wh = "- 2.25563"]
  have "(61.1 :: real) \<le> 0.99 * 66.2 + 67 / 100 +
      10.93 * (0.622 * 22.08304 / (22.08304 - 14.696) + (- 2.25565))"
    by simp
  moreover have "0.99 * 66.4 + 67 / 100 +
      10.93 * (0.622 * 21.93053 / (21.93053 - 14.696) + (- 2.25563))
      \<le> (62.5 :: real)"
    by simp
  ultimately show ?thesis
    using b humidity_ratio_67_90 by simp
qed

lemma wet_bulb_67_90_upper2:
  assumes "66.4 \<le> wb" "wb \<le> 66.7"
  shows "61.1 \<le> wb + wetBulbError_sp 67 (90 / 100 * calculateSaturationPressure_sp 67) wb / 100 \<and>
         wb + wetBulbError_sp 67 (90 / 100 * calculateSaturationPressure_sp 67) wb / 100 \<le> 62.5"
proof -
  have pl: "22.08301 \<le> calculateSaturationPressure_sp 66.4"
    using pws_sp_at_66_4 by simp
  have pu: "calculateSaturationPressure_sp 66.7 \<le> 22.3135"
    using pws_sp_at_66_7 by simp
  note b = wetBulbStep_sp_bounds [OF _ assms _ pl pu, where db = 67
      and pw = "90 / 100 * calculateSaturationPressure_sp 67"
      and wl = "- 2.25565" and wh = "- 2.25563"]
  have "(61.1 :: real) \<le> 0.99 * 66.4 + 67 / 100 +
      10.93 * (0.622 * 22.3135 / (22.3135 - 14.696) + (- 2.25565))"
    by simp
  moreover have "0.99 * 66.7 + 67 / 100 +
      10.93 * (0.622 * 22.08301 / (22.08301 - 14.696) + (- 2.25563))
      \<le> (62.5 :: real)"
    by simp
  ultimately show ?thesis
    using b humidity_ratio_67_90 by simp
qed

lemma wet_bulb_67_90_upper3:
  assumes "66.7 \<le> wb" "wb \<le> 67"
  shows "61.1 \<le> wb + wetBulbError_sp 67 (90 / 100 * calculateSaturationPressure_sp 67) wb / 100 \<and>
         wb + wetBulbError_sp 67 (90 / 100 * calculateSaturationPressure_sp 67) wb / 100 \<le> 62.5"
proof -
  have pl: "22.31347 \<le> calculateSaturationPressure_sp 66.7"
    using pws_sp_at_66_7 by simp
  have pu: "calculateSaturationPressure_sp 67 \<le> 22.54605"
    using pws_sp_at_67 by simp
  note b = wetBulbStep_sp_bounds [OF _ assms _ pl pu, where db = 67
      and pw = "90 / 100 * calculateSaturationPressure_sp 67"
      and wl = "- 2.25565" and wh = "- 2.25563"]
  have "(61.1 :: real) \<le> 0.99 * 66.7 + 67 / 100 +
      10.93 * (0.622 * 22.54605 / (22.54605 - 14.696) + (- 2.25565))"
    by simp
  moreover have "0.99 * 67 + 67 / 100 +
      10.93 * (0.622 * 22.31347 / (22.31347 - 14.696) + (- 2.25563))
      \<le> (62.5 :: real)"
    by simp
  ultimately show ?thesis
    using b humidity_ratio_67_90 by simp
qed

lemma wet_bulb_67_90_upper4:
  assumes "67 \<le> wb" "wb \<le> 67.4"
  shows "61.1 \<le> wb + wetBulbError_sp 67 (90 / 100 * calculateSaturationPressure_sp 67) wb / 100 \<and>
         wb + wetBulbError_sp 67 (90 / 100 * calculateSaturationPressure_sp 67) wb / 100 \<le> 62.5"
proof -
  have pl: "22.54602 \<le> calculateSaturationPressure_sp 67"
    using pws_sp_at_67 by simp
  have pu: "calculateSaturationPressure_sp 67.4 \<le> 22.85946"
    using pws_sp_at_67_4 by simp
  note b = wetBulbStep_sp_bounds [OF _ assms _ pl pu, where db = 67
      and pw = "90 / 100 * calculateSaturationPressure_sp 67"
      and wl = "- 2.25565" and wh = "- 2.25563"]
  have "(61.1 :: real) \<le> 0.99 * 67 + 67 / 100 +
      10.93 * (0.622 * 22.85946 / (22.85946 - 14.696) + (- 2.25565))"
    by simp
  moreover have "0.99 * 67.4 + 67 / 100 +
      10.93 * (0.622 * 22.54602 / (22.54602 - 14.696) + (- 2.25563))
      \<le> (62.5 :: real)"
    by simp
  ultimately show ?thesis
    using b humidity_ratio_67_90 by simp
qed

lemma wet_bulb_67_90_upper5:
  assumes "67.4 \<le> wb" "wb \<le> 67.8"
  shows "61.1 \<le> wb + wetBulbError_sp 67 (90 / 100 * calculateSaturationPressure_sp 67) wb / 100 \<and>
         wb + wetBulbError_sp 67 (90 / 100 * calculateSaturationPressure_sp 67) wb / 100 \<le> 62.5"
proof -
  have pl: "22.85943 \<le> calculateSaturationPressure_sp 67.4"
    using pws_sp_at_67_4 by simp
  have pu: "calculateSaturationPressure_sp 67.8 \<le> 23.17667"
    using pws_sp_at_67_8 by simp
  note b = wetBulbStep_sp_bounds [OF _ assms _ pl pu, where db = 67
      and pw = "90 / 100 * calculateSaturationPressure_sp 67"
      and wl = "- 2.25565" and wh = "- 2.25563"]
  have "(61.1 :: real) \<le> 0.99 * 67.4 + 67 / 100 +
      10.93 * (0.622 * 23.17667 / (23.17667 - 14.696) + (- 2.25565))"
    by simp
  moreover have "0.99 * 67.8 + 67 / 100 +
      10.93 * (0.622 * 22.85943 / (22.85943 - 14.696) + (- 2.25563))
      \<le> (62.5 :: real)"
    by simp
  ultimately show ?thesis
    using b humidity_ratio_67_90 by simp
qed

lemma wet_bulb_67_90_upper6:
  assumes "67.8 \<le> wb" "wb \<le> 68.2"
  shows "61.1 \<le> wb + wetBulbError_sp 67 (90 / 100 * calculateSaturationPressure_sp 67) wb / 100 \<and>
         wb + wetBulbError_sp 67 (90 / 100 * calculateSaturationPressure_sp 67) wb / 100 \<le> 62.5"
proof -
  have pl: "23.17663 \<le> calculateSaturationPressure_sp 67.8"
    using pws_sp_at_67_8 by simp
  have pu: "calculateSaturationPressure_sp 68.2 \<le> 23.49773"
    using pws_sp_at_68_2 by simp
  note b = wetBulbStep_sp_bounds [OF _ assms _ pl pu, where db = 67
      and pw = "90 / 100 * calculateSaturationPressure_sp 67"
      and wl = "- 2.25565" and wh = "- 2.25563"]
  have "(61.1 :: real) \<le> 0.99 * 67.8 + 67 / 100 +
      10.93 * (0.622 * 23.49773 / (23.49773 - 14.696) + (- 2.25565))"
    by simp
  moreover have "0.99 * 68.2 + 67 / 100 +
      10.93 * (0.622 * 23.17663 / (23.17663 - 14.696) + (- 2.25563))
      \<le> (62.5 :: real)"
    by simp
  ultimately show ?thesis
    using b humidity_ratio_67_90 by simp
qed

lemma wet_bulb_67_90_upper7:
  assumes "68.2 \<le> wb" "wb \<le> 68.6"
  shows "61.1 \<le> wb + wetBulbError_sp 67 (90 / 100 * calculateSaturationPressure_sp 67) wb / 100 \<and>
         wb + wetBulbError_sp 67 (90 / 100 * calculateSaturationPressure_sp 67) wb / 100 \<le> 62.5"
proof -
  have pl: "23.4977 \<le> calculateSaturationPressure_sp 68.2"
    using pws_sp_at_68_2 by simp
  have pu: "calculateSaturationPressure_sp 68.6 \<le> 23.8227"
    using pws_sp_at_68_6 by simp
  note b = wetBulbStep_sp_bounds [OF _ assms _ pl pu, where db = 67
      and pw = "90 / 100 * calculateSaturationPressure_sp 67"
      and wl = "- 2.25565" and wh = "- 2.25563"]
  have "(61.1 :: real) \<le> 0.99 * 68.2 + 67 / 100 +
      10.93 * (0.622 * 23.8227 / (23.8227 - 14.696) + (- 2.25565))"
    by simp
  moreover have "0.99 * 68.6 + 67 / 100 +
      10.93 * (0.622 * 23.4977 / (23.4977 - 14.696) + (- 2.25563))
      \<le> (62.5 :: real)"
    by simp
  ultimately show ?thesis
    using b humidity_ratio_67_90 by simp
qed

lemma wet_bulb_67_90_upper8:
  assumes "68.6 \<le> wb" "wb \<le> 69"
  shows "61.1 \<le> wb + wetBulbError_sp 67 (90 / 100 * calculateSaturationPressure_sp 67) wb / 100 \<and>
         wb + wetBulbError_sp 67 (90 / 100 * calculateSaturationPressure_sp 67) wb / 100 \<le> 62.5"
proof -
  have pl: "23.82267 \<le> calculateSaturationPressure_sp 68.6"
    using pws_sp_at_68_6 by simp
  have pu: "calculateSaturationPressure_sp 69 \<le> 24.15159"
    using pws_sp_at_69 by simp
  note b = wetBulbStep_sp_bounds [OF _ assms _ pl pu, where db = 67
      and pw = "90 / 100 * calculateSaturationPressure_sp 67"
      and wl = "- 2.25565" and wh = "- 2.25563"]
  have "(61.1 :: real) \<le> 0.99 * 68.6 + 67 / 100 +
      10.93 * (0.622 * 24.15159 / (24.15159 - 14.696) + (- 2.25565))"
    by simp
  moreover have "0.99 * 69 + 67 / 100 +
      10.93 * (0.622 * 23.82267 / (23.82267 - 14.696) + (- 2.25563))
      \<le> (62.5 :: real)"
    by simp
  ultimately show ?thesis
    using b humidity_ratio_67_90 by simp
qed

lemma wet_bulb_67_90_upper9:
  assumes "69 \<le> wb" "wb \<le> 69.4"
  shows "61.1 \<le> wb + wetBulbError_sp 67 (90 / 100 * calculateSaturationPressure_sp 67) wb / 100 \<and>
         wb + wetBulbError_sp 67 (90 / 100 * calculateSaturationPressure_sp 67) wb / 100 \<le> 62.5"
proof -
  have pl: "24.15155 \<le> calculateSaturationPressure_sp 69"
    using pws_sp_at_69 by simp
  have pu: "calculateSaturationPressure_sp 69.4 \<le> 24.48444"
    using pws_sp_at_69_4 by simp
  note b = wetBulbStep_sp_bounds [OF _ assms _ pl pu, where db = 67
      and pw = "90 / 100 * calculateSaturationPressure_sp 67"
      and wl = "- 2.25565" and wh = "- 2.25563"]
  have "(61.1 :: real) \<le> 0.99 * 69 + 67 / 100 +
      10.93 * (0.622 * 24.48444 / (24.48444 - 14.696) + (- 2.25565))"
    by simp
  moreover have "0.99 * 69.4 + 67 / 100 +
      10.93 * (0.622 * 24.15155 / (24.15155 - 14.696) + (- 2.25563))
      \<le> (62.5 :: real)"
    by simp
  ultimately show ?thesis
    using b humidity_ratio_67_90 by simp
qed

lemma wet_bulb_67_90_upper10:
  assumes "69.4 \<le> wb" "wb \<le> 69.8"
  shows "61.1 \<le> wb + wetBulbError_sp 67 (90 / 100 * calculateSaturationPressure_sp 67) wb / 100 \<and>
         wb + wetBulbError_sp 67 (90 / 100 * calculateSaturationPressure_sp 67) wb / 100 \<le> 62.5"
proof -
  have pl: "24.48441 \<le> calculateSaturationPressure_sp 69.4"
    using pws_sp_at_69_4 by simp
  have pu: "calculateSaturationPressure_sp 69.8 \<le> 24.82135"
    using pws_sp_at_69_8 by simp
  note b = wetBulbStep_sp_bounds [OF _ assms _ pl pu, where db = 67
      and pw = "90 / 100 * calculateSaturationPressure_sp 67"
      and wl = "- 2.25565" and wh = "- 2.25563"]
  have "(61.1 :: real) \<le> 0.99 * 69.4 + 67 / 100 +
      10.93 * (0.622 * 24.82135 / (24.82135 - 14.696) + (- 2.25565))"
    by simp
  moreover have "0.99 * 69.8 + 67 / 100 +
      10.93 * (0.622 * 24.48441 / (24.48441 - 14.696) + (- 2.25563))
      \<le> (62.5 :: real)"
    by simp
  ultimately show ?thesis
    using b humidity_ratio_67_90 by simp
qed

lemma wet_bulb_67_90_upper11:
  assumes "69.8 \<le> wb" "wb \<le> 70.2"
  shows "61.1 \<le> wb + wetBulbError_sp 67 (90 / 100 * calculateSaturationPressure_sp 67) wb / 100 \<and>
         wb + wetBulbError_sp 67 (90 / 100 * calculateSaturationPressure_sp 67) wb / 100 \<le> 62.5"
proof -
  have pl: "24.82131 \<le> calculateSaturationPressure_sp 69.8"
    using pws_sp_at_69_8 by simp
  have pu: "calculateSaturationPressure_sp 70.2 \<le> 25.16228"
    using pws_sp_at_70_2 by simp
  note b = wetBulbStep_sp_bounds [OF _ assms _ pl pu, where db = 67
      and pw = "90 / 100 * calculateSaturationPressure_sp 67"
      and wl = "- 2.25565" and wh = "- 2.25563"]
  have "(61.1 :: real) \<le> 0.99 * 69.8 + 67 / 100 +
      10.93 * (0.622 * 25.16228 / (25.16228 - 14.696) + (- 2.25565))"
    by simp
  moreover have "0.99 * 70.2 + 67 / 100 +
      10.93 * (0.622 * 24.82131 / (24.82131 - 14.696) + (- 2.25563))
      \<le> (62.5 :: real)"
    by simp
  ultimately show ?thesis
    using b humidity_ratio_67_90 by simp
qed

lemma wet_bulb_67_90_upper12:
  assumes "70.2 \<le> wb" "wb \<le> 70.6"
  shows "61.1 \<le> wb + wetBulbError_sp 67 (90 / 100 * calculateSaturationPressure_sp 67) wb / 100 \<and>
         wb + wetBulbError_sp 67 (90 / 100 * calculateSaturationPressure_sp 67) wb / 100 \<le> 62.5"
proof -
  have pl: "25.16224 \<le> calculateSaturationPressure_sp 70.2"
    using pws_sp_at_70_2 by simp
  have pu: "calculateSaturationPressure_sp 70.6 \<le> 25.50733"
    using pws_sp_at_70_6 by simp
  note b = wetBulbStep_sp_bounds [OF _ assms _ pl pu, where db = 67
      and pw = "90 / 100 * calculateSaturationPressure_sp 67"
      and wl = "- 2.25565" and wh = "- 2.25563"]
  have "(61.1 :: real) \<le> 0.99 * 70.2 + 67 / 100 +
      10.93 * (0.622 * 25.50733 / (25.50733 - 14.696) + (- 2.25565))"
    by simp
  moreover have "0.99 * 70.6 + 67 / 100 +
      10.93 * (0.622 * 25.16224 / (25.16224 - 14.696) + (- 2.25563))
      \<le> (62.5 :: real)"
    by simp
  ultimately show ?thesis
    using b humidity_ratio_67_90 by simp
qed

lemma wet_bulb_67_90_upper13:
  assumes "70.6 \<le> wb" "wb \<le> 71"
  shows "61.1 \<le> wb + wetBulbError_sp 67 (90 / 100 * calculateSaturationPressure_sp 67) wb / 100 \<and>
         wb + wetBulbError_sp 67 (90 / 100 * calculateSaturationPressure_sp 67) wb / 100 \<le> 62.5"
proof -
  have pl: "25.5073 \<le> calculateSaturationPressure_sp 70.6"
    using pws_sp_at_70_6 by simp
  have pu: "calculateSaturationPressure_sp 71 \<le> 25.8565"
    using pws_sp_at_71 by simp
  note b = wetBulbStep_sp_bounds [OF _ assms _ pl pu, where db = 67
      and pw = "90 / 100 * calculateSaturationPressure_sp 67"
      and wl = "- 2.25565" and wh = "- 2.25563"]
  have "(61.1 :: real) \<le> 0.99 * 70.6 + 67 / 100 +
      10.93 * (0.622 * 25.8565 / (25.8565 - 14.696) + (- 2.25565))"
    by simp
  moreover have "0.99 * 71 + 67 / 100 +
      10.93 * (0.622 * 25.5073 / (25.5073 - 14.696) + (- 2.25563))
      \<le> (62.5 :: real)"
    by simp
  ultimately show ?thesis
    using b humidity_ratio_67_90 by simp
qed

lemma wet_bulb_67_90_upper14:
  assumes "71 \<le> wb" "wb \<le> 71.3"
  shows "61.1 \<le> wb + wetBulbError_sp 67 (90 / 100 * calculateSaturationPressure_sp 67) wb / 100 \<and>
         wb + wetBulbError_sp 67 (90 / 100 * calculateSaturationPressure_sp 67) wb / 100 \<le> 62.5"
proof -
  have pl: "25.85646 \<le> calculateSaturationPressure_sp 71"
    using pws_sp_at_71 by simp
  have pu: "calculateSaturationPressure_sp 71.3 \<le> 26.12114"
    using pws_sp_at_71_3 by simp
  note b = wetBulbStep_sp_bounds [OF _ assms _ pl pu, where db = 67
      and pw = "90 / 100 * calculateSaturationPressure_sp 67"
      and wl = "- 2.25565" and wh = "- 2.25563"]
  have "(61.1 :: real) \<le> 0.99 * 71 + 67 / 100 +
      10.93 * (0.622 * 26.12114 / (26.12114 - 14.696) + (- 2.25565))"
    by simp
  moreover have "0.99 * 71.3 + 67 / 100 +
      10.93 * (0.622 * 25.85646 / (25.85646 - 14.696) + (- 2.25563))
      \<le> (62.5 :: real)"
    by simp
  ultimately show ?thesis
    using b humidity_ratio_67_90 by simp
qed

lemma wet_bulb_67_90_lower1:
  assumes "61.1 \<le> wb" "wb \<le> 61.5"
  shows "66.2 \<le> wb + wetBulbError_sp 67 (90 / 100 * calculateSaturationPressure_sp 67) wb / 100 \<and>
         wb + wetBulbError_sp 67 (90 / 100 * calculateSaturationPressure_sp 67) wb / 100 \<le> 71.3"
proof -
  have pl: "18.342 \<le> calculateSaturationPressure_sp 61.1"
    using pws_sp_at_61_1 by simp
  have pu: "calculateSaturationPressure_sp 61.5 \<le> 18.60352"
    using pws_sp_at_61_5 by simp
  note b = wetBulbStep_sp_bounds [OF _ assms _ pl pu, where db = 67
      and pw = "90 / 100 * calculateSaturationPressure_sp 67"
      and wl = "- 2.25565" and wh = "- 2.25563"]
  have "(66.2 :: real) \<le> 0.99 * 61.1 + 67 / 100 +
      10.93 * (0.622 * 18.60352 / (18.60352 - 14.696) + (- 2.25565))"
    by simp
  moreover have "0.99 * 61.5 + 67 / 100 +
      10.93 * (0.622 * 18.342 / (18.342 - 14.696) + (- 2.25563))
      \<le> (71.3 :: real)"
    by simp
  ultimately show ?thesis
    using b humidity_ratio_67_90 by simp
qed

lemma wet_bulb_67_90_lower2:
  assumes "61.5 \<le> wb" "wb \<le> 61.9"
  shows "66.2 \<le> wb + wetBulbError_sp 67 (90 / 100 * calculateSaturationPressure_sp 67) wb / 100 \<and>
         wb + wetBulbError_sp 67 (90 / 100 * calculateSaturationPressure_sp 67) wb / 100 \<le> 71.3"
proof -
  have pl: "18.6035 \<le> calculateSaturationPressure_sp 61.5"
    using pws_sp_at_61_5 by simp
  have pu: "calculateSaturationPressure_sp 61.9 \<le> 18.86828"
    using pws_sp_at_61_9 by simp
  note b = wetBulbStep_sp_bounds [OF _ assms _ pl pu, where db = 67
      and pw = "90 / 100 * calculateSaturationPressure_sp 67"
      and wl = "- 2.25565" and wh = "- 2.25563"]
  have "(66.2 :: real) \<le> 0.99 * 61.5 + 67 / 100 +
      10.93 * (0.622 * 18.86828 / (18.86828 - 14.696) + (- 2.25565))"
    by simp
  moreover have "0.99 * 61.9 + 67 / 100 +
      10.93 * (0.622 * 18.6035 / (18.6035 - 14.696) + (- 2.25563))
      \<le> (71.3 :: real)"
    by simp
  ultimately show ?thesis
    using b humidity_ratio_67_90 by simp
qed

lemma wet_bulb_67_90_lower3:
  assumes "61.9 \<le> wb" "wb \<le> 62.3"
  shows "66.2 \<le> wb + wetBulbError_sp 67 (90 / 100 * calculateSaturationPressure_sp 67) wb / 100 \<and>
         wb + wetBulbError_sp 67 (90 / 100 * calculateSaturationPressure_sp 67) wb / 100 \<le> 71.3"
proof -
  have pl: "18.86825 \<le> calculateSaturationPressure_sp 61.9"
    using pws_sp_at_61_9 by simp
  have pu: "calculateSaturationPressure_sp 62.3 \<le> 19.13634"
    using pws_sp_at_62_3 by simp
  note b = wetBulbStep_sp_bounds [OF _ assms _ pl pu, where db = 67
      and pw = "90 / 100 * calculateSaturationPressure_sp 67"
      and wl = "- 2.25565" and wh = "- 2.25563"]
  have "(66.2 :: real) \<le> 0.99 * 61.9 + 67 / 100 +
      10.93 * (0.622 * 19.13634 / (19.13634 - 14.696) + (- 2.25565))"
    by simp
  moreover have "0.99 * 62.3 + 67 / 100 +
      10.93 * (0.622 * 18.86825 / (18.86825 - 14.696) + (- 2.25563))
      \<le> (71.3 :: real)"
    by simp
  ultimately show ?thesis
    using b humidity_ratio_67_90 by simp
qed

lemma wet_bulb_67_90_lower4:
  assumes "62.3 \<le> wb" "wb \<le> 62.5"
  shows "66.2 \<le> wb + wetBulbError_sp 67 (90 / 100 * calculateSaturationPressure_sp 67) wb / 100 \<and>
         wb + wetBulbError_sp 67 (90 / 100 * calculateSaturationPressure_sp 67) wb / 100 \<le> 71.3"
proof -
  have pl: "19.13631 \<le> calculateSaturationPressure_sp 62.3"
    using pws_sp_at_62_3 by simp
  have pu: "calculateSaturationPressure_sp 62.5 \<le> 19.27163"
    using pws_sp_at_62_5 by simp
  note b = wetBulbStep_sp_bounds [OF _ assms _ pl pu, where db = 67
      and pw = "90 / 100 * calculateSaturationPressure_sp 67"
      and wl = "- 2.25565" and wh = "- 2.25563"]
  have "(66.2 :: real) \<le> 0.99 * 62.3 + 67 / 100 +
      10.93 * (0.622 * 19.27163 / (19.27163 - 14.696) + (- 2.25565))"
    by simp
  moreover have "0.99 * 62.5 + 67 / 100 +
      10.93 * (0.622 * 19.13631 / (19.13631 - 14.696) + (- 2.25563))
      \<le> (71.3 :: real)"
    by simp
  ultimately show ?thesis
    using b humidity_ratio_67_90 by simp
qed

lemma wet_bulb_67_90_upper:
  assumes "66.2 \<le> wb" "wb \<le> 71.3"
  shows "61.1 \<le> wb + wetBulbError_sp 67 (90 / 100 * calculateSaturationPressure_sp 67) wb / 100 \<and>
         wb + wetBulbError_sp 67 (90 / 100 * calculateSaturationPressure_sp 67) wb / 100 \<le> 62.5"
proof -
  have c2: "61.1 \<le> wb + wetBulbError_sp 67 (90 / 100 * calculateSaturationPressure_sp 67) wb / 100 \<and>
         wb + wetBulbError_sp 67 (90 / 100 * calculateSaturationPressure_sp 67) wb / 100 \<le> 62.5"
    if "66.2 \<le> wb" "wb \<le> 66.7" for wb
    using that wet_bulb_67_90_upper1 [of wb] wet_bulb_67_90_upper2 [of wb] by (cases "wb \<le> 66.4") simp_all
  have c3: "61.1 \<le> wb + wetBulbError_sp 67 (90 / 100 * calculateSaturationPressure_sp 67) wb / 100 \<and>
         wb + wetBulbError_sp 67 (90 / 100 * calculateSaturationPressure_sp 67) wb / 100 \<le> 62.5"
    if "66.2 \<le> wb" "wb \<le> 67" for wb
    using that c2 [of wb] wet_bulb_67_90_upper3 [of wb] by (cases "wb \<le> 66.7") simp_all
  have c4: "61.1 \<le> wb + wetBulbError_sp 67 (90 / 100 * calculateSaturationPressure_sp 67) wb / 100 \<and>
         wb + wetBulbError_sp 67 (90 / 100 * calculateSaturationPressure_sp 67) wb / 100 \<le> 62.5"
    if "66.2 \<le> wb" "wb \<le> 67.4" for wb
    using that c3 [of wb] wet_bulb_67_90_upper4 [of wb] by (cases "wb \<le> 67") simp_all
  have c5: "61.1 \<le> wb + wetBulbError_sp 67 (90 / 100 * calculateSaturationPressure_sp 67) wb / 100 \<and>
         wb + wetBulbError_sp 67 (90 / 100 * calculateSaturationPressure_sp 67) wb / 100 \<le> 62.5"
    if "66.2 \<le> wb" "wb \<le> 67.8" for wb
    using that c4 [of wb] wet_bulb_67_90_upper5 [of wb] by (cases "wb \<le> 67.4") simp_all
  have c6: "61.1 \<le> wb + wetBulbError_sp 67 (90 / 100 * calculateSaturationPressure_sp 67) wb / 100 \<and>
         wb + wetBulbError_sp 67 (90 / 100 * calculateSaturationPressure_sp 67) wb / 100 \<le> 62.5"
    if "66.2 \<le> wb" "wb \<le> 68.2" for wb
    using that c5 [of wb] wet_bulb_67_90_upper6 [of wb] by (cases "wb \<le> 67.8") simp_all
  have c7: "61.1 \<le> wb + wetBulbError_sp 67 (90 / 100 * calculateSaturationPressure_sp 67) wb / 100 \<and>
         wb + wetBulbError_sp 67 (90 / 100 * calculateSaturationPressure_sp 67) wb / 100 \<le> 62.5"
    if "66.2 \<le> wb" "wb \<le> 68.6" for wb
    using that c6 [of wb] wet_bulb_67_90_upper7 [of wb] by (cases "wb \<le> 68.2") simp_all
  have c8: "61.1 \<le> wb + wetBulbError_sp 67 (90 / 100 * calculateSaturationPressure_sp 67) wb / 100 \<and>
         wb + wetBulbError_sp 67 (90 / 100 * calculateSaturationPressure_sp 67) wb / 100 \<le> 62.5"
    if "66.2 \<le> wb" "wb \<le> 69" for wb
    using that c7 [of wb] wet_bulb_67_90_upper8 [of wb] by (cases "wb \<le> 68.6") simp_all
  have c9: "61.1 \<le> wb + wetBulbError_sp 67 (90 / 100 * calculateSaturationPressure_sp 67) wb / 100 \<and>
         wb + wetBulbError_sp 67 (90 / 100 * calculateSaturationPressure_sp 67) wb / 100 \<le> 62.5"
    if "66.2 \<le> wb" "wb \<le> 69.4" for wb
    using that c8 [of wb] wet_bulb_67_90_upper9 [of wb] by (cases "wb \<le> 69") simp_all
  have c10: "61.1 \<le> wb + wetBulbError_sp 67 (90 / 100 * calculateSaturationPressure_sp 67) wb / 100 \<and>
         wb + wetBulbError_sp 67 (90 / 100 * calculateSaturationPressure_sp 67) wb / 100 \<le> 62.5"
    if "66.2 \<le> wb" "wb \<le> 69.8" for wb
    using that c9 [of wb] wet_bulb_67_90_upper10 [of wb] by (cases "wb \<le> 69.4") simp_all
  have c11: "61.1 \<le> wb + wetBulbError_sp 67 (90 / 100 * calculateSaturationPressure_sp 67) wb / 100 \<and>
         wb + wetBulbError_sp 67 (90 / 100 * calculateSaturationPressure_sp 67) wb / 100 \<le> 62.5"
    if "66.2 \<le> wb" "wb \<le> 70.2" for wb
    using that c10 [of wb] wet_bulb_67_90_upper11 [of wb] by (cases "wb \<le> 69.8") simp_all
  have c12: "61.1 \<le> wb + wetBulbError_sp 67 (90 / 100 * calculateSaturationPressure_sp 67) wb / 100 \<and>
         wb + wetBulbError_sp 67 (90 / 100 * calculateSaturationPressure_sp 67) wb / 100 \<le> 62.5"
    if "66.2 \<le> wb" "wb \<le> 70.6" for wb
    using that c11 [of wb] wet_bulb_67_90_upper12 [of wb] by (cases "wb \<le> 70.2") simp_all
  have c13: "61.1 \<le> wb + wetBulbError_sp 67 (90 / 100 * calculateSaturationPressure_sp 67) wb / 100 \<and>
         wb + wetBulbError_sp 67 (90 / 100 * calculateSaturationPressure_sp 67) wb / 100 \<le> 62.5"
    if "66.2 \<le> wb" "wb \<le> 71" for wb
    using that c12 [of wb] wet_bulb_67_90_upper13 [of wb] by (cases "wb \<le> 70.6") simp_all
  have c14: "61.1 \<le> wb + wetBulbError_sp 67 (90 / 100 * calculateSaturationPressure_sp 67) wb / 100 \<and>
         wb + wetBulbError_sp 67 (90 / 100 * calculateSaturationPressure_sp 67) wb / 100 \<le> 62.5"
    if "66.2 \<le> wb" "wb \<le> 71.3" for wb
    using that c13 [of wb] wet_bulb_67_90_upper14 [of wb] by (cases "wb \<le> 71") simp_all
  from assms show ?thesis by (rule c14)
qed

lemma wet_bulb_67_90_lower:
  assumes "61.1 \<le> wb" "wb \<le> 62.5"
  shows "66.2 \<le> wb + wetBulbError_sp 67 (90 / 100 * calculateSaturationPressure_sp 67) wb / 100 \<and>
         wb + wetBulbError_sp 67 (90 / 100 * calculateSaturationPressure_sp 67) wb / 100 \<le> 71.3"
proof -
  have c2: "66.2 \<le> wb + wetBulbError_sp 67 (90 / 100 * calculateSaturationPressure_sp 67) wb / 100 \<and>
         wb + wetBulbError_sp 67 (90 / 100 * calculateSaturationPressure_sp 67) wb / 100 \<le> 71.3"
    if "61.1 \<le> wb" "wb \<le> 61.9" for wb
    using that wet_bulb_67_90_lower1 [of wb] wet_bulb_67_90_lower2 [of wb] by (cases "wb \<le> 61.5") simp_all
  have c3: "66.2 \<le> wb + wetBulbError_sp 67 (90 / 100 * calculateSaturationPressure_sp 67) wb / 100 \<and>
         wb + wetBulbError_sp 67 (90 / 100 * calculateSaturationPressure_sp 67) wb / 100 \<le> 71.3"
    if "61.1 \<le> wb" "wb \<le> 62.3" for wb
    using that c2 [of wb] wet_bulb_67_90_lower3 [of wb] by (cases "wb \<le> 61.9") simp_all
  have c4: "66.2 \<le> wb + wetBulbError_sp 67 (90 / 100 * calculateSaturationPressure_sp 67) wb / 100 \<and>
         wb + wetBulbError_sp 67 (90 / 100 * calculateSaturationPressure_sp 67) wb / 100 \<le> 71.3"
    if "61.1 \<le> wb" "wb \<le> 62.5" for wb
    using that c3 [of wb] wet_bulb_67_90_lower4 [of wb] by (cases "wb \<le> 62.3") simp_all
  from assms show ?thesis by (rule c4)
qed

lemma trapped_step:
  assumes "trapped_67_90 wb"
  defines "e \<equiv> wetBulbError_sp 67 (90 / 100 * calculateSaturationPressure_sp 67) wb"
  shows "\<bar>e\<bar> > 0.01 \<and> trapped_67_90 (wb + e / 100)"
proof -
  from assms(1) consider "66.2 \<le> wb \<and> wb \<le> 71.3" | "61.1 \<le> wb \<and> wb \<le> 62.5"
    unfolding trapped_67_90_def by blast
  then show ?thesis
  proof cases
    case 1
    then have n: "61.1 \<le> wb + e / 100 \<and> wb + e / 100 \<le> 62.5"
      unfolding e_def using wet_bulb_67_90_upper [of wb] by simp
    with 1 have "e / 100 \<le> - 3" by simp
    then have "\<bar>e\<bar> > 0.01" by simp
    with n show ?thesis by (simp add: trapped_67_90_def)
  next
    case 2
    then have n: "66.2 \<le> wb + e / 100 \<and> wb + e / 100 \<le> 71.3"
      unfolding e_def using wet_bulb_67_90_lower [of wb] by simp
    with 2 have "3 \<le> e / 100" by simp
    then have "\<bar>e\<bar> > 0.01" by simp
    with n show ?thesis by (simp add: trapped_67_90_def)
  qed
qed

lemma wet_bulb_67_90_never_returns:
  assumes "wetBulbLoop_sp db pw wb error = Some y"
  shows "\<not> (db = 67 \<and> pw = 90 / 100 * calculateSaturationPressure_sp 67 \<and>
            \<bar>error\<bar> > 0.01 \<and> trapped_67_90 wb)"
proof (rule wetBulbLoop_sp.raw_induct
    [where P = "\<lambda>db pw wb error y.
        \<not> (db = 67 \<and> pw = 90 / 100 * calculateSaturationPressure_sp 67 \<and>
            \<bar>error\<bar> > 0.01 \<and> trapped_67_90 wb)", OF _ assms])
  fix loop :: "real \<Rightarrow> real \<Rightarrow> real \<Rightarrow> real \<Rightarrow> real option"
  fix db pw wb error y :: real
  assume IH: "\<And>db pw wb error y. loop db pw wb error = Some y \<Longrightarrow>
        \<not> (db = 67 \<and> pw = 90 / 100 * calculateSaturationPressure_sp 67 \<and>
            \<bar>error\<bar> > 0.01 \<and> trapped_67_90 wb)"
    and body: "(if \<bar>error\<bar> > 0.01 then
        (let pwsWb = calculateSaturationPressure_sp wb;
             w = (0.622 * pw) / (ATMOSPHERIC_PRESSURE - pw);
             wSat = (0.622 * pwsWb) / (ATMOSPHERIC_PRESSURE - pwsWb);
             error' = (db - wb) - ((wSat - w) * 1093)
         in loop db pw (wb + error' / 100) error')
      else Some wb) = Some y"
  show "\<not> (db = 67 \<and> pw = 90 / 100 * calculateSaturationPressure_sp 67 \<and>
            \<bar>error\<bar> > 0.01 \<and> trapped_67_90 wb)"
  proof
    assume a: "db = 67 \<and> pw = 90 / 100 * calculateSaturationPressure_sp 67 \<and>
            \<bar>error\<bar> > 0.01 \<and> trapped_67_90 wb"
    from a have db: "db = 67" and pw: "pw = 90 / 100 * calculateSaturationPressure_sp 67"
      and er: "\<bar>error\<bar> > 0.01" and tr: "trapped_67_90 wb"
      by blast+
    define e where "e = wetBulbError_sp db pw wb"
    from body er have call: "loop db pw (wb + e / 100) e = Some y"
      by (simp add: Let_def wetBulbError_sp_def e_def)
    from trapped_step [OF tr] have "\<bar>e\<bar> > 0.01 \<and> trapped_67_90 (wb + e / 100)"
      unfolding e_def db pw .
    with IH [OF call] db pw show False by blast
  qed
qed

lemma wetBulbLoop_sp_67_90:
  "wetBulbLoop_sp 67 (90 / 100 * calculateSaturationPressure_sp 67) 67 1 = None"
proof (cases "wetBulbLoop_sp 67 (90 / 100 * calculateSaturationPressure_sp 67) 67 1")
  case None
  then show ?thesis .
next
  case (Some y)
  from wet_bulb_67_90_never_returns [OF this] show ?thesis
    by (simp add: trapped_67_90_def)
qed

text \<open>
  Claim C1 (the wet-bulb solver terminates for every dry-bulb/relative-humidity input,
  after at most 100 iterations). In the first version of the psychrometric calculator
  the loop has no cap, and at a dry bulb of 67 F and a relative humidity of 90 % it never
  stops: the estimate starts at 67 and from then on alternates between [66.2, 71.3] and
  [61.1, 62.5], with a residual of more than 300 in absolute value. The call does not
  return. (The loop of the second version is capped, see \<open>wetBulbLoop_p1_iterations\<close>.)
\<close>

theorem wet_bulb_solver_does_not_return_sp:
  "calculateWetBulb_sp 67 90 = None"
  using wetBulbLoop_sp_67_90 by (simp add: calculateWetBulb_sp_def Let_def)

text \<open>
  Claim C2 (every calculator produces a result exactly when all of its required input
  fields are present). In the first version of the psychrometric calculator all six
  required fields can be present and no result is produced: with an entering air state
  of 67 F and 90 % relative humidity the handler does not return, because its first call
  of the wet-bulb solver does not.
\<close>

theorem psychrometric_handler_does_not_return_sp:
  "calculateProperties_sp
     \<lparr>inputs = \<lparr>systemSize_sp = Some 3, climateZone_sp = Some Moist, airflow_sp = Some 1200,
                enteringDryBulb_sp = Some 67, enteringHumidity_sp = Some 90,
                enteringHumidityType_sp = RH,
                leavingDryBulb_sp = Some 55, leavingHumidity_sp = Some 90,
                leavingHumidityType_sp = RH\<rparr>,
      result = None\<rparr> = None"
proof -
  have "calculateWetBulb_sp 67 90 = None"
    using wetBulbLoop_sp_67_90 by (simp add: calculateWetBulb_sp_def Let_def)
  then show ?thesis
    by (simp add: calculateProperties_sp_def Let_def resolveRH_sp_def)
qed

subsection \<open>The uncapped wet-bulb loop at 70 F and 95 %\<close>

text \<open>
  Here the loop stops after four passes. The lemmas follow the run: an interval for the
  estimate after each pass and an interval for the residual at each estimate.
\<close>

lemma pws_sp_above_70:
  "24.991282 \<le> calculateSaturationPressure_sp 70"
  by (rule pws_lower [where q = "1.40860029" and y = "1.4221219229"])
    (simp_all add: expLower_def power_divide)

lemma pws_sp_below_70:
  "calculateSaturationPressure_sp 70 \<le> 24.9912836"
  by (rule pws_upper [where q = "1.4086003" and y = "1.4221219442"])
    (simp_all add: expUpper_def power_divide)

lemma humidity_ratio_70_95:
  "- 1.6325237 \<le> 0.622 * (95 / 100 * calculateSaturationPressure_sp 70) / (14.696 - (95 / 100 * calculateSaturationPressure_sp 70)) \<and>
   0.622 * (95 / 100 * calculateSaturationPressure_sp 70) / (14.696 - (95 / 100 * calculateSaturationPressure_sp 70)) \<le> - 1.6325234"
proof -
  define pw where "pw = 95 / 100 * calculateSaturationPressure_sp 70"
  have lo: "23.7417179 \<le> pw" and hi: "pw \<le> 23.74171942"
    using pws_sp_above_70 pws_sp_below_70 by (simp_all add: pw_def)
  have eq: "0.622 * pw / (14.696 - pw) = - (0.622 * pw / (pw - 14.696))"
    by (simp add: minus_divide_right)
  have "0.622 * pw / (pw - 14.696) \<le> 0.622 * 23.7417179 / (23.7417179 - 14.696)"
    by (rule ratio_antimono [OF _ lo]) simp
  also have "\<dots> \<le> 1.6325237" by simp
  finally have a: "0.622 * pw / (pw - 14.696) \<le> 1.6325237" .
  have "(1.6325234 :: real) \<le> 0.622 * 23.74171942 / (23.74171942 - 14.696)" by simp
  also have "\<dots> \<le> 0.622 * pw / (pw - 14.696)"
    by (rule ratio_antimono [OF _ hi]) (use lo in simp)
  finally have b: "1.6325234 \<le> 0.622 * pw / (pw - 14.696)" .
  from a b show ?thesis unfolding eq pw_def [symmetric] by simp
qed

lemma pws_sp_above_68_6594359:
  "23.8712937 \<le> calculateSaturationPressure_sp 68.6594359"
  by (rule pws_lower [where q = "1.36274988" and y = "1.4059137772"])
    (simp_all add: expLower_def power_divide)

lemma pws_sp_below_68_6594408:
  "calculateSaturationPressure_sp 68.6594408 \<le> 23.8712988"
  by (rule pws_upper [where q = "1.36275005" and y = "1.4059138506"])
    (simp_all add: expUpper_def power_divide)

lemma pws_sp_above_68_5168544:
  "23.7548034 \<le> calculateSaturationPressure_sp 68.5168544"
  by (rule pws_lower [where q = "1.357858" and y = "1.4041954379"])
    (simp_all add: expLower_def power_divide)

lemma pws_sp_below_68_5168688:
  "calculateSaturationPressure_sp 68.5168688 \<le> 23.7548163"
  by (rule pws_upper [where q = "1.3578585" and y = "1.4041956267"])
    (simp_all add: expUpper_def power_divide)

lemma pws_sp_above_68_515715:
  "23.7538744 \<le> calculateSaturationPressure_sp 68.515715"
  by (rule pws_lower [where q = "1.35781889" and y = "1.4041817085"])
    (simp_all add: expLower_def power_divide)

lemma pws_sp_below_68_5157486:
  "calculateSaturationPressure_sp 68.5157486 \<le> 23.7539031"
  by (rule pws_upper [where q = "1.35782006" and y = "1.4041821324"])
    (simp_all add: expUpper_def power_divide)

lemma wet_bulb_70_95_pass1:
  assumes "70 \<le> wb" "wb \<le> 70"
  shows "- 134.05641 \<le> wetBulbError_sp 70 (95 / 100 * calculateSaturationPressure_sp 70) wb \<and>
         wetBulbError_sp 70 (95 / 100 * calculateSaturationPressure_sp 70) wb \<le> - 134.05592"
proof -
  note b = wetBulbError_sp_bounds [OF _ assms _ pws_sp_above_70 pws_sp_below_70, where db = 70
      and pw = "95 / 100 * calculateSaturationPressure_sp 70"
      and wl = "- 1.6325237" and wh = "- 1.6325234"]
  have "(- 134.05641 :: real) \<le> (70 - 70) +
      (0.622 * 24.9912836 / (24.9912836 - 14.696) + (- 1.6325237)) * 1093"
    by simp
  moreover have "(70 - 70) +
      (0.622 * 24.991282 / (24.991282 - 14.696) + (- 1.6325234)) * 1093
      \<le> (- 134.05592 :: real)"
    by simp
  ultimately show ?thesis
    using b humidity_ratio_70_95 by simp
qed

lemma wet_bulb_70_95_pass2:
  assumes "68.6594359 \<le> wb" "wb \<le> 68.6594408"
  shows "- 14.25815 \<le> wetBulbError_sp 70 (95 / 100 * calculateSaturationPressure_sp 70) wb \<and>
         wetBulbError_sp 70 (95 / 100 * calculateSaturationPressure_sp 70) wb \<le> - 14.2572"
proof -
  note b = wetBulbError_sp_bounds [OF _ assms _ pws_sp_above_68_6594359 pws_sp_below_68_6594408, where db = 70
      and pw = "95 / 100 * calculateSaturationPressure_sp 70"
      and wl = "- 1.6325237" and wh = "- 1.6325234"]
  have "(- 14.25815 :: real) \<le> (70 - 68.6594408) +
      (0.622 * 23.8712988 / (23.8712988 - 14.696) + (- 1.6325237)) * 1093"
    by simp
  moreover have "(70 - 68.6594359) +
      (0.622 * 23.8712937 / (23.8712937 - 14.696) + (- 1.6325234)) * 1093
      \<le> (- 14.2572 :: real)"
    by simp
  ultimately show ?thesis
    using b humidity_ratio_70_95 by simp
qed

lemma wet_bulb_70_95_pass3:
  assumes "68.5168544 \<le> wb" "wb \<le> 68.5168688"
  shows "- 0.11394 \<le> wetBulbError_sp 70 (95 / 100 * calculateSaturationPressure_sp 70) wb \<and>
         wetBulbError_sp 70 (95 / 100 * calculateSaturationPressure_sp 70) wb \<le> - 0.11202"
proof -
  note b = wetBulbError_sp_bounds [OF _ assms _ pws_sp_above_68_5168544 pws_sp_below_68_5168688, where db = 70
      and pw = "95 / 100 * calculateSaturationPressure_sp 70"
      and wl = "- 1.6325237" and wh = "- 1.6325234"]
  have "(- 0.11394 :: real) \<le> (70 - 68.5168688) +
      (0.622 * 23.7548163 / (23.7548163 - 14.696) + (- 1.6325237)) * 1093"
    by simp
  moreover have "(70 - 68.5168544) +
      (0.622 * 23.7548034 / (23.7548034 - 14.696) + (- 1.6325234)) * 1093
      \<le> (- 0.11202 :: real)"
    by simp
  ultimately show ?thesis
    using b humidity_ratio_70_95 by simp
qed

lemma wet_bulb_70_95_pass4:
  assumes "68.515715 \<le> wb" "wb \<le> 68.5157486"
  shows "- 0.00163 \<le> wetBulbError_sp 70 (95 / 100 * calculateSaturationPressure_sp 70) wb \<and>
         wetBulbError_sp 70 (95 / 100 * calculateSaturationPressure_sp 70) wb \<le> 0.00224"
proof -
  note b = wetBulbError_sp_bounds [OF _ assms _ pws_sp_above_68_515715 pws_sp_below_68_5157486, where db = 70
      and pw = "95 / 100 * calculateSaturationPressure_sp 70"
      and wl = "- 1.6325237" and wh = "- 1.6325234"]
  have "(- 0.00163 :: real) \<le> (70 - 68.5157486) +
      (0.622 * 23.7539031 / (23.7539031 - 14.696) + (- 1.6325237)) * 1093"
    by simp
  moreover have "(70 - 68.515715) +
      (0.622 * 23.7538744 / (23.7538744 - 14.696) + (- 1.6325234)) * 1093
      \<le> (0.00224 :: real)"
    by simp
  ultimately show ?thesis
    using b humidity_ratio_70_95 by simp
qed

lemma calculateWetBulb_sp_70_95:
  "\<exists>wb. calculateWetBulb_sp 70 95 = Some wb \<and> 68.5156987 \<le> wb \<and> wb \<le> 68.515771"
proof -
  define pw where "pw = 95 / 100 * calculateSaturationPressure_sp 70"
  define e1 where "e1 = wetBulbError_sp 70 pw 70"
  define wb1 where "wb1 = 70 + e1 / 100"
  define e2 where "e2 = wetBulbError_sp 70 pw wb1"
  define wb2 where "wb2 = wb1 + e2 / 100"
  define e3 where "e3 = wetBulbError_sp 70 pw wb2"
  define wb3 where "wb3 = wb2 + e3 / 100"
  define e4 where "e4 = wetBulbError_sp 70 pw wb3"
  define wb4 where "wb4 = wb3 + e4 / 100"
  have b1: "- 134.05641 \<le> e1 \<and> e1 \<le> - 134.05592"
    unfolding e1_def pw_def by (rule wet_bulb_70_95_pass1) simp_all
  then have w1: "68.6594359 \<le> wb1" "wb1 \<le> 68.6594408"
    by (simp_all add: wb1_def)
  have b2: "- 14.25815 \<le> e2 \<and> e2 \<le> - 14.2572"
    unfolding e2_def pw_def using w1 by (rule wet_bulb_70_95_pass2)
  then have w2: "68.5168544 \<le> wb2" "wb2 \<le> 68.5168688"
    using w1 by (simp_all add: wb2_def)
  have b3: "- 0.11394 \<le> e3 \<and> e3 \<le> - 0.11202"
    unfolding e3_def pw_def using w2 by (rule wet_bulb_70_95_pass3)
  then have w3: "68.515715 \<le> wb3" "wb3 \<le> 68.5157486"
    using w2 by (simp_all add: wb3_def)
  have b4: "- 0.00163 \<le> e4 \<and> e4 \<le> 0.00224"
    unfolding e4_def pw_def using w3 by (rule wet_bulb_70_95_pass4)
  then have w4: "68.5156987 \<le> wb4" "wb4 \<le> 68.515771"
    using w3 by (simp_all add: wb4_def)
  have "calculateWetBulb_sp 70 95 = wetBulbLoop_sp 70 pw 70 1"
    by (simp add: calculateWetBulb_sp_def Let_def pw_def)
  also have "\<dots> = wetBulbLoop_sp 70 pw wb1 e1"
    by (subst wetBulbLoop_sp_step) (simp add: wb1_def e1_def)
  also have "\<dots> = wetBulbLoop_sp 70 pw wb2 e2"
    using b1 by (subst wetBulbLoop_sp_step) (simp add: wb2_def e2_def)
  also have "\<dots> = wetBulbLoop_sp 70 pw wb3 e3"
    using b2 by (subst wetBulbLoop_sp_step) (simp add: wb3_def e3_def)
  also have "\<dots> = wetBulbLoop_sp 70 pw wb4 e4"
    using b3 by (subst wetBulbLoop_sp_step) (simp add: wb4_def e4_def)
  also have "\<dots> = Some wb4"
  proof -
    from b4 have "\<not> 0.01 < \<bar>e4\<bar>" by (simp add: abs_if)
    then show ?thesis by (subst wetBulbLoop_sp_step) simp
  qed
  finally show ?thesis using w4 by blast
qed

lemma pws_sp_above_68_5156987:
  "23.7538611 \<le> calculateSaturationPressure_sp 68.5156987"
  by (rule pws_lower [where q = "1.35781833" and y = "1.4041815119"])
    (simp_all add: expLower_def power_divide)

lemma pws_sp_below_68_515771:
  "calculateSaturationPressure_sp 68.515771 \<le> 23.7539212"
  by (rule pws_upper [where q = "1.35782082" and y = "1.4041823992"])
    (simp_all add: expUpper_def power_divide)

lemma rh_from_wet_bulb_70:
  assumes "68.5156987 \<le> wb" "wb \<le> 68.515771"
  shows "42.4 \<le> calculateRHFromWetBulb_sp 70 wb \<and> calculateRHFromWetBulb_sp 70 wb \<le> 42.5"
proof -
  define p where "p = calculateSaturationPressure_sp wb"
  define p70 where "p70 = calculateSaturationPressure_sp 70"
  define a where "a = 1093 - 0.556 * wb"
  define n where "n = a * p - 0.24 * (70 - wb) * 14.696"
  define dn where "dn = (1093 + 0.444 * 70 - wb) * 14.696"
  define w where "w = n / dn"
  define pw where "pw = w * 14.696 / (0.622 + w)"
  have eq: "calculateRHFromWetBulb_sp 70 wb = pw / p70 * 100"
    by (simp only: calculateRHFromWetBulb_sp_def Let_def ATMOSPHERIC_PRESSURE_def
        p_def p70_def a_def n_def dn_def w_def pw_def)
  have "calculateSaturationPressure_sp 68.5156987 \<le> p"
    unfolding p_def using assms(1) by (intro pws_mono) simp_all
  with pws_sp_above_68_5156987 have p_lo: "23.7538611 \<le> p" by linarith
  have "p \<le> calculateSaturationPressure_sp 68.515771"
    unfolding p_def using assms by (intro pws_mono) simp_all
  with pws_sp_below_68_515771 have p_hi: "p \<le> 23.7539212" by linarith
  have p70: "24.991282 \<le> p70" "p70 \<le> 24.9912836"
    unfolding p70_def using pws_sp_above_70 pws_sp_below_70 by simp_all
  have a: "1054.905231324 \<le> a" "a \<le> 1054.9052715228"
    using assms by (simp_all add: a_def)
  define ap where "ap = a * p"
  have n_eq: "n = ap - 0.24 * (70 - wb) * 14.696"
    by (simp only: n_def ap_def)
  have "1054.905231324 * 23.7538611 \<le> ap"
    unfolding ap_def using a(1) p_lo by (intro mult_mono) simp_all
  moreover have "ap \<le> 1054.9052715228 * 23.7539212"
    unfolding ap_def using a p_lo p_hi by (intro mult_mono) simp_all
  ultimately have n: "25052.8371 \<le> n" "n \<le> 25052.9018"
    using assms unfolding n_eq by (simp_all add: field_simps)
  have dn: "15512.5719 \<le> dn" "dn \<le> 15512.573"
    using assms by (simp_all add: dn_def)
  have "(1.615002 :: real) \<le> 25052.8371 / 15512.573" by simp
  also have "\<dots> \<le> n / dn"
    using n dn by (intro frac_le) simp_all
  finally have w_lo: "1.615002 \<le> w" by (simp add: w_def)
  have "n / dn \<le> 25052.9018 / 15512.5719"
    using n dn by (intro frac_le) simp_all
  also have "\<dots> \<le> (1.6150064 :: real)" by simp
  finally have w_hi: "w \<le> 1.6150064" by (simp add: w_def)
  have mono: "x * 14.696 / (0.622 + x) \<le> y * 14.696 / (0.622 + y)"
    if "0 \<le> x" "x \<le> y" for x y :: real
    using that by (simp add: field_simps)
  have "(10.609766 :: real) \<le> 1.615002 * 14.696 / (0.622 + 1.615002)" by simp
  also have "\<dots> \<le> pw"
    unfolding pw_def using w_lo by (intro mono) simp_all
  finally have pw_lo: "10.609766 \<le> pw" .
  have "pw \<le> 1.6150064 * 14.696 / (0.622 + 1.6150064)"
    unfolding pw_def using w_lo w_hi by (intro mono) simp_all
  also have "\<dots> \<le> (10.609775 :: real)" by simp
  finally have pw_hi: "pw \<le> 10.609775" .
  have "(0.424 :: real) \<le> 10.609766 / 24.9912836" by simp
  also have "\<dots> \<le> pw / p70"
    using pw_lo p70 by (intro frac_le) simp_all
  finally have lo: "42.4 \<le> pw / p70 * 100" by simp
  have "pw / p70 \<le> 10.609775 / 24.991282"
    using pw_lo pw_hi p70 by (intro frac_le) simp_all
  also have "\<dots> \<le> (0.425 :: real)" by simp
  finally have hi: "pw / p70 * 100 \<le> 42.5" by simp
  from lo hi show ?thesis unfolding eq by simp
qed

text \<open>
  Claim C6 (for T in [60, 100] F and RH in [10, 95] the relative humidity computed back
  from the wet bulb is within 0.5 % of RH). In the first version, at T = 70 F and
  RH = 95 the wet-bulb solver returns an estimate of about 68.52 F and the relative
  humidity computed back from it lies between 42.4 and 42.5.
\<close>

theorem wet_bulb_round_trip_fails_sp:
  "\<exists>wb. calculateWetBulb_sp 70 95 = Some wb \<and>
        42.4 \<le> calculateRHFromWetBulb_sp 70 wb \<and>
        calculateRHFromWetBulb_sp 70 wb \<le> 42.5"
proof -
  obtain wb where wb: "calculateWetBulb_sp 70 95 = Some wb"
      "68.5156987 \<le> wb" "wb \<le> 68.515771"
    using calculateWetBulb_sp_70_95 by blast
  from rh_from_wet_bulb_70 [OF wb(2,3)] wb(1) show ?thesis by blast
qed

subsection \<open>Handlers as functions of their inputs\<close>

text \<open>
  Each handler reads the input slots only. The state it returns is the given state with
  the result replaced by the record that the handler computes from the same inputs and
  an empty result slot, and the given state when it computes none.
\<close>

lemma calculateCapacitance_of_inputs:
  "calculateCapacitance s =
     (case result (calculateCapacitance \<lparr>inputs = inputs s, result = None\<rparr>) of
        None \<Rightarrow> s | Some r \<Rightarrow> s\<lparr>result := Some r\<rparr>)"
  by (auto simp only: calculateCapacitance_def Let_def simp_thms component.simps option.simps prod.simps
      split: option.splits)

lemma calculateMoldRisk_of_inputs:
  "calculateMoldRisk s =
     (case result (calculateMoldRisk \<lparr>inputs = inputs s, result = None\<rparr>) of
        None \<Rightarrow> s | Some r \<Rightarrow> s\<lparr>result := Some r\<rparr>)"
  by (auto simp only: calculateMoldRisk_def Let_def simp_thms component.simps option.simps prod.simps
      split: option.splits)

lemma calculateDehumidifierSize_of_inputs:
  "calculateDehumidifierSize s =
     (case result (calculateDehumidifierSize \<lparr>inputs = inputs s, result = None\<rparr>) of
        None \<Rightarrow> s | Some r \<Rightarrow> s\<lparr>result := Some r\<rparr>)"
  by (auto simp only: calculateDehumidifierSize_def Let_def simp_thms component.simps option.simps prod.simps
      split: option.splits)

lemma calculateVentilation_of_inputs:
  "calculateVentilation s =
     (case result (calculateVentilation \<lparr>inputs = inputs s, result = None\<rparr>) of
        None \<Rightarrow> s | Some r \<Rightarrow> s\<lparr>result := Some r\<rparr>)"
  by (auto simp only: calculateVentilation_def Let_def simp_thms component.simps option.simps prod.simps
      split: option.splits)

lemma calculateFilterParameters_of_inputs:
  "calculateFilterParameters s =
     (case result (calculateFilterParameters \<lparr>inputs = inputs s, result = None\<rparr>) of
        None \<Rightarrow> s | Some r \<Rightarrow> s\<lparr>result := Some r\<rparr>)"
  by (auto simp only: calculateFilterParameters_def Let_def simp_thms component.simps option.simps prod.simps
      split: option.splits)

lemma calculateFromPressure_of_inputs:
  "calculateFromPressure s =
     (case result (calculateFromPressure \<lparr>inputs = inputs s, result = None\<rparr>) of
        None \<Rightarrow> s | Some r \<Rightarrow> s\<lparr>result := Some r\<rparr>)"
  by (auto simp only: calculateFromPressure_def Let_def simp_thms component.simps option.simps prod.simps
      split: option.splits)

lemma calculateFromAirflow_of_inputs:
  "calculateFromAirflow s =
     (case result (calculateFromAirflow \<lparr>inputs = inputs s, result = None\<rparr>) of
        None \<Rightarrow> s | Some r \<Rightarrow> s\<lparr>result := Some r\<rparr>)"
  by (auto simp only: calculateFromAirflow_def Let_def simp_thms component.simps option.simps prod.simps
      split: option.splits)

lemma calculateProperties_p1_of_inputs:
  "calculateProperties_p1 s =
     (case result (calculateProperties_p1 \<lparr>inputs = inputs s, result = None\<rparr>) of
        None \<Rightarrow> s | Some r \<Rightarrow> s\<lparr>result := Some r\<rparr>)"
  by (auto simp only: calculateProperties_p1_def Let_def simp_thms component.simps option.simps prod.simps
      split: option.splits)

lemma calculateDuctSize_of_inputs:
  "calculateDuctSize s =
     (case result (calculateDuctSize \<lparr>inputs = inputs s, result = None\<rparr>) of
        None \<Rightarrow> s | Some r \<Rightarrow> s\<lparr>result := Some r\<rparr>)"
  by (auto simp only: calculateDuctSize_def Let_def simp_thms component.simps option.simps
      prod.simps split: option.splits prod.splits)

lemma calculatePressure_of_inputs:
  "calculatePressure s =
     (case result (calculatePressure \<lparr>inputs = inputs s, result = None\<rparr>) of
        None \<Rightarrow> s | Some r \<Rightarrow> s\<lparr>result := Some r\<rparr>)"
  using calculateFromPressure_of_inputs [of s] calculateFromAirflow_of_inputs [of s]
  by (cases "calculationMode (inputs s)")
    (simp_all only: calculatePressure_def component.simps CalculationMode.simps)

lemma calculateProperties_sp_of_inputs:
  "calculateProperties_sp s =
     map_option (\<lambda>t. case result t of None \<Rightarrow> s | Some r \<Rightarrow> s\<lparr>result := Some r\<rparr>)
       (calculateProperties_sp \<lparr>inputs = inputs s, result = None\<rparr>)"
  by (auto simp only: calculateProperties_sp_def Let_def simp_thms component.simps option.simps
      prod.simps split: option.splits)

text \<open>
  Started on an empty result slot, a handler stores a result exactly when the fields that
  its guard tests are present.
\<close>

lemma calculateCapacitance_result_iff:
  "result (calculateCapacitance \<lparr>inputs = i, result = None\<rparr>) \<noteq> None \<longleftrightarrow>
     startWinding i \<noteq> None \<and> voltage i \<noteq> None"
  by (auto simp only: calculateCapacitance_def Let_def simp_thms component.simps option.simps prod.simps
      split: option.splits)

lemma calculateMoldRisk_result_iff:
  "result (calculateMoldRisk \<lparr>inputs = i, result = None\<rparr>) \<noteq> None \<longleftrightarrow>
     dryBulb i \<noteq> None \<and> relativeHumidity i \<noteq> None"
  by (auto simp only: calculateMoldRisk_def Let_def simp_thms component.simps option.simps prod.simps
      split: option.splits)

lemma calculateDehumidifierSize_result_iff:
  "result (calculateDehumidifierSize \<lparr>inputs = i, result = None\<rparr>) \<noteq> None \<longleftrightarrow>
     latentLoad i \<noteq> None \<and> indoorTemp i \<noteq> None \<and>
     indoorRH i \<noteq> None"
  by (auto simp only: calculateDehumidifierSize_def Let_def simp_thms component.simps option.simps prod.simps
      split: option.splits)

lemma calculateVentilation_result_iff:
  "result (calculateVentilation \<lparr>inputs = i, result = None\<rparr>) \<noteq> None \<longleftrightarrow>
     pressureDifferential_in i \<noteq> None \<and> outdoorTemp i \<noteq> None \<and>
     outdoorDewPoint i \<noteq> None \<and> atticTemp i \<noteq> None \<and>
     atticDewPoint i \<noteq> None \<and> atticArea i \<noteq> None"
  by (auto simp only: calculateVentilation_def Let_def simp_thms component.simps option.simps prod.simps
      split: option.splits)

lemma calculateFilterParameters_result_iff:
  "result (calculateFilterParameters \<lparr>inputs = i, result = None\<rparr>) \<noteq> None \<longleftrightarrow>
     systemSize i \<noteq> None \<and> climateZone i \<noteq> None \<and>
     filterWidth i \<noteq> None \<and> filterHeight i \<noteq> None \<and>
     filterType i \<noteq> None"
  by (auto simp only: calculateFilterParameters_def Let_def simp_thms component.simps option.simps prod.simps
      split: option.splits)

lemma calculateFromPressure_result_iff:
  "result (calculateFromPressure \<lparr>inputs = i, result = None\<rparr>) \<noteq> None \<longleftrightarrow>
     measuredPressure i \<noteq> None \<and> doorWidth i \<noteq> None \<and>
     doorHeight i \<noteq> None \<and> doorUndercut i \<noteq> None"
  by (auto simp only: calculateFromPressure_def Let_def simp_thms component.simps option.simps prod.simps
      split: option.splits)

lemma calculateFromAirflow_result_iff:
  "result (calculateFromAirflow \<lparr>inputs = i, result = None\<rparr>) \<noteq> None \<longleftrightarrow>
     targetPressure i \<noteq> None \<and> doorWidth i \<noteq> None \<and>
     doorHeight i \<noteq> None \<and> doorUndercut i \<noteq> None \<and>
     airflow_pr i \<noteq> None"
  by (auto simp only: calculateFromAirflow_def Let_def simp_thms component.simps option.simps prod.simps
      split: option.splits)

lemma calculateProperties_p1_result_iff:
  "result (calculateProperties_p1 \<lparr>inputs = i, result = None\<rparr>) \<noteq> None \<longleftrightarrow>
     enteringDryBulb_p1 i \<noteq> None \<and>
     enteringHumidity_p1 i \<noteq> None \<and>
     leavingDryBulb_p1 i \<noteq> None \<and> leavingHumidity_p1 i \<noteq> None \<and>
     airflow_p1 i \<noteq> None \<and> systemSize_p1 i \<noteq> None \<and>
     climateZone_p1 i \<noteq> None"
  by (auto simp only: calculateProperties_p1_def Let_def simp_thms component.simps option.simps prod.simps
      split: option.splits)

text \<open>The duct handler asks for the width as well when the duct is rectangular.\<close>

lemma calculateDuctSize_result_iff:
  "result (calculateDuctSize \<lparr>inputs = i, result = None\<rparr>) \<noteq> None \<longleftrightarrow>
     airflow_duct i \<noteq> None \<and> designStaticPressure i \<noteq> None \<and>
     (case ductType i of
        None \<Rightarrow> False
      | Some dt \<Rightarrow> \<not> (includesRect dt \<and> width_duct i = None))"
  by (auto simp only: calculateDuctSize_def sizeDuct_def Let_def simp_thms component.simps
      option.simps prod.simps if_True if_False split: option.splits prod.splits if_splits)

lemma calculatePressure_result_iff:
  "result (calculatePressure \<lparr>inputs = i, result = None\<rparr>) \<noteq> None \<longleftrightarrow>
     doorWidth i \<noteq> None \<and> doorHeight i \<noteq> None \<and> doorUndercut i \<noteq> None \<and>
     (case calculationMode i of
        KnownAirflow \<Rightarrow> targetPressure i \<noteq> None \<and> airflow_pr i \<noteq> None
      | MeasuredPressure \<Rightarrow> measuredPressure i \<noteq> None)"
  using calculateFromPressure_result_iff [of i] calculateFromAirflow_result_iff [of i]
  by (cases "calculationMode i")
    (auto simp only: calculatePressure_def component.simps CalculationMode.simps simp_thms)

text \<open>
  Together: for each handler there is a function \<open>compute\<close> of the input slots alone
  such that the handler stores \<open>compute (inputs s)\<close> when that is a record and leaves the
  state as it is otherwise. For the first version of the psychrometric calculator, whose
  handler may fail to return, whether it returns is a function of the inputs as well.
  This is a statement about the handlers as functions on the component state; what lies
  outside that state (module variables, the clock, the bits of a double) is not part of
  the embedding.
\<close>

lemma handlers_factor_through_inputs:
  "(\<exists>compute. \<forall>s. calculateCapacitance s =
      (case compute (inputs s) of None \<Rightarrow> s | Some r \<Rightarrow> s\<lparr>result := Some r\<rparr>)) \<and>
   (\<exists>compute. \<forall>s. calculateMoldRisk s =
      (case compute (inputs s) of None \<Rightarrow> s | Some r \<Rightarrow> s\<lparr>result := Some r\<rparr>)) \<and>
   (\<exists>compute. \<forall>s. calculateDehumidifierSize s =
      (case compute (inputs s) of None \<Rightarrow> s | Some r \<Rightarrow> s\<lparr>result := Some r\<rparr>)) \<and>
   (\<exists>compute. \<forall>s. calculateVentilation s =
      (case compute (inputs s) of None \<Rightarrow> s | Some r \<Rightarrow> s\<lparr>result := Some r\<rparr>)) \<and>
   (\<exists>compute. \<forall>s. calculateFilterParameters s =
      (case compute (inputs s) of None \<Rightarrow> s | Some r \<Rightarrow> s\<lparr>result := Some r\<rparr>)) \<and>
   (\<exists>compute. \<forall>s. calculateDuctSize s =
      (case compute (inputs s) of None \<Rightarrow> s | Some r \<Rightarrow> s\<lparr>result := Some r\<rparr>)) \<and>
   (\<exists>compute. \<forall>s. calculatePressure s =
      (case compute (inputs s) of None \<Rightarrow> s | Some r \<Rightarrow> s\<lparr>result := Some r\<rparr>)) \<and>
   (\<exists>compute. \<forall>s. calculateProperties_p1 s =
      (case compute (inputs s) of None \<Rightarrow> s | Some r \<Rightarrow> s\<lparr>result := Some r\<rparr>)) \<and>
   (\<exists>compute. \<forall>s. calculateProperties_sp s =
      map_option (\<lambda>out. case out of None \<Rightarrow> s | Some r \<Rightarrow> s\<lparr>result := Some r\<rparr>)
        (compute (inputs s)))"
proof (intro conjI)
  show "\<exists>compute. \<forall>s. calculateCapacitance s =
      (case compute (inputs s) of None \<Rightarrow> s | Some r \<Rightarrow> s\<lparr>result := Some r\<rparr>)"
    by (intro allI
        exI [where x = "\<lambda>i. result (calculateCapacitance \<lparr>inputs = i, result = None\<rparr>)"])
      (rule calculateCapacitance_of_inputs)
  show "\<exists>compute. \<forall>s. calculateMoldRisk s =
      (case compute (inputs s) of None \<Rightarrow> s | Some r \<Rightarrow> s\<lparr>result := Some r\<rparr>)"
    by (intro allI
        exI [where x = "\<lambda>i. result (calculateMoldRisk \<lparr>inputs = i, result = None\<rparr>)"])
      (rule calculateMoldRisk_of_inputs)
  show "\<exists>compute. \<forall>s. calculateDehumidifierSize s =
      (case compute (inputs s) of None \<Rightarrow> s | Some r \<Rightarrow> s\<lparr>result := Some r\<rparr>)"
    by (intro allI
        exI [where x = "\<lambda>i. result (calculateDehumidifierSize \<lparr>inputs = i, result = None\<rparr>)"])
      (rule calculateDehumidifierSize_of_inputs)
  show "\<exists>compute. \<forall>s. calculateVentilation s =
      (case compute (inputs s) of None \<Rightarrow> s | Some r \<Rightarrow> s\<lparr>result := Some r\<rparr>)"
    by (intro allI
        exI [where x = "\<lambda>i. result (calculateVentilation \<lparr>inputs = i, result = None\<rparr>)"])
      (rule calculateVentilation_of_inputs)
  show "\<exists>compute. \<forall>s. calculateFilterParameters s =
      (case compute (inputs s) of None \<Rightarrow> s | Some r \<Rightarrow> s\<lparr>result := Some r\<rparr>)"
    by (intro allI
        exI [where x = "\<lambda>i. result (calculateFilterParameters \<lparr>inputs = i, result = None\<rparr>)"])
      (rule calculateFilterParameters_of_inputs)
  show "\<exists>compute. \<forall>s. calculateDuctSize s =
      (case compute (inputs s) of None \<Rightarrow> s | Some r \<Rightarrow> s\<lparr>result := Some r\<rparr>)"
    by (intro allI
        exI [where x = "\<lambda>i. result (calculateDuctSize \<lparr>inputs = i, result = None\<rparr>)"])
      (rule calculateDuctSize_of_inputs)
  show "\<exists>compute. \<forall>s. calculatePressure s =
      (case compute (inputs s) of None \<Rightarrow> s | Some r \<Rightarrow> s\<lparr>result := Some r\<rparr>)"
    by (intro allI
        exI [where x = "\<lambda>i. result (calculatePressure \<lparr>inputs = i, result = None\<rparr>)"])
      (rule calculatePressure_of_inputs)
  show "\<exists>compute. \<forall>s. calculateProperties_p1 s =
      (case compute (inputs s) of None \<Rightarrow> s | Some r \<Rightarrow> s\<lparr>result := Some r\<rparr>)"
    by (intro allI
        exI [where x = "\<lambda>i. result (calculateProperties_p1 \<lparr>inputs = i, result = None\<rparr>)"])
      (rule calculateProperties_p1_of_inputs)
  show "\<exists>compute. \<forall>s. calculateProperties_sp s =
      map_option (\<lambda>out. case out of None \<Rightarrow> s | Some r \<Rightarrow> s\<lparr>result := Some r\<rparr>)
        (compute (inputs s))"
  proof (intro allI exI [where x = "\<lambda>i. map_option result
      (calculateProperties_sp \<lparr>inputs = i, result = None\<rparr>)"])
    fix s
    show "calculateProperties_sp s =
      map_option (\<lambda>out. case out of None \<Rightarrow> s | Some r \<Rightarrow> s\<lparr>result := Some r\<rparr>)
        (map_option result (calculateProperties_sp \<lparr>inputs = inputs s, result = None\<rparr>))"
      by (subst calculateProperties_sp_of_inputs) (simp only: option.map_comp comp_def)
  qed
qed

end
